theory Spec2Isabelle
  imports Main "HOL-Library.AList"
begin

section \<open>Configuration values\<close>

text \<open>
  The configuration managers of the repository (\<^verbatim>\<open>scripts/config_manager.py\<close>,
  \<^verbatim>\<open>scripts/config_manager_01.py\<close>, \<^verbatim>\<open>scripts/configuration_manager.py\<close>) keep the
  configuration as the tree that \<^verbatim>\<open>json.load\<close> or \<^verbatim>\<open>yaml.safe_load\<close> returns: \<^verbatim>\<open>None\<close>,
  booleans, integers, floats, strings, lists and dictionaries with string keys.

  A dictionary is an association list in insertion order, as a Python \<^verbatim>\<open>dict\<close> keeps it:
  lookup is \<open>map_of\<close>, the assignment \<^verbatim>\<open>d[k] = v\<close> is \<open>AList.update\<close> (the value is
  replaced where the key stands, a new key is appended). A float is carried as the decimal
  literal \<open>m * 10 ^ e\<close> it was written as; the code modelled here never computes with one,
  it only tests it for zero.

  The three files each define a class \<^verbatim>\<open>ConfigManager\<close> with the same method names; a
  definition below carries the suffix \<open>_cm\<close> for \<^verbatim>\<open>config_manager.py\<close>, \<open>_01\<close> for
  \<^verbatim>\<open>config_manager_01.py\<close> and \<open>_cfg\<close> for \<^verbatim>\<open>configuration_manager.py\<close>.
\<close>

datatype pyval =
    PNone
  | PBool bool
  | PInt int
  | PFloat int int
  | PStr string
  | PList "pyval list"
  | PDict "(string \<times> pyval) list"

text \<open>Python's truth value of an object, as \<^verbatim>\<open>if x:\<close> and \<^verbatim>\<open>not x\<close> test it.\<close>

fun truthy :: "pyval \<Rightarrow> bool" where
  "truthy PNone = False"
| "truthy (PBool b) = b"
| "truthy (PInt n) = (n \<noteq> 0)"
| "truthy (PFloat m e) = (m \<noteq> 0)"
| "truthy (PStr s) = (s \<noteq> [])"
| "truthy (PList xs) = (xs \<noteq> [])"
| "truthy (PDict kvs) = (kvs \<noteq> [])"

text \<open>\<^verbatim>\<open>isinstance(value, dict)\<close>.\<close>

fun isinstance_dict :: "pyval \<Rightarrow> bool" where
  "isinstance_dict (PDict kvs) = True"
| "isinstance_dict v = False"

text \<open>The exceptions the modelled code can raise, and \<^verbatim>\<open>sys.exit(n)\<close>.\<close>

datatype pyerr =
    KeyError
  | TypeError
  | AttributeError
  | OSError
  | FileNotFoundError
  | ValueError
  | KeyboardInterrupt
  | SystemExit int

text \<open>\<^verbatim>\<open>value[k]\<close>: a missing key raises KeyError, subscripting anything but a
  dictionary with a string raises TypeError.\<close>

fun getitem :: "pyval \<Rightarrow> string \<Rightarrow> pyerr + pyval" where
  "getitem (PDict kvs) k = (case map_of kvs k of None \<Rightarrow> Inl KeyError | Some v \<Rightarrow> Inr v)"
| "getitem v k = Inl TypeError"

text \<open>\<^verbatim>\<open>k in value\<close>, as the code asks it of a dictionary.\<close>

fun has_key :: "pyval \<Rightarrow> string \<Rightarrow> bool" where
  "has_key (PDict kvs) k = (map_of kvs k \<noteq> None)"
| "has_key v k = False"

text \<open>\<^verbatim>\<open>d.get(k)\<close> on a dictionary: \<^verbatim>\<open>None\<close> for a missing key.\<close>

definition dict_get :: "(string \<times> pyval) list \<Rightarrow> string \<Rightarrow> pyval" where
  "dict_get kvs k = (case map_of kvs k of None \<Rightarrow> PNone | Some v \<Rightarrow> v)"

text \<open>\<^verbatim>\<open>d.update(other)\<close>: the items of \<open>other\<close> are assigned in their order.\<close>

fun dict_update :: "(string \<times> pyval) list \<Rightarrow> (string \<times> pyval) list \<Rightarrow> (string \<times> pyval) list" where
  "dict_update d [] = d"
| "dict_update d ((k, v) # kvs) = dict_update (AList.update k v d) kvs"

text \<open>A dictionary holds each key once; \<open>distinct_keys\<close> says so of a tree's top level.\<close>

fun distinct_keys :: "pyval \<Rightarrow> bool" where
  "distinct_keys (PDict kvs) = distinct (map fst kvs)"
| "distinct_keys v = True"

section \<open>Strings and paths\<close>

text \<open>\<^verbatim>\<open>s.split(c)\<close> for a one-character separator: the pieces between the separators,
  empty pieces kept, never an empty list.\<close>

fun split_sep :: "char \<Rightarrow> string \<Rightarrow> string list" where
  "split_sep c [] = [[]]"
| "split_sep c (x # xs) =
     (if x = c then [] # split_sep c xs
      else (case split_sep c xs of
              [] \<Rightarrow> [[x]]
            | w # ws \<Rightarrow> (x # w) # ws))"

text \<open>\<^verbatim>\<open>sep.join(parts)\<close>.\<close>

fun join_sep :: "string \<Rightarrow> string list \<Rightarrow> string" where
  "join_sep sep [] = []"
| "join_sep sep [p] = p"
| "join_sep sep (p # q # ps) = p @ sep @ join_sep sep (q # ps)"

text \<open>
  \<^verbatim>\<open>pathlib\<close> on POSIX. A path object is its root (\<^verbatim>\<open>''\<close>, \<^verbatim>\<open>'/'\<close> or \<^verbatim>\<open>'//'\<close>: exactly two
  leading slashes are kept, one or three and more are one) and its parts, the pieces between
  slashes without the empty ones and without \<^verbatim>\<open>'.'\<close>. \<open>Path_of s\<close> is \<^verbatim>\<open>Path(s)\<close>,
  \<open>path_str\<close> is \<^verbatim>\<open>str(p)\<close>, \<open>truediv\<close> is \<^verbatim>\<open>p / q\<close>, \<open>path_parent\<close> is \<^verbatim>\<open>p.parent\<close>.
\<close>

datatype ppath = PurePath (root: string) (parts: "string list")

definition posix_root :: "string \<Rightarrow> string" where
  "posix_root s =
     (if take 1 s = ''/'' then (if take 2 s = ''//'' \<and> take 3 s \<noteq> ''///'' then ''//'' else ''/'')
      else [])"

definition Path_of :: "string \<Rightarrow> ppath" where
  "Path_of s =
     PurePath (posix_root s) (filter (\<lambda>x. x \<noteq> [] \<and> x \<noteq> ''.'') (split_sep CHR ''/'' s))"

definition path_str :: "ppath \<Rightarrow> string" where
  "path_str p = (if root p = [] \<and> parts p = [] then ''.'' else root p @ join_sep ''/'' (parts p))"

definition is_absolute :: "ppath \<Rightarrow> bool" where
  "is_absolute p = (root p \<noteq> [])"

definition truediv :: "ppath \<Rightarrow> ppath \<Rightarrow> ppath" where
  "truediv p q = (if root q \<noteq> [] then q else PurePath (root p) (parts p @ parts q))"

definition path_parent :: "ppath \<Rightarrow> ppath" where
  "path_parent p = PurePath (root p) (butlast (parts p))"

text \<open>\<^verbatim>\<open>os.path.join(a, p)\<close> on POSIX: \<open>p\<close> alone when it starts with a slash, else \<open>a\<close>,
  a slash unless \<open>a\<close> is empty or ends with one, and \<open>p\<close>.\<close>

definition os_path_join :: "string \<Rightarrow> string \<Rightarrow> string" where
  "os_path_join a p =
     (if take 1 p = ''/'' then p
      else if a = [] \<or> last a = CHR ''/'' then a @ p
      else a @ ''/'' @ p)"

text \<open>\<^verbatim>\<open>Path(x)\<close> for a configuration value: anything but a string raises TypeError.\<close>

fun Path_arg :: "pyval \<Rightarrow> pyerr + ppath" where
  "Path_arg (PStr s) = Inr (Path_of s)"
| "Path_arg v = Inl TypeError"

section \<open>The runtime and the file system\<close>

text \<open>
  A serialisation library (\<^verbatim>\<open>json\<close>, \<^verbatim>\<open>yaml\<close>) is a reader and a writer over file contents
  \<open>'c\<close>. The reader (\<^verbatim>\<open>json.load\<close>, \<^verbatim>\<open>yaml.safe_load\<close>) returns \<open>None\<close> where the library
  raises its parse error. The writer (\<^verbatim>\<open>json.dump\<close>, \<^verbatim>\<open>yaml.dump\<close>) either completes, and the
  file then holds the whole text, or it raises part-way (\<^verbatim>\<open>json.dump\<close> does on an integer beyond
  the digit limit of integer-to-string conversion), and the file holds what was written
  until then. The contract of the library is part of the type: the reader returns the tree
  for every text the writer completed for it.
\<close>

datatype 'c written = Complete 'c | Partial 'c

fun written_text :: "'c written \<Rightarrow> 'c" where
  "written_text (Complete c) = c"
| "written_text (Partial c) = c"

typedef 'c library =
  "{(rd :: 'c \<Rightarrow> pyval option, wr :: pyval \<Rightarrow> 'c written).
      \<forall>t c. wr t = Complete c \<longrightarrow> rd c = Some t}"
proof
  show "(\<lambda>c. None, \<lambda>t. Partial undefined) \<in>
        {(rd :: 'c \<Rightarrow> pyval option, wr :: pyval \<Rightarrow> 'c written).
           \<forall>t c. wr t = Complete c \<longrightarrow> rd c = Some t}"
    by simp
qed

setup_lifting type_definition_library

lift_definition reader :: "'c library \<Rightarrow> 'c \<Rightarrow> pyval option" is fst .

lift_definition writer :: "'c library \<Rightarrow> pyval \<Rightarrow> 'c written" is snd .

text \<open>\<^verbatim>\<open>getattr(logging, name)\<close>: no such attribute (AttributeError), an integer (the level
  constants), or another object of the module, given by the exception that \<^verbatim>\<open>setLevel\<close> raises
  for it (TypeError; ValueError for a string that names no level).\<close>

datatype log_attr = NoAttr | LevelAttr int | OtherAttr pyerr

text \<open>
  What the Python runtime and its libraries contribute is a parameter of the model: the
  JSON and YAML libraries, \<^verbatim>\<open>str(x)\<close> on a value that is not a string, the attributes of the
  \<^verbatim>\<open>logging\<close> module, the directory of the running script (\<^verbatim>\<open>Path(__file__).parent\<close>) and
  the clock (\<^verbatim>\<open>datetime.now()\<close> as formatted by the two \<^verbatim>\<open>strftime\<close> calls of the code).
\<close>

record 'c runtime =
  json_lib :: "'c library"
  yaml_lib :: "'c library"
  str_repr :: "pyval \<Rightarrow> string"
  logging_attr :: "string \<Rightarrow> log_attr"
  script_dir :: string
  today :: string
  timestamp :: string

definition json_load :: "'c runtime \<Rightarrow> 'c \<Rightarrow> pyval option" where
  "json_load R = reader (json_lib R)"

definition json_dump :: "'c runtime \<Rightarrow> pyval \<Rightarrow> 'c written" where
  "json_dump R = writer (json_lib R)"

definition yaml_safe_load :: "'c runtime \<Rightarrow> 'c \<Rightarrow> pyval option" where
  "yaml_safe_load R = reader (yaml_lib R)"

definition yaml_dump :: "'c runtime \<Rightarrow> pyval \<Rightarrow> 'c written" where
  "yaml_dump R = writer (yaml_lib R)"

text \<open>\<^verbatim>\<open>str(x)\<close>: a string is itself.\<close>

fun py_str :: "'c runtime \<Rightarrow> pyval \<Rightarrow> string" where
  "py_str R (PStr s) = s"
| "py_str R v = str_repr R v"

text \<open>
  The world the code acts on: the regular files with their contents, the directories, the
  paths the operating system refuses to open for reading, the paths it refuses to create
  or open for writing (permissions, a missing parent, a read-only file system), the log
  files opened by \<^verbatim>\<open>logging.FileHandler\<close>, the root logger (whether it has handlers, and its
  level: 30, WARNING, in a fresh process), and the messages printed and logged so far,
  latest last. A message is recorded by its fixed text and the path it names; the text of
  a caught exception and the values formatted into a line are left out. The loggers of
  \<^verbatim>\<open>config_manager.py\<close> and \<^verbatim>\<open>config_manager_01.py\<close> are set to level INFO, so their
  \<^verbatim>\<open>logger.debug\<close> calls emit nothing and are not recorded. Paths are the strings handed to
  the operating system; a created directory is recorded by itself, its ancestors are not
  tracked.
\<close>

datatype level = INFO | WARNING | ERROR

datatype event = Print string | Log level string

record 'c world =
  files :: "string \<rightharpoonup> 'c"
  dirs :: "string set"
  unreadable :: "string set"
  unwritable :: "string set"
  log_files :: "string set"
  root_handlers :: bool
  root_level :: int
  trace :: "event list"

definition emit :: "event \<Rightarrow> 'c world \<Rightarrow> 'c world" where
  "emit ev w = w\<lparr>trace := trace w @ [ev]\<rparr>"

text \<open>\<^verbatim>\<open>Path.exists()\<close> and \<^verbatim>\<open>os.path.exists\<close>.\<close>

definition path_exists :: "'c world \<Rightarrow> string \<Rightarrow> bool" where
  "path_exists w p = (files w p \<noteq> None \<or> p \<in> dirs w)"

text \<open>\<^verbatim>\<open>open(p, 'r')\<close> and reading the whole file.\<close>

definition open_read :: "'c world \<Rightarrow> string \<Rightarrow> pyerr + 'c" where
  "open_read w p =
     (case files w p of
        None \<Rightarrow> (if p \<in> dirs w then Inl OSError else Inl FileNotFoundError)
      | Some c \<Rightarrow> (if p \<in> unreadable w then Inl OSError else Inr c))"

text \<open>
  \<^verbatim>\<open>with open(p, 'w') as f:\<close> followed by a dump into \<open>f\<close>. \<^verbatim>\<open>open\<close> raises and leaves the
  file as it is when the path cannot be opened for writing; otherwise the file is truncated
  and holds what the writer wrote, the whole text or, when the writer raised, the part.
\<close>

definition write_file :: "string \<Rightarrow> 'c written \<Rightarrow> 'c world \<Rightarrow> (pyerr + unit) \<times> 'c world" where
  "write_file p d w =
     (if p \<in> unwritable w \<or> p \<in> dirs w then (Inl OSError, w)
      else (case d of
              Complete c \<Rightarrow> (Inr (), w\<lparr>files := (files w)(p \<mapsto> c)\<rparr>)
            | Partial c \<Rightarrow> (Inl ValueError, w\<lparr>files := (files w)(p \<mapsto> c)\<rparr>)))"

text \<open>\<^verbatim>\<open>os.makedirs(p, exist_ok=True)\<close> and \<^verbatim>\<open>Path.mkdir(parents=True, exist_ok=True)\<close>: an
  existing directory is not an error, a regular file in its place is.\<close>

definition makedirs :: "string \<Rightarrow> 'c world \<Rightarrow> pyerr + 'c world" where
  "makedirs p w =
     (if p \<in> dirs w then Inr w
      else if p \<in> unwritable w \<or> files w p \<noteq> None then Inl OSError
      else Inr (w\<lparr>dirs := insert p (dirs w)\<rparr>))"

text \<open>An instance of \<^verbatim>\<open>ConfigManager\<close>: \<^verbatim>\<open>self.config_file\<close> (the \<^verbatim>\<open>Path\<close>, as the string
  handed to the operating system) and \<^verbatim>\<open>self.config\<close>.\<close>

record manager =
  config_file :: string
  config :: pyval

section \<open>Dotted-key lookup\<close>

text \<open>
  \<^verbatim>\<open>ConfigManager.get\<close> of \<^verbatim>\<open>configuration_manager.py\<close> (lines 110-124) and of
  \<^verbatim>\<open>config_manager_01.py\<close> (lines 180-198):
  \<^verbatim>\<open>
    keys = key.split('.')
    value = self.config
    for k in keys:
        if isinstance(value, dict) and k in value:
            value = value[k]
        else:
            return default
    return value
  \<close>
  The loop is the recursion \<open>get_loop\<close> over the remaining segments. In
  \<^verbatim>\<open>config_manager_01.py\<close> the body stands in a \<^verbatim>\<open>try\<close> whose handler returns the default;
  with a string key and a tree of the type above nothing in the body raises.
\<close>

fun get_loop :: "pyval \<Rightarrow> string list \<Rightarrow> pyval \<Rightarrow> pyval" where
  "get_loop v [] dflt = v"
| "get_loop v (k # ks) dflt =
     (if isinstance_dict v \<and> has_key v k
      then (case getitem v k of Inr v' \<Rightarrow> get_loop v' ks dflt | Inl e \<Rightarrow> dflt)
      else dflt)"

definition get_cfg :: "pyval \<Rightarrow> string \<Rightarrow> pyval \<Rightarrow> pyval" where
  "get_cfg cfg key dflt = get_loop cfg (split_sep CHR ''.'' key) dflt"

definition get_01 :: "pyval \<Rightarrow> string \<Rightarrow> pyval \<Rightarrow> pyval" where
  "get_01 cfg key dflt = get_loop cfg (split_sep CHR ''.'' key) dflt"

text \<open>
  \<^verbatim>\<open>ConfigManager.get\<close> of \<^verbatim>\<open>config_manager.py\<close> (lines 342-351):
  \<^verbatim>\<open>
    keys = key.split('.')
    value = self.config
    for k in keys:
        if isinstance(value, dict):
            value = value.get(k)
        else:
            return default
    return value if value is not None else default
  \<close>
\<close>

fun get_loop_cm :: "pyval \<Rightarrow> string list \<Rightarrow> pyval \<Rightarrow> pyval" where
  "get_loop_cm v [] dflt = (if v \<noteq> PNone then v else dflt)"
| "get_loop_cm v (k # ks) dflt =
     (case v of
        PDict kvs \<Rightarrow> get_loop_cm (dict_get kvs k) ks dflt
      | _ \<Rightarrow> dflt)"

definition get_cm :: "pyval \<Rightarrow> string \<Rightarrow> pyval \<Rightarrow> pyval" where
  "get_cm cfg key dflt = get_loop_cm cfg (split_sep CHR ''.'' key) dflt"

text \<open>
  The lookup as the specification words it: the segments are walked one at a time; the walk
  fails as soon as the current value is not a mapping or the next segment is not one of its
  keys, and otherwise reaches a value after the last segment. \<open>spec_get\<close> returns the
  caller's default where the walk fails and the value reached where it does not.
\<close>

fun walk :: "pyval \<Rightarrow> string list \<Rightarrow> pyval option" where
  "walk v [] = Some v"
| "walk (PDict kvs) (k # ks) = (case map_of kvs k of None \<Rightarrow> None | Some v' \<Rightarrow> walk v' ks)"
| "walk v (k # ks) = None"

definition spec_get :: "pyval \<Rightarrow> string \<Rightarrow> pyval \<Rightarrow> pyval" where
  "spec_get cfg key dflt =
     (case walk cfg (split_sep CHR ''.'' key) of None \<Rightarrow> dflt | Some v \<Rightarrow> v)"

section \<open>\<^verbatim>\<open>config_manager_01.py\<close>\<close>

text \<open>The tree \<^verbatim>\<open>default_config\<close> of \<^verbatim>\<open>create_default_config\<close> (lines 67-126).\<close>

definition default_config_01 :: pyval where
  "default_config_01 = PDict [
     (''project'', PDict [
        (''name'', PStr ''Lake Kariba Wind Analysis''),
        (''version'', PStr ''1.0.0''),
        (''description'', PStr ''Wind analysis for floating solar panels at Lake Kariba'')]),
     (''analysis_period'', PDict [
        (''start_year'', PInt 2015),
        (''end_year'', PInt 2020)]),
     (''paths'', PDict [
        (''base_directory'', PStr ''/home/chawas/deployed/charara''),
        (''data'', PDict [
           (''wind_data'', PStr ''/home/chawas/deployed/charara/data/era5_downloads/wind_data.nc''),
           (''era5_data'', PStr ''/home/chawas/deployed/charara/data/era5_downloads/era5_data.nc'')]),
        (''scripts'', PStr ''/home/chawas/deployed/charara/scripts''),
        (''output'', PDict [
           (''base'', PStr ''/home/chawas/deployed/charara/output''),
           (''maps'', PStr ''/home/chawas/deployed/charara/output/wind_maps''),
           (''timeseries'', PStr ''/home/chawas/deployed/charara/output/timeseries''),
           (''statistics'', PStr ''/home/chawas/deployed/charara/output/statistics''),
           (''reports'', PStr ''/home/chawas/deployed/charara/output/reports'')]),
        (''templates'', PStr ''/home/chawas/deployed/charara/templates''),
        (''logs'', PStr ''/home/chawas/deployed/charara/logs'')]),
     (''location'', PDict [
        (''site_name'', PStr ''Charara Floating Solar Site''),
        (''latitude'', PFloat (- 1653) (- 2)),
        (''longitude'', PFloat 2883 (- 2)),
        (''description'', PStr ''Northeastern Lake Kariba, Zimbabwe'')]),
     (''analysis_parameters'', PDict [
        (''wind_speed_thresholds'', PDict [
           (''normal_operation'', PFloat 80 (- 1)),
           (''caution'', PFloat 120 (- 1)),
           (''danger'', PFloat 150 (- 1)),
           (''emergency_shutdown'', PFloat 180 (- 1))]),
        (''map_extent'', PDict [
           (''min_lon'', PFloat 265 (- 1)),
           (''max_lon'', PFloat 295 (- 1)),
           (''min_lat'', PFloat (- 180) (- 1)),
           (''max_lat'', PFloat (- 160) (- 1))]),
        (''charara_highlight_radius'', PFloat 2 (- 1)),
        (''wind_speed_range'', PList [PInt 0, PInt 10])]),
     (''plotting'', PDict [
        (''figure_size'', PList [PInt 16, PInt 12]),
        (''dpi'', PInt 300),
        (''font_size'', PDict [
           (''title'', PInt 16),
           (''axis'', PInt 12),
           (''legend'', PInt 10),
           (''annotation'', PInt 9)])])]"

text \<open>
  \<^verbatim>\<open>create_default_config\<close> (lines 65-136): the default tree is written to the configuration
  file inside a \<^verbatim>\<open>try\<close>; a failure of the write is logged and the tree is returned all the
  same.
\<close>

definition create_default_config_01 :: "'c runtime \<Rightarrow> string \<Rightarrow> 'c world \<Rightarrow> pyval \<times> 'c world" where
  "create_default_config_01 R file w =
     (case write_file file (json_dump R default_config_01) w of
        (Inr u, w') \<Rightarrow>
          (default_config_01, emit (Log INFO (''Default configuration created at: '' @ file)) w')
      | (Inl e, w') \<Rightarrow>
          (default_config_01, emit (Log ERROR ''Could not save default config'') w'))"

text \<open>
  \<^verbatim>\<open>load_config\<close> (lines 45-63):
  \<^verbatim>\<open>
    try:
        if not self.config_file.exists():
            self.logger.error(f"Config file not found: {self.config_file}")
            return self.create_default_config()
        with open(self.config_file, 'r') as f:
            config = json.load(f)
        self.logger.info(f"Configuration loaded from: {self.config_file}")
        return config
    except json.JSONDecodeError as e:
        self.logger.error(f"Error parsing JSON: {e}")
        return self.create_default_config()
    except Exception as e:
        self.logger.error(f"Error loading config: {e}")
        return self.create_default_config()
  \<close>
\<close>

definition load_config_01 :: "'c runtime \<Rightarrow> string \<Rightarrow> 'c world \<Rightarrow> pyval \<times> 'c world" where
  "load_config_01 R file w =
     (if \<not> path_exists w file
      then create_default_config_01 R file (emit (Log ERROR (''Config file not found: '' @ file)) w)
      else (case open_read w file of
              Inl e \<Rightarrow> create_default_config_01 R file (emit (Log ERROR ''Error loading config'') w)
            | Inr c \<Rightarrow>
                (case json_load R c of
                   None \<Rightarrow> create_default_config_01 R file (emit (Log ERROR ''Error parsing JSON'') w)
                 | Some cfg \<Rightarrow> (cfg, emit (Log INFO (''Configuration loaded from: '' @ file)) w))))"

text \<open>
  \<^verbatim>\<open>get_path\<close> (lines 200-226). The result is \<^verbatim>\<open>None\<close> for a value that is missing or
  false; a relative path is joined to \<^verbatim>\<open>paths.base_directory\<close> when that is true, and
  returned as it is with a warning when not. \<^verbatim>\<open>Path(base_dir)\<close> raises for a base directory
  that is not a string; the handler logs the error and returns \<^verbatim>\<open>None\<close>.
\<close>

definition get_path_01 :: "'c runtime \<Rightarrow> pyval \<Rightarrow> string \<Rightarrow> 'c world \<Rightarrow> string option \<times> 'c world" where
  "get_path_01 R cfg key w =
     (let path_value = get_01 cfg key PNone in
      if \<not> truthy path_value then (None, w)
      else
        (let path = Path_of (py_str R path_value) in
         if \<not> is_absolute path then
           (let base_dir = get_01 cfg ''paths.base_directory'' PNone in
            if truthy base_dir then
              (case Path_arg base_dir of
                 Inl e \<Rightarrow> (None, emit (Log ERROR (''Error getting path for key '' @ key)) w)
               | Inr b \<Rightarrow> (Some (path_str (truediv b path)), w))
            else (Some (path_str path),
                  emit (Log WARNING (''Cannot make path absolute, no base directory: '' @ key)) w))
         else (Some (path_str path), w)))"

text \<open>
  \<^verbatim>\<open>setup_directories\<close> (lines 138-178). The list \<^verbatim>\<open>directories\<close> holds configuration
  values and results of \<^verbatim>\<open>get_path\<close> (\<open>path_result\<close>: \<^verbatim>\<open>None\<close> or a string). The loop
  at its end:
  \<^verbatim>\<open>
    for directory in directories:
        if directory and isinstance(directory, (str, Path)):
            try:
                os.makedirs(directory, exist_ok=True)
                self.logger.debug(f"Created/verified directory: {directory}")
            except Exception as e:
                self.logger.error(f"Error creating directory {directory}: {e}")
        else:
            self.logger.warning(f"Skipping invalid directory path: {directory}")
  \<close>
\<close>

fun path_result :: "string option \<Rightarrow> pyval" where
  "path_result None = PNone"
| "path_result (Some s) = PStr s"

fun create_loop_01 :: "pyval list \<Rightarrow> 'c world \<Rightarrow> 'c world" where
  "create_loop_01 [] w = w"
| "create_loop_01 (directory # rest) w =
     create_loop_01 rest
       (case directory of
          PStr s \<Rightarrow>
            (if s \<noteq> [] then
               (case makedirs s w of
                  Inr w' \<Rightarrow> w'
                | Inl e \<Rightarrow> emit (Log ERROR (''Error creating directory '' @ s)) w)
             else emit (Log WARNING ''Skipping invalid directory path'') w)
        | _ \<Rightarrow> emit (Log WARNING ''Skipping invalid directory path'') w)"

definition directories_01 :: "'c runtime \<Rightarrow> pyval \<Rightarrow> 'c world \<Rightarrow> pyval list \<times> 'c world" where
  "directories_01 R cfg w =
     (let base_dir = get_01 cfg ''paths.base_directory'' PNone;
          ds0 = (if truthy base_dir then [base_dir] else []);
          output_base = get_01 cfg ''paths.output.base'' PNone;
          (ds1, w1) =
            (if truthy output_base then
               (let (m, wa) = get_path_01 R cfg ''output.maps'' w;
                    (t, wb) = get_path_01 R cfg ''output.timeseries'' wa;
                    (s, wc) = get_path_01 R cfg ''output.statistics'' wb;
                    (r, wd) = get_path_01 R cfg ''output.reports'' wc
                in (ds0 @ [output_base, path_result m, path_result t, path_result s, path_result r], wd))
             else (ds0, w));
          (sc, w2) = get_path_01 R cfg ''scripts'' w1;
          (lg, w3) = get_path_01 R cfg ''logs'' w2;
          (tp, w4) = get_path_01 R cfg ''templates'' w3;
          other_dirs = [path_result sc, path_result lg, path_result tp]
      in (ds1 @ filter truthy other_dirs, w4))"

definition setup_directories_01 :: "'c runtime \<Rightarrow> pyval \<Rightarrow> 'c world \<Rightarrow> 'c world" where
  "setup_directories_01 R cfg w =
     (let (directories, w1) = directories_01 R cfg w
      in emit (Log INFO ''Directories setup complete'') (create_loop_01 directories w1))"

text \<open>\<^verbatim>\<open>__init__\<close> (lines 17-28): without an argument the file is \<^verbatim>\<open>config.json\<close> beside the
  script.\<close>

definition init_01 :: "'c runtime \<Rightarrow> string option \<Rightarrow> 'c world \<Rightarrow> manager \<times> 'c world" where
  "init_01 R arg w =
     (let file = (case arg of
                    None \<Rightarrow> path_str (truediv (Path_of (script_dir R)) (Path_of ''config.json''))
                  | Some f \<Rightarrow> path_str (Path_of f));
          (cfg, w1) = load_config_01 R file w
      in (\<lparr>config_file = file, config = cfg\<rparr>, setup_directories_01 R cfg w1))"

text \<open>\<^verbatim>\<open>save_config\<close> (lines 269-278): \<^verbatim>\<open>True\<close> when the file was written, \<^verbatim>\<open>False\<close> with a
  logged error when not.\<close>

definition save_config_01 :: "'c runtime \<Rightarrow> manager \<Rightarrow> 'c world \<Rightarrow> bool \<times> 'c world" where
  "save_config_01 R self w =
     (case write_file (config_file self) (json_dump R (config self)) w of
        (Inr u, w') \<Rightarrow> (True, emit (Log INFO (''Configuration saved to: '' @ config_file self)) w')
      | (Inl e, w') \<Rightarrow> (False, emit (Log ERROR ''Error saving config'') w'))"

text \<open>
  \<^verbatim>\<open>update_analysis_period\<close> (lines 260-267):
  \<^verbatim>\<open>
    if "analysis_period" not in self.config:
        self.config["analysis_period"] = {}
    self.config["analysis_period"]["start_year"] = start_year
    self.config["analysis_period"]["end_year"] = end_year
    self.save_config()
  \<close>
  A tree that is not a dictionary, or whose \<^verbatim>\<open>analysis_period\<close> is not one, raises TypeError
  at the first assignment it reaches, before anything is changed. The result is the
  exception or nothing, the instance and the world afterwards.
\<close>

definition update_analysis_period_01 ::
  "'c runtime \<Rightarrow> manager \<Rightarrow> pyval \<Rightarrow> pyval \<Rightarrow> 'c world \<Rightarrow> (pyerr + unit) \<times> manager \<times> 'c world" where
  "update_analysis_period_01 R self start_year end_year w =
     (case config self of
        PDict kvs \<Rightarrow>
          (let kvs1 = (if map_of kvs ''analysis_period'' = None
                       then AList.update ''analysis_period'' (PDict []) kvs else kvs)
           in case dict_get kvs1 ''analysis_period'' of
                PDict ap \<Rightarrow>
                  (let ap' = AList.update ''end_year'' end_year
                               (AList.update ''start_year'' start_year ap);
                       self' = self\<lparr>config := PDict (AList.update ''analysis_period'' (PDict ap') kvs1)\<rparr>
                   in (Inr (), self', snd (save_config_01 R self' w)))
              | _ \<Rightarrow> (Inl TypeError, self, w))
      | _ \<Rightarrow> (Inl TypeError, self, w))"

text \<open>
  \<^verbatim>\<open>get_output_filename\<close> (lines 228-258): the output directory (of the subdirectory when one
  is given and not empty), \<^verbatim>\<open>None\<close> with a logged error when there is none; else the file
  name, with the year range when both years are true, joined to the directory by
  \<^verbatim>\<open>os.path.join\<close>. An f-string formats a value as \<^verbatim>\<open>str\<close> does.
\<close>

definition get_output_filename_01 ::
  "'c runtime \<Rightarrow> pyval \<Rightarrow> string \<Rightarrow> string \<Rightarrow> string option \<Rightarrow> 'c world \<Rightarrow>
     string option \<times> 'c world" where
  "get_output_filename_01 R cfg base_name extension subdirectory w =
     (let (output_dir, w1) =
            (case subdirectory of
               None \<Rightarrow> get_path_01 R cfg ''output.base'' w
             | Some s \<Rightarrow>
                 (if s \<noteq> [] then get_path_01 R cfg (''output.'' @ s) w
                  else get_path_01 R cfg ''output.base'' w))
      in case output_dir of
           None \<Rightarrow> (None, emit (Log ERROR ''Cannot get output directory'') w1)
         | Some d \<Rightarrow>
             (let start_year = get_01 cfg ''analysis_period.start_year'' (PStr []);
                  end_year = get_01 cfg ''analysis_period.end_year'' (PStr []);
                  year_range = (if truthy start_year \<and> truthy end_year
                                then py_str R start_year @ ''_'' @ py_str R end_year else []);
                  filename = (if year_range \<noteq> []
                              then base_name @ ''_'' @ year_range @ ''.'' @ extension
                              else base_name @ ''.'' @ extension)
              in (Some (os_path_join d filename), w1)))"

text \<open>Printing lines one after the other.\<close>

fun prints :: "string list \<Rightarrow> 'c world \<Rightarrow> 'c world" where
  "prints [] w = w"
| "prints (l # ls) w = prints ls (emit (Print l) w)"

text \<open>
  \<^verbatim>\<open>print_summary\<close> (lines 280-309): the lines of the summary, with three calls of
  \<^verbatim>\<open>get_path\<close> on the way, and one line for each threshold:
  \<^verbatim>\<open>
    thresholds = self.get('analysis_parameters.wind_speed_thresholds', {})
    for key, value in thresholds.items():
        print(...)
  \<close>
  \<^verbatim>\<open>thresholds.items()\<close> raises AttributeError for a value that is not a dictionary.
\<close>

definition print_summary_01 :: "'c runtime \<Rightarrow> pyval \<Rightarrow> 'c world \<Rightarrow> (pyerr + unit) \<times> 'c world" where
  "print_summary_01 R cfg w =
     (let w1 = prints [''='', ''CONFIGURATION SUMMARY'', ''='', ''Project'', ''Version'',
                       ''Analysis Period'', ''Location:'', ''Site'', ''Coordinates'', ''Paths:''] w;
          (base, w2) = get_path_01 R cfg ''paths.base_directory'' w1;
          w3 = emit (Print ''Base Directory'') w2;
          (wind_data, w4) = get_path_01 R cfg ''paths.data.wind_data'' w3;
          w5 = emit (Print ''Wind Data'') w4;
          (output_base, w6) = get_path_01 R cfg ''output.base'' w5;
          w7 = prints [''Output Base'', ''Wind Thresholds:''] w6
      in case get_01 cfg ''analysis_parameters.wind_speed_thresholds'' (PDict []) of
           PDict thresholds \<Rightarrow> (Inr (), prints (map (\<lambda>kv. ''threshold'') thresholds @ [''='']) w7)
         | _ \<Rightarrow> (Inl AttributeError, w7))"

text \<open>
  \<^verbatim>\<open>validate\<close> (lines 311-346): one error for each required field whose value is false, one
  for each of the two paths that \<^verbatim>\<open>get_path\<close> does not resolve; the errors are logged and the
  result is whether there are none.
\<close>

definition validate_01 :: "'c runtime \<Rightarrow> pyval \<Rightarrow> 'c world \<Rightarrow> bool \<times> 'c world" where
  "validate_01 R cfg w =
     (let required = [''project.name'', ''analysis_period.start_year'', ''analysis_period.end_year'',
                      ''location.latitude'', ''location.longitude''];
          errors1 = map (\<lambda>field. ''Missing required field: '' @ field)
                        (filter (\<lambda>field. \<not> truthy (get_01 cfg field PNone)) required);
          (p1, w1) = get_path_01 R cfg ''paths.base_directory'' w;
          errors2 = (if p1 = None then [''Invalid or missing path: paths.base_directory''] else []);
          (p2, w2) = get_path_01 R cfg ''output.base'' w1;
          errors3 = (if p2 = None then [''Invalid or missing path: output.base''] else []);
          errors = errors1 @ errors2 @ errors3
      in if errors \<noteq> []
         then (False, fold (\<lambda>error. emit (Log ERROR (''  - '' @ error))) errors
                        (emit (Log ERROR ''Configuration validation failed:'') w2))
         else (True, emit (Log INFO ''Configuration validation passed'') w2))"

text \<open>
  The methods of the class as calls on an instance. A call returns a result (or raises) and
  leaves an instance and a world. The result of \<^verbatim>\<open>setup_logging\<close>, the logger, is not
  modelled.
\<close>

datatype method_call =
    LoadConfig
  | CreateDefaultConfig
  | SetupLogging
  | SetupDirectories
  | Get string pyval
  | GetPath string
  | GetOutputFilename string string "string option"
  | UpdateAnalysisPeriod pyval pyval
  | SaveConfig
  | PrintSummary
  | Validate

datatype outcome =
    Returned pyval
  | ReturnedPath "string option"
  | Raised pyerr

definition call_01 :: "'c runtime \<Rightarrow> manager \<Rightarrow> method_call \<Rightarrow> 'c world \<Rightarrow> outcome \<times> manager \<times> 'c world" where
  "call_01 R self m w =
     (case m of
        LoadConfig \<Rightarrow>
          (case load_config_01 R (config_file self) w of (cfg, w') \<Rightarrow> (Returned cfg, self, w'))
      | CreateDefaultConfig \<Rightarrow>
          (case create_default_config_01 R (config_file self) w of
             (cfg, w') \<Rightarrow> (Returned cfg, self, w'))
      | SetupLogging \<Rightarrow> (Returned PNone, self, w)
      | SetupDirectories \<Rightarrow> (Returned PNone, self, setup_directories_01 R (config self) w)
      | Get key dflt \<Rightarrow> (Returned (get_01 (config self) key dflt), self, w)
      | GetPath key \<Rightarrow>
          (case get_path_01 R (config self) key w of (p, w') \<Rightarrow> (ReturnedPath p, self, w'))
      | GetOutputFilename base_name extension subdirectory \<Rightarrow>
          (case get_output_filename_01 R (config self) base_name extension subdirectory w of
             (p, w') \<Rightarrow> (ReturnedPath p, self, w'))
      | UpdateAnalysisPeriod start_year end_year \<Rightarrow>
          (case update_analysis_period_01 R self start_year end_year w of
             (Inl e, self', w') \<Rightarrow> (Raised e, self', w')
           | (Inr u, self', w') \<Rightarrow> (Returned PNone, self', w'))
      | SaveConfig \<Rightarrow>
          (case save_config_01 R self w of (ok, w') \<Rightarrow> (Returned (PBool ok), self, w'))
      | PrintSummary \<Rightarrow>
          (case print_summary_01 R (config self) w of
             (Inl e, w') \<Rightarrow> (Raised e, self, w')
           | (Inr u, w') \<Rightarrow> (Returned PNone, self, w'))
      | Validate \<Rightarrow>
          (case validate_01 R (config self) w of (ok, w') \<Rightarrow> (Returned (PBool ok), self, w')))"

section \<open>\<^verbatim>\<open>configuration_manager.py\<close>\<close>

text \<open>The tree \<^verbatim>\<open>default_config\<close> of \<^verbatim>\<open>create_default_config\<close> (lines 46-65).\<close>

definition default_config_cfg :: pyval where
  "default_config_cfg = PDict [
     (''project'', PDict [
        (''name'', PStr ''Lake Kariba Wind Analysis''),
        (''version'', PStr ''1.0'')]),
     (''analysis_period'', PDict [
        (''start_year'', PInt 2015),
        (''end_year'', PInt 2020)]),
     (''paths'', PDict [
        (''base_directory'', PStr ''/home/chawas/deployed/charara''),
        (''data'', PDict [
           (''wind_data'', PStr []),
           (''era5_data'', PStr [])]),
        (''output'', PDict [
           (''base'', PStr ''/home/chawas/deployed/charara/output'')])])]"

text \<open>\<^verbatim>\<open>create_default_config\<close> (lines 44-72): the write is not guarded, its failure leaves
  the method as an exception.\<close>

definition create_default_config_cfg ::
  "'c runtime \<Rightarrow> string \<Rightarrow> 'c world \<Rightarrow> (pyerr + pyval) \<times> 'c world" where
  "create_default_config_cfg R file w =
     (case write_file file (json_dump R default_config_cfg) w of
        (Inl e, w') \<Rightarrow> (Inl e, w')
      | (Inr u, w') \<Rightarrow>
          (Inr default_config_cfg, emit (Print (''Default configuration created at: '' @ file)) w'))"

text \<open>
  \<^verbatim>\<open>load_config\<close> (lines 29-42):
  \<^verbatim>\<open>
    try:
        with open(self.config_file, 'r') as f:
            config = json.load(f)
        print(f"... Configuration loaded from: {self.config_file}")
        return config
    except FileNotFoundError:
        print(f"... Configuration file not found: {self.config_file}")
        print("Creating default configuration...")
        return self.create_default_config()
    except json.JSONDecodeError as e:
        print(f"... Error parsing JSON: {e}")
        sys.exit(1)
  \<close>
  Any other failure of \<^verbatim>\<open>open\<close> has no handler.
\<close>

definition load_config_cfg :: "'c runtime \<Rightarrow> string \<Rightarrow> 'c world \<Rightarrow> (pyerr + pyval) \<times> 'c world" where
  "load_config_cfg R file w =
     (case open_read w file of
        Inl e \<Rightarrow>
          (if e = FileNotFoundError
           then create_default_config_cfg R file
                  (emit (Print ''Creating default configuration...'')
                    (emit (Print (''Configuration file not found: '' @ file)) w))
           else (Inl e, w))
      | Inr c \<Rightarrow>
          (case json_load R c of
             None \<Rightarrow> (Inl (SystemExit 1), emit (Print ''Error parsing JSON'') w)
           | Some cfg \<Rightarrow> (Inr cfg, emit (Print (''Configuration loaded from: '' @ file)) w)))"

text \<open>
  \<^verbatim>\<open>get_path\<close> (lines 126-140):
  \<^verbatim>\<open>
    path_value = self.get(key)
    if not path_value:
        return None
    path = Path(path_value)
    if not path.is_absolute():
        base_dir = Path(self.get("paths.base_directory", "."))
        path = base_dir / path
    return str(path)
  \<close>
  \<^verbatim>\<open>Path\<close> raises TypeError for a value that is not a string.
\<close>

definition get_path_cfg :: "pyval \<Rightarrow> string \<Rightarrow> pyerr + string option" where
  "get_path_cfg cfg key =
     (let path_value = get_cfg cfg key PNone in
      if \<not> truthy path_value then Inr None
      else
        (case Path_arg path_value of
           Inl e \<Rightarrow> Inl e
         | Inr path \<Rightarrow>
             (if \<not> is_absolute path then
                (case Path_arg (get_cfg cfg ''paths.base_directory'' (PStr ''.'')) of
                   Inl e \<Rightarrow> Inl e
                 | Inr base_dir \<Rightarrow> Inr (Some (path_str (truediv base_dir path))))
              else Inr (Some (path_str path)))))"

text \<open>
  \<^verbatim>\<open>setup_directories\<close> (lines 74-91): the eight paths are resolved first, then
  \<^verbatim>\<open>
    for directory in directories:
        if directory:  # Only create if path is specified
            os.makedirs(directory, exist_ok=True)
  \<close>
  with no handler: the first failure ends the loop and the method.
\<close>

fun get_paths_cfg :: "pyval \<Rightarrow> string list \<Rightarrow> pyerr + string option list" where
  "get_paths_cfg cfg [] = Inr []"
| "get_paths_cfg cfg (key # keys) =
     (case get_path_cfg cfg key of
        Inl e \<Rightarrow> Inl e
      | Inr d \<Rightarrow> (case get_paths_cfg cfg keys of Inl e \<Rightarrow> Inl e | Inr ds \<Rightarrow> Inr (d # ds)))"

fun create_loop_cfg :: "string option list \<Rightarrow> 'c world \<Rightarrow> (pyerr + unit) \<times> 'c world" where
  "create_loop_cfg [] w = (Inr (), w)"
| "create_loop_cfg (None # rest) w = create_loop_cfg rest w"
| "create_loop_cfg (Some directory # rest) w =
     (if directory \<noteq> [] then
        (case makedirs directory w of
           Inl e \<Rightarrow> (Inl e, w)
         | Inr w' \<Rightarrow> create_loop_cfg rest w')
      else create_loop_cfg rest w)"

definition setup_directories_cfg :: "pyval \<Rightarrow> 'c world \<Rightarrow> (pyerr + unit) \<times> 'c world" where
  "setup_directories_cfg cfg w =
     (case get_paths_cfg cfg [''scripts'', ''output.base'', ''output.maps'', ''output.timeseries'',
                              ''output.statistics'', ''output.reports'', ''logs'', ''templates''] of
        Inl e \<Rightarrow> (Inl e, w)
      | Inr directories \<Rightarrow>
          (case create_loop_cfg directories w of
             (Inl e, w') \<Rightarrow> (Inl e, w')
           | (Inr u, w') \<Rightarrow> (Inr (), emit (Print ''All directories created/verified'') w')))"

text \<open>
  \<^verbatim>\<open>setup_logging\<close> (lines 93-108):
  \<^verbatim>\<open>
    log_dir = self.get_path("logs")
    log_file = Path(log_dir) / f"wind_analysis_{datetime.now().strftime('%Y%m%d_%H%M%S')}.log"
    logging.basicConfig(
        level=getattr(logging, self.get("debug.log_level", "INFO")),
        format='...',
        handlers=[logging.FileHandler(log_file), logging.StreamHandler()])
    self.logger = logging.getLogger(__name__)
    self.logger.info(f"Logging initialized. Log file: {log_file}")
  \<close>
  \<^verbatim>\<open>Path(log_dir)\<close> raises TypeError when \<^verbatim>\<open>get_path("logs")\<close> is \<^verbatim>\<open>None\<close>. The arguments of
  \<^verbatim>\<open>basicConfig\<close> are evaluated first: \<^verbatim>\<open>getattr\<close> (TypeError for a name that is not a string,
  AttributeError for a missing attribute), then \<^verbatim>\<open>logging.FileHandler\<close>, which opens the log
  file for appending. \<^verbatim>\<open>basicConfig\<close> does nothing when the root logger has handlers;
  otherwise it installs the handlers and sets the level, which raises for a value that is
  not a level. The logger of the module has no level of its own, so the last line is
  emitted when the level of the root logger is at most 20 (INFO).
\<close>

definition log_info_cfg :: "string \<Rightarrow> 'c world \<Rightarrow> 'c world" where
  "log_info_cfg msg w = (if root_level w \<le> 20 then emit (Log INFO msg) w else w)"

definition setup_logging_cfg :: "'c runtime \<Rightarrow> pyval \<Rightarrow> 'c world \<Rightarrow> (pyerr + unit) \<times> 'c world" where
  "setup_logging_cfg R cfg w =
     (case get_path_cfg cfg ''logs'' of
        Inl e \<Rightarrow> (Inl e, w)
      | Inr None \<Rightarrow> (Inl TypeError, w)
      | Inr (Some log_dir) \<Rightarrow>
          (let log_file = path_str (truediv (Path_of log_dir)
                             (Path_of (''wind_analysis_'' @ timestamp R @ ''.log'')))
           in case get_cfg cfg ''debug.log_level'' (PStr ''INFO'') of
                PStr name \<Rightarrow>
                  (case logging_attr R name of
                     NoAttr \<Rightarrow> (Inl AttributeError, w)
                   | attr \<Rightarrow>
                       (if log_file \<in> unwritable w \<or> log_file \<in> dirs w then (Inl OSError, w)
                        else
                          (let w1 = w\<lparr>log_files := insert log_file (log_files w)\<rparr>
                           in if root_handlers w1
                              then (Inr (), log_info_cfg (''Logging initialized. Log file: '' @ log_file) w1)
                              else (case attr of
                                      LevelAttr n \<Rightarrow>
                                        (Inr (),
                                         log_info_cfg (''Logging initialized. Log file: '' @ log_file)
                                           (w1\<lparr>root_handlers := True, root_level := n\<rparr>))
                                    | OtherAttr err \<Rightarrow> (Inl err, w1\<lparr>root_handlers := True\<rparr>)
                                    | NoAttr \<Rightarrow> (Inl AttributeError, w)))))
              | _ \<Rightarrow> (Inl TypeError, w)))"

text \<open>\<^verbatim>\<open>__init__\<close> (lines 17-27): load, create the directories, set up logging; an
  exception of any step ends the construction.\<close>

definition init_cfg :: "'c runtime \<Rightarrow> string option \<Rightarrow> 'c world \<Rightarrow> (pyerr + manager) \<times> 'c world" where
  "init_cfg R arg w =
     (let file = (case arg of
                    None \<Rightarrow> path_str (truediv (Path_of (script_dir R)) (Path_of ''config.json''))
                  | Some f \<Rightarrow> path_str (Path_of f))
      in case load_config_cfg R file w of
           (Inl e, w1) \<Rightarrow> (Inl e, w1)
         | (Inr cfg, w1) \<Rightarrow>
             (case setup_directories_cfg cfg w1 of
                (Inl e, w2) \<Rightarrow> (Inl e, w2)
              | (Inr u, w2) \<Rightarrow>
                  (case setup_logging_cfg R cfg w2 of
                     (Inl e, w3) \<Rightarrow> (Inl e, w3)
                   | (Inr u', w3) \<Rightarrow> (Inr \<lparr>config_file = file, config = cfg\<rparr>, w3))))"

text \<open>\<^verbatim>\<open>save_config\<close> (lines 164-168), without a handler.\<close>

definition save_config_cfg :: "'c runtime \<Rightarrow> manager \<Rightarrow> 'c world \<Rightarrow> (pyerr + unit) \<times> 'c world" where
  "save_config_cfg R self w =
     (case write_file (config_file self) (json_dump R (config self)) w of
        (Inl e, w') \<Rightarrow> (Inl e, w')
      | (Inr u, w') \<Rightarrow> (Inr (), emit (Print (''Configuration saved to: '' @ config_file self)) w'))"

text \<open>
  \<^verbatim>\<open>update_analysis_period\<close> (lines 158-162):
  \<^verbatim>\<open>
    self.config['analysis_period']['start_year'] = start_year
    self.config['analysis_period']['end_year'] = end_year
    self.save_config()
  \<close>
  \<^verbatim>\<open>self.config['analysis_period']\<close> raises KeyError for a missing key.
\<close>

definition update_analysis_period_cfg ::
  "'c runtime \<Rightarrow> manager \<Rightarrow> pyval \<Rightarrow> pyval \<Rightarrow> 'c world \<Rightarrow> (pyerr + unit) \<times> manager \<times> 'c world" where
  "update_analysis_period_cfg R self start_year end_year w =
     (case getitem (config self) ''analysis_period'' of
        Inl e \<Rightarrow> (Inl e, self, w)
      | Inr (PDict ap) \<Rightarrow>
          (case config self of
             PDict kvs \<Rightarrow>
               (let ap' = AList.update ''end_year'' end_year
                            (AList.update ''start_year'' start_year ap);
                    self' = self\<lparr>config := PDict (AList.update ''analysis_period'' (PDict ap') kvs)\<rparr>
                in case save_config_cfg R self' w of
                     (r, w') \<Rightarrow> (r, self', w'))
           | _ \<Rightarrow> (Inl TypeError, self, w))
      | Inr v \<Rightarrow> (Inl TypeError, self, w))"

text \<open>
  \<^verbatim>\<open>get_output_filename\<close> (lines 142-156), without handlers: \<^verbatim>\<open>get_path\<close> can raise, and
  \<^verbatim>\<open>os.path.join\<close> raises TypeError when the directory is \<^verbatim>\<open>None\<close>. The year range is always
  formatted, from whatever the two lookups return.
\<close>

definition get_output_filename_cfg ::
  "'c runtime \<Rightarrow> pyval \<Rightarrow> string \<Rightarrow> string \<Rightarrow> string option \<Rightarrow> pyerr + string" where
  "get_output_filename_cfg R cfg base_name extension subdirectory =
     (case (case subdirectory of
              None \<Rightarrow> get_path_cfg cfg ''output.base''
            | Some s \<Rightarrow>
                (if s \<noteq> [] then get_path_cfg cfg (''output.'' @ s)
                 else get_path_cfg cfg ''output.base'')) of
        Inl e \<Rightarrow> Inl e
      | Inr output_dir \<Rightarrow>
          (let year_range = py_str R (get_cfg cfg ''analysis_period.start_year'' PNone) @ ''_'' @
                            py_str R (get_cfg cfg ''analysis_period.end_year'' PNone);
               filename = base_name @ ''_'' @ year_range @ ''.'' @ extension
           in case output_dir of
                None \<Rightarrow> Inl TypeError
              | Some d \<Rightarrow> Inr (os_path_join d filename)))"

text \<open>
  \<^verbatim>\<open>print_summary\<close> (lines 170-195): the lines of the summary; each of the three calls of
  \<^verbatim>\<open>get_path\<close> can raise before its line is printed, and \<^verbatim>\<open>thresholds.items()\<close> raises
  AttributeError for a value that is not a dictionary.
\<close>

definition print_summary_cfg :: "pyval \<Rightarrow> 'c world \<Rightarrow> (pyerr + unit) \<times> 'c world" where
  "print_summary_cfg cfg w =
     (let w1 = prints [''='', ''CONFIGURATION SUMMARY'', ''='', ''Project'', ''Version'',
                       ''Analysis Period'', ''Location:'', ''Site'', ''Coordinates'', ''Paths:''] w
      in case get_path_cfg cfg ''paths.base_directory'' of
           Inl e \<Rightarrow> (Inl e, w1)
         | Inr base \<Rightarrow>
             (let w2 = emit (Print ''Base Directory'') w1
              in case get_path_cfg cfg ''paths.data.wind_data'' of
                   Inl e \<Rightarrow> (Inl e, w2)
                 | Inr wind_data \<Rightarrow>
                     (let w3 = emit (Print ''Wind Data'') w2
                      in case get_path_cfg cfg ''paths.output.base'' of
                           Inl e \<Rightarrow> (Inl e, w3)
                         | Inr output_base \<Rightarrow>
                             (let w4 = prints [''Output Base'', ''Wind Thresholds:''] w3
                              in case get_cfg cfg ''analysis_parameters.wind_speed_thresholds''
                                        (PDict []) of
                                   PDict thresholds \<Rightarrow>
                                     (Inr (), prints (map (\<lambda>kv. ''threshold'') thresholds @ [''='']) w4)
                                 | _ \<Rightarrow> (Inl AttributeError, w4)))))"

text \<open>The methods of the class as calls on an instance; the class has no \<^verbatim>\<open>validate\<close>, and the
  attribute lookup of such a call raises AttributeError.\<close>

definition returned :: "(pyerr + pyval) \<Rightarrow> outcome" where
  "returned r = (case r of Inl e \<Rightarrow> Raised e | Inr v \<Rightarrow> Returned v)"

definition call_cfg :: "'c runtime \<Rightarrow> manager \<Rightarrow> method_call \<Rightarrow> 'c world \<Rightarrow> outcome \<times> manager \<times> 'c world" where
  "call_cfg R self m w =
     (case m of
        LoadConfig \<Rightarrow>
          (case load_config_cfg R (config_file self) w of (r, w') \<Rightarrow> (returned r, self, w'))
      | CreateDefaultConfig \<Rightarrow>
          (case create_default_config_cfg R (config_file self) w of
             (r, w') \<Rightarrow> (returned r, self, w'))
      | SetupLogging \<Rightarrow>
          (case setup_logging_cfg R (config self) w of
             (Inl e, w') \<Rightarrow> (Raised e, self, w')
           | (Inr u, w') \<Rightarrow> (Returned PNone, self, w'))
      | SetupDirectories \<Rightarrow>
          (case setup_directories_cfg (config self) w of
             (Inl e, w') \<Rightarrow> (Raised e, self, w')
           | (Inr u, w') \<Rightarrow> (Returned PNone, self, w'))
      | Get key dflt \<Rightarrow> (Returned (get_cfg (config self) key dflt), self, w)
      | GetPath key \<Rightarrow>
          (case get_path_cfg (config self) key of
             Inl e \<Rightarrow> (Raised e, self, w)
           | Inr p \<Rightarrow> (ReturnedPath p, self, w))
      | GetOutputFilename base_name extension subdirectory \<Rightarrow>
          (case get_output_filename_cfg R (config self) base_name extension subdirectory of
             Inl e \<Rightarrow> (Raised e, self, w)
           | Inr p \<Rightarrow> (ReturnedPath (Some p), self, w))
      | UpdateAnalysisPeriod start_year end_year \<Rightarrow>
          (case update_analysis_period_cfg R self start_year end_year w of
             (Inl e, self', w') \<Rightarrow> (Raised e, self', w')
           | (Inr u, self', w') \<Rightarrow> (Returned PNone, self', w'))
      | SaveConfig \<Rightarrow>
          (case save_config_cfg R self w of
             (Inl e, w') \<Rightarrow> (Raised e, self, w')
           | (Inr u, w') \<Rightarrow> (Returned PNone, self, w'))
      | PrintSummary \<Rightarrow>
          (case print_summary_cfg (config self) w of
             (Inl e, w') \<Rightarrow> (Raised e, self, w')
           | (Inr u, w') \<Rightarrow> (Returned PNone, self, w'))
      | Validate \<Rightarrow> (Raised AttributeError, self, w))"

text \<open>
  The module-level accessor (lines 197-205):
  \<^verbatim>\<open>
    _config_manager = None

    def get_config(config_file=None):
        global _config_manager
        if _config_manager is None:
            _config_manager = ConfigManager(config_file)
        return _config_manager
  \<close>
  The global \<^verbatim>\<open>_config_manager\<close> is the first component of the state; the result is the
  instance returned or the exception of the construction, the global and the world
  afterwards.
\<close>

definition get_config_cfg ::
  "'c runtime \<Rightarrow> string option \<Rightarrow> manager option \<times> 'c world \<Rightarrow>
     (pyerr + manager) \<times> manager option \<times> 'c world" where
  "get_config_cfg R arg st =
     (case fst st of
        None \<Rightarrow>
          (case init_cfg R arg (snd st) of
             (Inl e, w') \<Rightarrow> (Inl e, None, w')
           | (Inr m, w') \<Rightarrow> (Inr m, Some m, w'))
      | Some m \<Rightarrow> (Inr m, Some m, snd st))"

section \<open>\<^verbatim>\<open>config_manager.py\<close>\<close>

text \<open>The tree \<^verbatim>\<open>default_config\<close> of \<^verbatim>\<open>_load_config\<close> (lines 90-182); \<^verbatim>\<open>created\<close> is the
  day of the call.\<close>

definition default_config_cm :: "'c runtime \<Rightarrow> (string \<times> pyval) list" where
  "default_config_cm R = [
     (''project'', PDict [
        (''name'', PStr ''Lake Kariba Floating Solar Wind Analysis''),
        (''version'', PStr ''2.0''),
        (''description'', PStr ''Enhanced wind analysis for floating solar feasibility''),
        (''author'', PStr ''Wind Analysis Team''),
        (''created'', PStr (today R))]),
     (''analysis_period'', PDict [
        (''start_year'', PInt 2015),
        (''end_year'', PInt 2020),
        (''years'', PList [PInt 2015, PInt 2016, PInt 2017, PInt 2018, PInt 2019, PInt 2020])]),
     (''location'', PDict [
        (''site_name'', PStr ''Charara Floating Solar Site''),
        (''latitude'', PFloat (- 1653) (- 2)),
        (''longitude'', PFloat 2883 (- 2)),
        (''region'', PStr ''Lake Kariba, Zimbabwe-Zambia border''),
        (''elevation'', PInt 485)]),
     (''wind_analysis'', PDict [
        (''variables'', PList [PStr ''u10'', PStr ''v10'', PStr ''t2m'', PStr ''sp'', PStr ''d2m'',
                              PStr ''blh'']),
        (''wind_speed_bins'', PList [PInt 0, PInt 2, PInt 5, PInt 8, PInt 12, PInt 20]),
        (''direction_bins'', PInt 16),
        (''seasons'', PDict [
           (''summer'', PList [PInt 12, PInt 1, PInt 2]),
           (''autumn'', PList [PInt 3, PInt 4, PInt 5]),
           (''winter'', PList [PInt 6, PInt 7, PInt 8]),
           (''spring'', PList [PInt 9, PInt 10, PInt 11])]),
        (''percentiles'', PList [PInt 5, PInt 25, PInt 50, PInt 75, PInt 95, PInt 99])]),
     (''era5'', PDict [
        (''dataset'', PStr ''reanalysis-era5-single-levels''),
        (''variables'', PList [
           PStr ''10m_u_component_of_wind'',
           PStr ''10m_v_component_of_wind'',
           PStr ''2m_temperature'',
           PStr ''surface_pressure'',
           PStr ''2m_dewpoint_temperature'',
           PStr ''boundary_layer_height'']),
        (''area'', PList [PFloat (- 100) (- 1), PFloat 260 (- 1), PFloat (- 180) (- 1),
                         PFloat 300 (- 1)]),
        (''grid_resolution'', PList [PFloat 25 (- 2), PFloat 25 (- 2)]),
        (''time_step'', PStr ''hourly'')]),
     (''paths'', PDict [
        (''base_directory'', PStr ''/home/chawas/deployed/charara''),
        (''data'', PDict [
           (''era5_raw'', PStr ''data/era5_raw''),
           (''era5_processed'', PStr ''data/era5_processed''),
           (''wind_data'', PStr ''data/wind_data.nc''),
           (''lake_shapefile'', PStr ''data/shapefiles/lake_kariba.shp''),
           (''topography'', PStr ''data/topography'')]),
        (''output'', PDict [
           (''base'', PStr ''output''),
           (''maps'', PStr ''output/maps''),
           (''timeseries'', PStr ''output/timeseries''),
           (''statistics'', PStr ''output/statistics''),
           (''reports'', PStr ''output/reports''),
           (''clustering'', PStr ''output/clustering''),
           (''validation'', PStr ''output/validation'')]),
        (''scripts'', PStr ''scripts''),
        (''templates'', PStr ''templates''),
        (''logs'', PStr ''logs'')]),
     (''visualization'', PDict [
        (''colormaps'', PDict [
           (''wind_speed'', PStr ''viridis''),
           (''temperature'', PStr ''plasma''),
           (''pressure'', PStr ''cividis''),
           (''direction'', PStr ''hsv'')]),
        (''figure_size'', PList [PInt 12, PInt 8]),
        (''dpi'', PInt 150),
        (''font_size'', PInt 12),
        (''style'', PStr ''seaborn-v0_8-darkgrid'')]),
     (''clustering'', PDict [
        (''n_clusters'', PInt 4),
        (''features'', PList [PStr ''wind_speed'', PStr ''wind_direction'', PStr ''temperature'']),
        (''algorithm'', PStr ''kmeans''),
        (''random_state'', PInt 42)]),
     (''reporting'', PDict [
        (''format'', PStr ''html''),
        (''include_sections'', PList [PStr ''executive_summary'', PStr ''methodology'',
                                     PStr ''results'', PStr ''conclusions'']),
        (''generate_pdf'', PBool True),
        (''email_report'', PBool False)])]"

text \<open>
  \<^verbatim>\<open>_save_default_config\<close> (lines 211-219): the parent directory is created and the tree is
  written, inside a \<^verbatim>\<open>try\<close> whose handler logs the error.
\<close>

definition save_default_config_cm :: "'c runtime \<Rightarrow> string \<Rightarrow> pyval \<Rightarrow> 'c world \<Rightarrow> 'c world" where
  "save_default_config_cm R file cfg w =
     (case makedirs (path_str (path_parent (Path_of file))) w of
        Inl e \<Rightarrow> emit (Log ERROR ''Error saving default config'') w
      | Inr w1 \<Rightarrow>
          (case write_file file (yaml_dump R cfg) w1 of
             (Inl e, w2) \<Rightarrow> emit (Log ERROR ''Error saving default config'') w2
           | (Inr u, w2) \<Rightarrow> emit (Log INFO (''Created default configuration at: '' @ file)) w2))"

text \<open>
  The merge of \<^verbatim>\<open>_load_config\<close> (lines 192-197):
  \<^verbatim>\<open>
    config = default_config.copy()
    for key, value in user_config.items():
        if key in config and isinstance(config[key], dict) and isinstance(value, dict):
            config[key].update(value)
        else:
            config[key] = value
  \<close>
\<close>

fun merge_loop :: "(string \<times> pyval) list \<Rightarrow> (string \<times> pyval) list \<Rightarrow> (string \<times> pyval) list" where
  "merge_loop cfg [] = cfg"
| "merge_loop cfg ((key, v) # items) =
     merge_loop
       (case (map_of cfg key, v) of
          (Some (PDict d), PDict u) \<Rightarrow> AList.update key (PDict (dict_update d u)) cfg
        | _ \<Rightarrow> AList.update key v cfg)
       items"

text \<open>
  \<^verbatim>\<open>_load_config\<close> (lines 86-209). The file is read when it exists; a user configuration
  that is true is merged into the defaults and returned. \<^verbatim>\<open>user_config.items()\<close> raises
  AttributeError for a value that is not a dictionary; that, a failure to read and a parse
  error are caught and logged. An empty user configuration is a warning. In all these cases,
  and when the file does not exist, the defaults are saved and returned.
\<close>

definition load_config_cm :: "'c runtime \<Rightarrow> string \<Rightarrow> 'c world \<Rightarrow> pyval \<times> 'c world" where
  "load_config_cm R file w =
     (let fallback = (\<lambda>w'. (PDict (default_config_cm R),
                             save_default_config_cm R file (PDict (default_config_cm R)) w'))
      in if path_exists w file then
           (case open_read w file of
              Inl e \<Rightarrow> fallback (emit (Log ERROR ''Error loading config file'') w)
            | Inr c \<Rightarrow>
                (case yaml_safe_load R c of
                   None \<Rightarrow> fallback (emit (Log ERROR ''Error loading config file'') w)
                 | Some user_config \<Rightarrow>
                     (if truthy user_config then
                        (case user_config of
                           PDict items \<Rightarrow>
                             (PDict (merge_loop (default_config_cm R) items),
                              emit (Log INFO (''Loaded configuration from '' @ file)) w)
                         | _ \<Rightarrow> fallback (emit (Log ERROR ''Error loading config file'') w))
                      else fallback (emit (Log WARNING (''Config file is empty: '' @ file)) w))))
         else fallback w)"

text \<open>Sequencing of steps that can raise.\<close>

definition bind_err :: "pyerr + 'a \<Rightarrow> ('a \<Rightarrow> pyerr + 'b) \<Rightarrow> pyerr + 'b" where
  "bind_err x f = (case x of Inl e \<Rightarrow> Inl e | Inr v \<Rightarrow> f v)"

text \<open>\<^verbatim>\<open>base / d[k]\<close>: the subscript can raise KeyError or TypeError, the division TypeError for
  a value that is not a string.\<close>

definition under :: "ppath \<Rightarrow> pyval \<Rightarrow> string \<Rightarrow> pyerr + ppath" where
  "under base d k = bind_err (getitem d k) (\<lambda>v. bind_err (Path_arg v) (\<lambda>q. Inr (truediv base q)))"

text \<open>The path attributes that \<^verbatim>\<open>_setup_paths\<close> (lines 221-249) sets, in its order.\<close>

record paths_cm =
  base_dir :: ppath
  data_dir :: ppath
  era5_raw_dir :: ppath
  era5_processed_dir :: ppath
  wind_data_path :: ppath
  lake_shapefile_path :: ppath
  output_dir :: ppath
  maps_dir :: ppath
  timeseries_dir :: ppath
  statistics_dir :: ppath
  reports_dir :: ppath
  clustering_dir :: ppath
  validation_dir :: ppath
  scripts_dir :: ppath
  templates_dir :: ppath
  logs_dir :: ppath

definition setup_paths_cm :: "pyval \<Rightarrow> pyerr + paths_cm" where
  "setup_paths_cm cfg =
     bind_err (getitem cfg ''paths'') (\<lambda>paths.
     bind_err (getitem paths ''base_directory'') (\<lambda>bd.
     bind_err (Path_arg bd) (\<lambda>base.
     bind_err (getitem paths ''data'') (\<lambda>data_paths.
     bind_err (under base data_paths ''era5_raw'') (\<lambda>era5_raw.
     bind_err (under base data_paths ''era5_processed'') (\<lambda>era5_processed.
     bind_err (under base data_paths ''wind_data'') (\<lambda>wind_data.
     bind_err (under base data_paths ''lake_shapefile'') (\<lambda>lake_shapefile.
     bind_err (getitem paths ''output'') (\<lambda>output_paths.
     bind_err (under base output_paths ''base'') (\<lambda>out.
     bind_err (under base output_paths ''maps'') (\<lambda>maps.
     bind_err (under base output_paths ''timeseries'') (\<lambda>timeseries.
     bind_err (under base output_paths ''statistics'') (\<lambda>statistics.
     bind_err (under base output_paths ''reports'') (\<lambda>reports.
     bind_err (under base output_paths ''clustering'') (\<lambda>clustering.
     bind_err (under base output_paths ''validation'') (\<lambda>validation.
     bind_err (under base paths ''scripts'') (\<lambda>scripts.
     bind_err (under base paths ''templates'') (\<lambda>templates.
     bind_err (under base paths ''logs'') (\<lambda>logs.
       Inr \<lparr>base_dir = base,
            data_dir = truediv base (Path_of ''data''),
            era5_raw_dir = era5_raw,
            era5_processed_dir = era5_processed,
            wind_data_path = wind_data,
            lake_shapefile_path = lake_shapefile,
            output_dir = out,
            maps_dir = maps,
            timeseries_dir = timeseries,
            statistics_dir = statistics,
            reports_dir = reports,
            clustering_dir = clustering,
            validation_dir = validation,
            scripts_dir = scripts,
            templates_dir = templates,
            logs_dir = logs\<rparr>)))))))))))))))))))"

text \<open>
  \<^verbatim>\<open>_create_directories\<close> (lines 251-270):
  \<^verbatim>\<open>
    for directory in directories:
        directory.mkdir(parents=True, exist_ok=True)
    self.logger.info("Created all necessary directories")
  \<close>
  with no handler.
\<close>

fun create_loop_cm :: "string list \<Rightarrow> 'c world \<Rightarrow> (pyerr + unit) \<times> 'c world" where
  "create_loop_cm [] w = (Inr (), w)"
| "create_loop_cm (directory # rest) w =
     (case makedirs directory w of
        Inl e \<Rightarrow> (Inl e, w)
      | Inr w' \<Rightarrow> create_loop_cm rest w')"

definition create_directories_cm :: "paths_cm \<Rightarrow> 'c world \<Rightarrow> (pyerr + unit) \<times> 'c world" where
  "create_directories_cm ps w =
     (case create_loop_cm
             (map path_str [data_dir ps, era5_raw_dir ps, era5_processed_dir ps, output_dir ps,
                            maps_dir ps, timeseries_dir ps, statistics_dir ps, reports_dir ps,
                            clustering_dir ps, validation_dir ps, logs_dir ps]) w of
        (Inl e, w') \<Rightarrow> (Inl e, w')
      | (Inr u, w') \<Rightarrow> (Inr (), emit (Log INFO ''Created all necessary directories'') w'))"

text \<open>\<^verbatim>\<open>_get_default_config_path\<close> (lines 67-84): the first of four candidates that exists,
  else \<^verbatim>\<open>config/kariba_config.yaml\<close> after creating its directory.\<close>

definition get_default_config_path_cm :: "'c runtime \<Rightarrow> 'c world \<Rightarrow> (pyerr + string) \<times> 'c world" where
  "get_default_config_path_cm R w =
     (let possible_paths =
            [''config/kariba_config.yaml'',
             ''../config/kariba_config.yaml'',
             ''/home/chawas/deployed/charara/config/kariba_config.yaml'',
             path_str (truediv (truediv (path_parent (Path_of (script_dir R))) (Path_of ''config''))
                               (Path_of ''kariba_config.yaml''))]
      in case filter (path_exists w) possible_paths of
           p # ps \<Rightarrow> (Inr p, w)
         | [] \<Rightarrow>
             (case makedirs (path_str (path_parent (Path_of ''config/kariba_config.yaml''))) w of
                Inl e \<Rightarrow> (Inl e, w)
              | Inr w' \<Rightarrow> (Inr ''config/kariba_config.yaml'', w')))"

text \<open>\<^verbatim>\<open>__init__\<close> (lines 22-44): the path, the load, the path attributes, the directories,
  and two log lines, the second of which reads \<^verbatim>\<open>self.config['project']['name']\<close>.\<close>

definition init_cm ::
  "'c runtime \<Rightarrow> string option \<Rightarrow> 'c world \<Rightarrow> (pyerr + manager \<times> paths_cm) \<times> 'c world" where
  "init_cm R arg w =
     (case (case arg of
              None \<Rightarrow> get_default_config_path_cm R w
            | Some f \<Rightarrow> (Inr f, w)) of
        (Inl e, w0) \<Rightarrow> (Inl e, w0)
      | (Inr f, w0) \<Rightarrow>
          (let file = path_str (Path_of f);
               (cfg, w1) = load_config_cm R file w0
           in case setup_paths_cm cfg of
                Inl e \<Rightarrow> (Inl e, w1)
              | Inr ps \<Rightarrow>
                  (case create_directories_cm ps w1 of
                     (Inl e, w2) \<Rightarrow> (Inl e, w2)
                   | (Inr u, w2) \<Rightarrow>
                       (let w3 = emit (Log INFO (''Configuration loaded from: '' @ file)) w2
                        in case bind_err (getitem cfg ''project'') (\<lambda>p. getitem p ''name'') of
                             Inl e \<Rightarrow> (Inl e, w3)
                           | Inr name \<Rightarrow>
                               (Inr (\<lparr>config_file = file, config = cfg\<rparr>, ps),
                                emit (Log INFO ''Project'') w3)))))"

section \<open>The launcher scripts\<close>

text \<open>
  \<^verbatim>\<open>run_analysis_terminal.py\<close> and \<^verbatim>\<open>run_analysis_05.py\<close> start the analysis script with the
  interpreter of the virtual environment and wait for it. What they depend on: whether the
  two files exist, whether \<^verbatim>\<open>os.chdir\<close> to the project directory succeeds, and how the
  child ends: with a return code, by a keyboard interrupt of the wait, or by another
  exception of \<^verbatim>\<open>subprocess\<close> (the interpreter cannot be started). The lines the scripts
  print are not modelled.
\<close>

datatype child = Exited int | Interrupted | Failed

record launch_env =
  venv_python_exists :: bool
  analysis_script_exists :: bool
  chdir_ok :: bool
  child_run :: child

text \<open>
  \<^verbatim>\<open>main\<close> of \<^verbatim>\<open>run_analysis_terminal.py\<close> (lines 10-66): after the two existence checks and
  the unguarded \<^verbatim>\<open>os.chdir\<close>,
  \<^verbatim>\<open>
    try:
        result = subprocess.run([venv_python, analysis_script], env=env,
                                capture_output=False, text=True)
        if result.returncode == 0:
            return 0
        else:
            return 1
    except KeyboardInterrupt:
        return 1
    except Exception as e:
        return 1
  \<close>
\<close>

definition main_terminal :: "launch_env \<Rightarrow> pyerr + int" where
  "main_terminal env =
     (if \<not> venv_python_exists env then Inr 1
      else if \<not> analysis_script_exists env then Inr 1
      else if \<not> chdir_ok env then Inl FileNotFoundError
      else (case child_run env of
              Exited returncode \<Rightarrow> (if returncode = 0 then Inr 0 else Inr 1)
            | Interrupted \<Rightarrow> Inr 1
            | Failed \<Rightarrow> Inr 1))"

text \<open>
  \<^verbatim>\<open>run_analysis\<close> of \<^verbatim>\<open>run_analysis_05.py\<close> (lines 14-89): the same checks, \<^verbatim>\<open>os.chdir\<close>
  before the \<^verbatim>\<open>try\<close>, then \<^verbatim>\<open>subprocess.Popen\<close>, the loop echoing the child's output,
  \<^verbatim>\<open>process.wait()\<close> and
  \<^verbatim>\<open>
    if process.returncode == 0:
        return 0
    else:
        return 1
  \<close>
  with the same two handlers. The script changes to the project directory before it calls
  \<^verbatim>\<open>run_analysis\<close> (line 93), so a failing \<^verbatim>\<open>os.chdir\<close> ends it before the checks.
\<close>

definition run_analysis_05 :: "launch_env \<Rightarrow> pyerr + int" where
  "run_analysis_05 env =
     (if \<not> venv_python_exists env then Inr 1
      else if \<not> analysis_script_exists env then Inr 1
      else if \<not> chdir_ok env then Inl FileNotFoundError
      else (case child_run env of
              Exited returncode \<Rightarrow> (if returncode = 0 then Inr 0 else Inr 1)
            | Interrupted \<Rightarrow> Inr 1
            | Failed \<Rightarrow> Inr 1))"

text \<open>The exit status of a script that ends with \<^verbatim>\<open>sys.exit(f())\<close>: the integer returned,
  and 1 when an exception leaves \<open>f\<close> uncaught.\<close>

fun exit_status :: "pyerr + int \<Rightarrow> int" where
  "exit_status (Inr c) = c"
| "exit_status (Inl e) = 1"

definition script_terminal :: "launch_env \<Rightarrow> int" where
  "script_terminal env = exit_status (main_terminal env)"

definition script_05 :: "launch_env \<Rightarrow> int" where
  "script_05 env =
     exit_status (if \<not> chdir_ok env then Inl FileNotFoundError else run_analysis_05 env)"

section \<open>Concrete inputs\<close>

text \<open>
  A runtime and a world for evaluating the model on concrete inputs. The contents of a file
  are what the reader returns for them (\<open>None\<close>: the file does not parse), and the writer
  always completes. The world is a fresh process on a file system with the given files and
  nothing else.
\<close>

lift_definition example_library :: "pyval option library" is
  "(\<lambda>c. c, \<lambda>t. Complete (Some t))"
  by simp

definition example_runtime :: "pyval option runtime" where
  "example_runtime =
     \<lparr>json_lib = example_library, yaml_lib = example_library,
      str_repr = (\<lambda>v. ''?''),
      logging_attr = (\<lambda>name. if name = ''DEBUG'' then LevelAttr 10
                             else if name = ''INFO'' then LevelAttr 20
                             else if name = ''WARNING'' then LevelAttr 30
                             else if name = ''ERROR'' then LevelAttr 40
                             else if name = ''CRITICAL'' then LevelAttr 50
                             else if name = ''getLogger'' then OtherAttr TypeError
                             else if name = ''BASIC_FORMAT'' then OtherAttr ValueError
                             else NoAttr),
      script_dir = ''/home/chawas/deployed/charara/scripts'',
      today = ''2026-01-01'', timestamp = ''20260101_000000''\<rparr>"

definition example_world :: "(string \<rightharpoonup> pyval option) \<Rightarrow> pyval option world" where
  "example_world fs =
     \<lparr>files = fs, dirs = {}, unreadable = {}, unwritable = {}, log_files = {},
      root_handlers = False, root_level = 30, trace = []\<rparr>"

text \<open>
  A second runtime, whose \<^verbatim>\<open>json.dump\<close> fails as that of Python does on an integer too long
  to be printed (more than \<^verbatim>\<open>sys.int_max_str_digits\<close> digits, 4300 by default): the
  \<^verbatim>\<open>ValueError\<close> is raised after the beginning of the text has been written, and what is left
  in the file does not parse.
\<close>

definition int_max_str_digits :: nat where
  "int_max_str_digits = 4300"

fun printable :: "pyval \<Rightarrow> bool" where
  "printable (PInt n) = (\<bar>n\<bar> < 10 ^ int_max_str_digits)"
| "printable (PList xs) = list_all printable xs"
| "printable (PDict kvs) = list_all (\<lambda>kv. printable (snd kv)) kvs"
| "printable v = True"

lift_definition bounded_library :: "pyval option library" is
  "(\<lambda>c. c, \<lambda>t. if printable t then Complete (Some t) else Partial None)"
  by simp

definition bounded_runtime :: "pyval option runtime" where
  "bounded_runtime = example_runtime\<lparr>json_lib := bounded_library\<rparr>"

definition huge :: int where
  "huge = 10 ^ int_max_str_digits"

section \<open>Properties of the runtime and the file system\<close>

lemma library_round_trip: "writer L t = Complete c \<Longrightarrow> reader L c = Some t"
  by transfer auto

lemma json_round_trip: "json_dump R t = Complete c \<Longrightarrow> json_load R c = Some t"
  by (simp add: json_dump_def json_load_def library_round_trip)

lemma example_library_simps:
  "reader example_library c = c" "writer example_library t = Complete (Some t)"
  by (simp_all add: reader.rep_eq writer.rep_eq example_library.rep_eq)

lemma example_runtime_simps:
  "json_load example_runtime c = c" "json_dump example_runtime t = Complete (Some t)"
  "yaml_safe_load example_runtime c = c" "yaml_dump example_runtime t = Complete (Some t)"
  by (simp_all add: json_load_def json_dump_def yaml_safe_load_def yaml_dump_def
      example_runtime_def example_library_simps)

lemma emit_simps:
  "files (emit ev w) = files w" "dirs (emit ev w) = dirs w" "unreadable (emit ev w) = unreadable w"
  "unwritable (emit ev w) = unwritable w" "log_files (emit ev w) = log_files w"
  "root_handlers (emit ev w) = root_handlers w" "root_level (emit ev w) = root_level w"
  "trace (emit ev w) = trace w @ [ev]"
  by (simp_all add: emit_def)

lemma open_read_exists: "open_read w file = Inr c \<Longrightarrow> path_exists w file"
  by (auto simp: open_read_def path_exists_def split: option.splits if_splits)

lemma bounded_runtime_simps:
  "json_load bounded_runtime c = c"
  "json_dump bounded_runtime t = (if printable t then Complete (Some t) else Partial None)"
  by (simp_all add: json_load_def json_dump_def bounded_runtime_def
      reader.rep_eq writer.rep_eq bounded_library.rep_eq)

lemma huge_not_printable: "\<not> printable (PInt huge)"
  by (simp add: huge_def)

section \<open>Properties of the dotted-key lookup\<close>

lemma get_loop_walk:
  "get_loop v ks dflt = (case walk v ks of None \<Rightarrow> dflt | Some r \<Rightarrow> r)"
proof (induction v ks rule: walk.induct)
  case (1 v)
  show ?case by simp
next
  case (2 kvs k ks)
  then show ?case by (cases "map_of kvs k") simp_all
qed simp_all

lemma get_loop_cm_walk:
  "get_loop_cm v ks dflt =
     (case walk v ks of None \<Rightarrow> dflt | Some r \<Rightarrow> if r = PNone then dflt else r)"
proof (induction v ks rule: walk.induct)
  case (1 v)
  show ?case by simp
next
  case (2 kvs k ks)
  show ?case
  proof (cases "map_of kvs k")
    case None
    then show ?thesis by (cases ks) (simp_all add: dict_get_def)
  next
    case (Some v')
    with 2 show ?thesis by (simp add: dict_get_def)
  qed
qed simp_all

text \<open>
  C4. For every tree, dotted key and default, \<^verbatim>\<open>get\<close> of \<^verbatim>\<open>configuration_manager.py\<close> and
  of \<^verbatim>\<open>config_manager_01.py\<close> is the lookup of the specification: the default as soon as
  the walk over the segments fails, the value reached otherwise. \<^verbatim>\<open>get\<close> of
  \<^verbatim>\<open>config_manager.py\<close> agrees except where the value reached is \<^verbatim>\<open>None\<close>, which it
  replaces by the default.
\<close>

theorem get_walks_segments:
  "get_cfg cfg key dflt = spec_get cfg key dflt \<and>
   get_01 cfg key dflt = spec_get cfg key dflt \<and>
   get_cm cfg key dflt =
     (if spec_get cfg key PNone = PNone then dflt else spec_get cfg key dflt)"
  by (cases "walk cfg (split_sep CHR ''.'' key)")
     (simp_all add: get_cfg_def get_01_def get_cm_def spec_get_def get_loop_walk get_loop_cm_walk)

theorem get_walks_segments_witness:
  "get_cfg (PDict [(''analysis_period'', PDict [(''start_year'', PInt 2015)])])
      ''analysis_period.start_year'' PNone = PInt 2015 \<and>
   get_01 (PDict [(''analysis_period'', PDict [(''start_year'', PInt 2015)])])
      ''analysis_period.end_year'' (PInt 7) = PInt 7 \<and>
   get_cm (PDict [(''analysis_period'', PDict [(''start_year'', PInt 2015)])])
      ''analysis_period.start_year.x'' (PInt 7) = PInt 7"
  using get_walks_segments
    [of "PDict [(''analysis_period'', PDict [(''start_year'', PInt 2015)])]"
        "''analysis_period.start_year''" PNone]
    get_walks_segments
    [of "PDict [(''analysis_period'', PDict [(''start_year'', PInt 2015)])]"
        "''analysis_period.end_year''" "PInt 7"]
    get_walks_segments
    [of "PDict [(''analysis_period'', PDict [(''start_year'', PInt 2015)])]"
        "''analysis_period.start_year.x''" "PInt 7"]
  by (simp add: spec_get_def)

text \<open>The claim as written fails for \<^verbatim>\<open>config_manager.py\<close>: the key \<^verbatim>\<open>a\<close> is present with
  the value \<^verbatim>\<open>None\<close>, the walk reaches it, and the default \<^verbatim>\<open>5\<close> is returned instead.\<close>

theorem get_cm_none_counterexample:
  "spec_get (PDict [(''a'', PNone)]) ''a'' (PInt 5) = PNone \<and>
   get_cm (PDict [(''a'', PNone)]) ''a'' (PInt 5) = PInt 5"
  by (simp add: spec_get_def get_cm_def dict_get_def)

section \<open>The exit status of the launchers\<close>

text \<open>
  C9. The launchers do not pass the child's return code on: each exits with 0 when the two
  files exist, the change of directory succeeds and the child returns 0, and with 1 in every
  other case, whatever nonzero code the child returned.
\<close>

theorem launcher_exit_status:
  "script_terminal env =
     (if venv_python_exists env \<and> analysis_script_exists env \<and> chdir_ok env \<and>
         child_run env = Exited 0 then 0 else 1) \<and>
   script_05 env =
     (if venv_python_exists env \<and> analysis_script_exists env \<and> chdir_ok env \<and>
         child_run env = Exited 0 then 0 else 1)"
  by (cases "child_run env")
     (simp_all add: script_terminal_def script_05_def main_terminal_def run_analysis_05_def)

theorem launcher_exit_status_witness:
  "script_terminal \<lparr>venv_python_exists = True, analysis_script_exists = True, chdir_ok = True,
                     child_run = Exited 0\<rparr> = 0 \<and>
   script_05 \<lparr>venv_python_exists = True, analysis_script_exists = False, chdir_ok = True,
              child_run = Exited 0\<rparr> = 1"
  using launcher_exit_status
    [of "\<lparr>venv_python_exists = True, analysis_script_exists = True, chdir_ok = True,
          child_run = Exited 0\<rparr>"]
    launcher_exit_status
    [of "\<lparr>venv_python_exists = True, analysis_script_exists = False, chdir_ok = True,
          child_run = Exited 0\<rparr>"]
  by simp

text \<open>A child that returns 2 makes both launchers exit with 1, not with 2.\<close>

theorem launcher_exit_code_counterexample:
  "script_terminal \<lparr>venv_python_exists = True, analysis_script_exists = True, chdir_ok = True,
                     child_run = Exited 2\<rparr> = 1 \<and>
   script_05 \<lparr>venv_python_exists = True, analysis_script_exists = True, chdir_ok = True,
              child_run = Exited 2\<rparr> = 1"
  by (simp add: script_terminal_def script_05_def main_terminal_def run_analysis_05_def)

section \<open>Loading and merging in \<^verbatim>\<open>config_manager.py\<close>\<close>

lemma map_of_dict_update:
  "distinct (map fst u) \<Longrightarrow>
   map_of (dict_update d u) j = (case map_of u j of None \<Rightarrow> map_of d j | Some x \<Rightarrow> Some x)"
proof (induction u arbitrary: d)
  case Nil
  show ?case by simp
next
  case (Cons kv u)
  obtain k v where kv: "kv = (k, v)" by (cases kv)
  from Cons.prems kv have nk: "map_of u k = None" and d: "distinct (map fst u)"
    by (auto simp: map_of_eq_None_iff)
  show ?case using Cons.IH[OF d] nk kv
    by (auto simp: update_conv' split: option.splits)
qed

lemma map_of_merge_loop:
  "distinct (map fst items) \<Longrightarrow>
   map_of (merge_loop cfg items) k =
     (case map_of items k of
        None \<Rightarrow> map_of cfg k
      | Some v \<Rightarrow>
          (case (map_of cfg k, v) of
             (Some (PDict d), PDict u) \<Rightarrow> Some (PDict (dict_update d u))
           | _ \<Rightarrow> Some v))"
proof (induction items arbitrary: cfg)
  case Nil
  show ?case by simp
next
  case (Cons kv items)
  obtain key v where kv: "kv = (key, v)" by (cases kv)
  from Cons.prems kv have nk: "map_of items key = None" and d: "distinct (map fst items)"
    by (auto simp: map_of_eq_None_iff)
  show ?case
    using Cons.IH[OF d] nk kv
    by (auto simp: update_conv' split: option.splits pyval.splits)
qed

lemma load_config_cm_dict:
  assumes "open_read w file = Inr c" "yaml_safe_load R c = Some (PDict items)"
  shows "fst (load_config_cm R file w) = PDict (merge_loop (default_config_cm R) items)"
proof (cases "items = []")
  case True
  with assms show ?thesis
    by (simp add: load_config_cm_def open_read_exists)
next
  case False
  with assms show ?thesis
    by (simp add: load_config_cm_def open_read_exists)
qed

text \<open>
  C1. When the file holds a mapping, \<^verbatim>\<open>_load_config\<close> of \<^verbatim>\<open>config_manager.py\<close> returns the
  default tree merged one level deep: a top-level key of the file whose value is a mapping
  on both sides holds the default mapping updated by the file's entries, every other
  top-level key of the file holds the file's value, and a key the file lacks keeps its
  default. The entries of an updated mapping are the file's where it has them and the
  default's elsewhere.
\<close>

theorem load_config_cm_one_level_merge:
  assumes "open_read w file = Inr c"
    and "yaml_safe_load R c = Some (PDict items)"
    and "distinct (map fst items)"
  shows "\<exists>merged. fst (load_config_cm R file w) = PDict merged \<and>
     (\<forall>k. map_of merged k =
        (case map_of items k of
           None \<Rightarrow> map_of (default_config_cm R) k
         | Some v \<Rightarrow>
             (case (map_of (default_config_cm R) k, v) of
                (Some (PDict d), PDict u) \<Rightarrow> Some (PDict (dict_update d u))
              | _ \<Rightarrow> Some v))) \<and>
     (\<forall>k d u j. map_of (default_config_cm R) k = Some (PDict d) \<and>
        map_of items k = Some (PDict u) \<and> distinct (map fst u) \<longrightarrow>
        walk (PDict merged) [k, j] =
          (case map_of u j of None \<Rightarrow> map_of d j | Some x \<Rightarrow> Some x))"
proof -
  let ?m = "merge_loop (default_config_cm R) items"
  have m: "fst (load_config_cm R file w) = PDict ?m"
    using assms(1,2) by (rule load_config_cm_dict)
  have k: "\<And>k. map_of ?m k =
        (case map_of items k of
           None \<Rightarrow> map_of (default_config_cm R) k
         | Some v \<Rightarrow>
             (case (map_of (default_config_cm R) k, v) of
                (Some (PDict d), PDict u) \<Rightarrow> Some (PDict (dict_update d u))
              | _ \<Rightarrow> Some v))"
    using assms(3) by (rule map_of_merge_loop)
  have j: "\<And>k d u j. map_of (default_config_cm R) k = Some (PDict d) \<Longrightarrow>
        map_of items k = Some (PDict u) \<Longrightarrow> distinct (map fst u) \<Longrightarrow>
        walk (PDict ?m) [k, j] =
          (case map_of u j of None \<Rightarrow> map_of d j | Some x \<Rightarrow> Some x)"
  proof -
    fix k d u j
    assume a: "map_of (default_config_cm R) k = Some (PDict d)" "map_of items k = Some (PDict u)"
       "distinct (map fst u)"
    have "map_of ?m k = Some (PDict (dict_update d u))"
      using a(1,2) by (simp only: k option.case prod.case pyval.case)
    then show "walk (PDict ?m) [k, j] =
          (case map_of u j of None \<Rightarrow> map_of d j | Some x \<Rightarrow> Some x)"
      using map_of_dict_update[OF a(3), of d j]
      by (cases "map_of (dict_update d u) j") (auto split: option.splits)
  qed
  from m k j show ?thesis by blast
qed

text \<open>The scenario of the specification: the file holds only
  \<^verbatim>\<open>{"analysis_period": {"start_year": 2018}}\<close>; the merged tree has the start year 2018 and
  the default end year 2020.\<close>

theorem load_config_cm_one_level_merge_witness:
  "get_cm (fst (load_config_cm example_runtime ''config/kariba_config.yaml''
      (example_world [''config/kariba_config.yaml'' \<mapsto>
         Some (PDict [(''analysis_period'', PDict [(''start_year'', PInt 2018)])])])))
      ''analysis_period.start_year'' PNone = PInt 2018 \<and>
   get_cm (fst (load_config_cm example_runtime ''config/kariba_config.yaml''
      (example_world [''config/kariba_config.yaml'' \<mapsto>
         Some (PDict [(''analysis_period'', PDict [(''start_year'', PInt 2018)])])])))
      ''analysis_period.end_year'' PNone = PInt 2020"
proof -
  let ?items = "[(''analysis_period'', PDict [(''start_year'', PInt 2018)])]"
  let ?w = "example_world [''config/kariba_config.yaml'' \<mapsto> Some (PDict ?items)]"
  have r: "open_read ?w ''config/kariba_config.yaml'' = Inr (Some (PDict ?items))"
    by (simp add: open_read_def example_world_def)
  have y: "yaml_safe_load example_runtime (Some (PDict ?items)) = Some (PDict ?items)"
    by (simp add: example_runtime_simps)
  have d: "distinct (map fst ?items)" by simp
  from load_config_cm_one_level_merge[OF r y d]
  obtain merged where m: "fst (load_config_cm example_runtime ''config/kariba_config.yaml'' ?w) = PDict merged"
    and w: "\<forall>k d u j. map_of (default_config_cm example_runtime) k = Some (PDict d) \<and>
        map_of ?items k = Some (PDict u) \<and> distinct (map fst u) \<longrightarrow>
        walk (PDict merged) [k, j] =
          (case map_of u j of None \<Rightarrow> map_of d j | Some x \<Rightarrow> Some x)"
    by blast
  have dflt: "map_of (default_config_cm example_runtime) ''analysis_period'' =
      Some (PDict [(''start_year'', PInt 2015), (''end_year'', PInt 2020),
        (''years'', PList [PInt 2015, PInt 2016, PInt 2017, PInt 2018, PInt 2019, PInt 2020])])"
    by (simp add: default_config_cm_def)
  have s: "walk (PDict merged) [''analysis_period'', ''start_year''] = Some (PInt 2018)"
    using w[rule_format, of "''analysis_period''" _ "[(''start_year'', PInt 2018)]" "''start_year''"] dflt
    by simp
  have e: "walk (PDict merged) [''analysis_period'', ''end_year''] = Some (PInt 2020)"
    using w[rule_format, of "''analysis_period''" _ "[(''start_year'', PInt 2018)]" "''end_year''"] dflt
    by simp
  have ks: "split_sep CHR ''.'' ''analysis_period.start_year'' = [''analysis_period'', ''start_year'']"
    by simp
  have ke: "split_sep CHR ''.'' ''analysis_period.end_year'' = [''analysis_period'', ''end_year'']"
    by simp
  show ?thesis
    unfolding m get_cm_def ks ke get_loop_cm_walk s e by simp
qed

lemma map_of_dict_update_other:
  "map_of u j = None \<Longrightarrow> map_of (dict_update d u) j = map_of d j"
proof (induction u arbitrary: d)
  case Nil
  show ?case by simp
next
  case (Cons kv u)
  obtain k v where kv: "kv = (k, v)" by (cases kv)
  with Cons.prems have "k \<noteq> j" "map_of u j = None" by (auto split: if_splits)
  with Cons.IH[of "AList.update k v d"] kv show ?case by (simp add: update_conv')
qed

lemma map_of_merge_loop_other:
  "map_of items k = None \<Longrightarrow> map_of (merge_loop cfg items) k = map_of cfg k"
proof (induction items arbitrary: cfg)
  case Nil
  show ?case by simp
next
  case (Cons kv items)
  obtain key v where kv: "kv = (key, v)" by (cases kv)
  with Cons.prems have ne: "key \<noteq> k" and r: "map_of items k = None" by (auto split: if_splits)
  show ?case using Cons.IH[OF r] ne kv
    by (auto simp: update_conv' split: option.splits pyval.splits)
qed

lemma load_config_cm_not_dict:
  assumes "open_read w file = Inr c" "yaml_safe_load R c = Some u" "\<not> isinstance_dict u"
  shows "fst (load_config_cm R file w) = PDict (default_config_cm R)"
  using assms by (cases u) (simp_all add: load_config_cm_def open_read_exists)

lemma split_sep_not_Nil: "split_sep c s \<noteq> []"
  by (induction s) (auto split: list.splits)

text \<open>The merged tree below a first segment \<open>s\<close> that the file lacks is the default tree.\<close>

lemma walk_merged_absent:
  assumes "open_read w file = Inr c" "yaml_safe_load R c = Some u" "walk u [s] = None"
  shows "walk (fst (load_config_cm R file w)) (s # rest) =
         walk (PDict (default_config_cm R)) (s # rest)"
proof (cases u)
  case (PDict items)
  with assms(3) have "map_of items s = None" by (simp split: option.splits)
  then have "map_of (merge_loop (default_config_cm R) items) s = map_of (default_config_cm R) s"
    by (rule map_of_merge_loop_other)
  then show ?thesis
    using assms(1,2) PDict by (simp add: load_config_cm_dict)
qed (use assms(1,2) in \<open>simp_all add: load_config_cm_not_dict\<close>)

text \<open>The merged tree at a first segment \<open>s\<close> that the file has.\<close>

lemma map_of_merged_present:
  assumes "open_read w file = Inr c" "yaml_safe_load R c = Some (PDict items)"
    and "distinct (map fst items)" "map_of items s = Some x"
  shows "\<exists>merged. fst (load_config_cm R file w) = PDict merged \<and>
           map_of merged s =
             (case (map_of (default_config_cm R) s, x) of
                (Some (PDict d), PDict sec) \<Rightarrow> Some (PDict (dict_update d sec))
              | _ \<Rightarrow> Some x)"
  using load_config_cm_dict[OF assms(1,2)] map_of_merge_loop[OF assms(3), of "default_config_cm R" s]
    assms(4)
  by simp

text \<open>
  C2. With \<^verbatim>\<open>_load_config\<close> of \<^verbatim>\<open>config_manager.py\<close>, for a file that exists and parses and
  a dotted key \<open>K\<close> of the default tree, of any depth. When the file lacks the first segment
  of \<open>K\<close>, or holds under it a mapping that lacks the second segment of \<open>K\<close>, \<^verbatim>\<open>get(K)\<close>
  without a caller default returns the default tree's value. In every other case in which
  the file lacks \<open>K\<close> the lookup returns \<^verbatim>\<open>None\<close>: the file's value has replaced the default
  above \<open>K\<close>.
\<close>

theorem get_cm_default_for_missing_key:
  assumes "open_read w file = Inr c"
    and "yaml_safe_load R c = Some u"
    and "walk (PDict (default_config_cm R)) (split_sep CHR ''.'' K) = Some v"
  shows "(walk u (take 1 (split_sep CHR ''.'' K)) = None \<or>
          (distinct_keys u \<and> (\<exists>sec. walk u (take 1 (split_sep CHR ''.'' K)) = Some (PDict sec)) \<and>
           walk u (take 2 (split_sep CHR ''.'' K)) = None)
          \<longrightarrow> get_cm (fst (load_config_cm R file w)) K PNone = v) \<and>
         (distinct_keys u \<and> walk u (split_sep CHR ''.'' K) = None \<and>
          (\<exists>x. walk u (take 1 (split_sep CHR ''.'' K)) = Some x \<and> distinct_keys x \<and>
               (isinstance_dict x \<longrightarrow> walk u (take 2 (split_sep CHR ''.'' K)) \<noteq> None))
          \<longrightarrow> get_cm (fst (load_config_cm R file w)) K PNone = PNone)"
proof -
  let ?cfg = "fst (load_config_cm R file w)"
  obtain s rest where ks: "split_sep CHR ''.'' K = s # rest"
    using split_sep_not_Nil[of "CHR ''.''" K] by (cases "split_sep CHR ''.'' K") auto
  have get: "get_cm ?cfg K PNone = (case walk ?cfg (s # rest) of None \<Rightarrow> PNone | Some r \<Rightarrow> r)"
    by (simp add: get_cm_def get_loop_cm_walk ks split: option.splits)
  have A: "walk u [s] = None \<Longrightarrow> get_cm ?cfg K PNone = v"
    using walk_merged_absent[OF assms(1,2), of s rest] assms(3) by (simp add: get ks)
  have B: "get_cm ?cfg K PNone = v"
    if dk: "distinct_keys u" and sec: "walk u [s] = Some (PDict sec)"
      and two': "walk u (take 2 (split_sep CHR ''.'' K)) = None" for sec
  proof -
    from two' have two: "walk u (take 2 (s # rest)) = None" by (simp only: ks)
    from sec obtain items where u: "u = PDict items" and it: "map_of items s = Some (PDict sec)"
      by (cases u) (auto split: option.splits)
    from two u it obtain f rest' where rest: "rest = f # rest'" and nf: "map_of sec f = None"
      by (cases rest) (auto split: option.splits)
    from assms(3) ks rest obtain d where d: "map_of (default_config_cm R) s = Some (PDict d)"
      and dv: "walk (PDict d) (f # rest') = Some v"
      by (auto split: option.splits elim: walk.elims)
    from map_of_merged_present[OF assms(1) assms(2)[unfolded u] _ it] dk u d
    obtain merged where m: "?cfg = PDict merged"
      and ms: "map_of merged s = Some (PDict (dict_update d sec))" by auto
    have "map_of (dict_update d sec) f = map_of d f" using nf by (rule map_of_dict_update_other)
    then have "walk ?cfg (s # rest) = Some v"
      using m ms dv rest by simp
    then show ?thesis by (simp add: get)
  qed
  have C: "get_cm ?cfg K PNone = PNone"
    if dk: "distinct_keys u" and miss': "walk u (split_sep CHR ''.'' K) = None"
      and x: "walk u [s] = Some x" and dx: "distinct_keys x"
      and deep': "isinstance_dict x \<longrightarrow> walk u (take 2 (split_sep CHR ''.'' K)) \<noteq> None" for x
  proof -
    from miss' have miss: "walk u (s # rest) = None" by (simp only: ks)
    from deep' have deep: "isinstance_dict x \<longrightarrow> walk u (take 2 (s # rest)) \<noteq> None"
      by (simp only: ks)
    from x obtain items where u: "u = PDict items" and it: "map_of items s = Some x"
      by (cases u) (auto split: option.splits)
    from map_of_merged_present[OF assms(1) assms(2)[unfolded u] _ it] dk u
    obtain merged where m: "?cfg = PDict merged"
      and ms: "map_of merged s =
             (case (map_of (default_config_cm R) s, x) of
                (Some (PDict d), PDict sec) \<Rightarrow> Some (PDict (dict_update d sec))
              | _ \<Rightarrow> Some x)" by auto
    from miss u it have mx: "walk x rest = None" by simp
    have "walk ?cfg (s # rest) = None"
    proof (cases "\<exists>d sec. map_of (default_config_cm R) s = Some (PDict d) \<and> x = PDict sec")
      case True
      then obtain d sec where d: "map_of (default_config_cm R) s = Some (PDict d)"
        and xs: "x = PDict sec" by blast
      from deep xs u it mx obtain f rest' y where rest: "rest = f # rest'" and y: "map_of sec f = Some y"
        by (cases rest) (auto split: option.splits)
      from dx xs have "distinct (map fst sec)" by simp
      then have "map_of (dict_update d sec) f = Some y"
        using y by (simp add: map_of_dict_update)
      moreover from mx xs rest y have "walk y rest' = None" by simp
      ultimately show ?thesis using m ms d xs rest by simp
    next
      case False
      then have "map_of merged s = Some x"
        using ms by (auto split: option.splits pyval.splits)
      then show ?thesis using m mx by simp
    qed
    then show ?thesis by (simp add: get)
  qed
  have t1: "take 1 (split_sep CHR ''.'' K) = [s]" by (simp add: ks)
  show ?thesis
    unfolding t1 using A B C by blast
qed


theorem get_cm_default_for_missing_key_witness:
  "get_cm (fst (load_config_cm example_runtime ''config/kariba_config.yaml''
      (example_world [''config/kariba_config.yaml'' \<mapsto>
         Some (PDict [(''analysis_period'', PDict [(''start_year'', PInt 2018)])])])))
      ''paths.output.base'' PNone = PStr ''output'' \<and>
   get_cm (fst (load_config_cm example_runtime ''config/kariba_config.yaml''
      (example_world [''config/kariba_config.yaml'' \<mapsto>
         Some (PDict [(''analysis_period'', PDict [(''start_year'', PInt 2018)])])])))
      ''analysis_period.end_year'' PNone = PInt 2020"
proof -
  let ?u = "PDict [(''analysis_period'', PDict [(''start_year'', PInt 2018)])]"
  let ?w = "example_world [''config/kariba_config.yaml'' \<mapsto> Some ?u]"
  have k1: "split_sep CHR ''.'' ''paths.output.base'' = [''paths'', ''output'', ''base'']" by simp
  have k2: "split_sep CHR ''.'' ''analysis_period.end_year'' = [''analysis_period'', ''end_year'']"
    by simp
  have r: "open_read ?w ''config/kariba_config.yaml'' = Inr (Some ?u)"
    by (simp add: open_read_def example_world_def)
  have y: "yaml_safe_load example_runtime (Some ?u) = Some ?u"
    by (simp add: example_runtime_simps)
  have d1: "walk (PDict (default_config_cm example_runtime)) (split_sep CHR ''.'' ''paths.output.base'')
      = Some (PStr ''output'')"
    unfolding k1 by (simp add: default_config_cm_def)
  have d2: "walk (PDict (default_config_cm example_runtime))
      (split_sep CHR ''.'' ''analysis_period.end_year'') = Some (PInt 2020)"
    unfolding k2 by (simp add: default_config_cm_def)
  have c1: "walk ?u (take 1 (split_sep CHR ''.'' ''paths.output.base'')) = None"
    unfolding k1 by simp
  have c2: "distinct_keys ?u \<and>
      (\<exists>sec. walk ?u (take 1 (split_sep CHR ''.'' ''analysis_period.end_year'')) = Some (PDict sec)) \<and>
      walk ?u (take 2 (split_sep CHR ''.'' ''analysis_period.end_year'')) = None"
    unfolding k2 by simp
  have 1: "get_cm (fst (load_config_cm example_runtime ''config/kariba_config.yaml'' ?w))
      ''paths.output.base'' PNone = PStr ''output''"
    by (rule get_cm_default_for_missing_key[OF r y d1, THEN conjunct1, rule_format, OF disjI1, OF c1])
  have 2: "get_cm (fst (load_config_cm example_runtime ''config/kariba_config.yaml'' ?w))
      ''analysis_period.end_year'' PNone = PInt 2020"
    by (rule get_cm_default_for_missing_key[OF r y d2, THEN conjunct1, rule_format, OF disjI2, OF c2])
  show ?thesis using 1 2 by (intro conjI)
qed

lemma create_loop_cm_succeeds:
  "\<forall>d\<in>set ds. d \<notin> unwritable w \<and> files w d = None \<Longrightarrow>
   \<exists>w'. create_loop_cm ds w = (Inr (), w') \<and> trace w' = trace w"
proof (induction ds arbitrary: w)
  case Nil
  show ?case by simp
next
  case (Cons d ds)
  then obtain w1 where m: "makedirs d w = Inr w1" and f: "files w1 = files w"
    and u: "unwritable w1 = unwritable w" and t: "trace w1 = trace w"
    by (cases "d \<in> dirs w") (auto simp: makedirs_def)
  from Cons.prems f u have "\<forall>d\<in>set ds. d \<notin> unwritable w1 \<and> files w1 d = None" by simp
  from Cons.IH[OF this] m t show ?case by simp
qed

lemma init_01_config:
  "config (fst (init_01 R (Some f) w)) = fst (load_config_01 R (path_str (Path_of f)) w)"
  by (simp add: init_01_def split_beta Let_def)

text \<open>
  The claim as written fails in both files. \<^verbatim>\<open>load_config\<close> of \<^verbatim>\<open>config_manager_01.py\<close> does
  not overlay the file onto the defaults: the file holds only a start year, the default tree
  has the end year 2020, and the instance constructed from the file answers \<^verbatim>\<open>None\<close> for the
  end year. And the merge of \<^verbatim>\<open>config_manager.py\<close> is one level deep: a file that gives
  \<^verbatim>\<open>visualization.colormaps\<close> with one entry replaces the default mapping, the constructor
  succeeds, and the instance answers \<^verbatim>\<open>None\<close> for the default
  \<^verbatim>\<open>visualization.colormaps.temperature\<close>.
\<close>

theorem missing_key_lost_counterexample:
  "get_01 default_config_01 ''analysis_period.end_year'' PNone = PInt 2020 \<and>
   get_01 (config (fst (init_01 example_runtime (Some ''config.json'')
      (example_world [''config.json'' \<mapsto>
         Some (PDict [(''analysis_period'', PDict [(''start_year'', PInt 2018)])])]))))
      ''analysis_period.end_year'' PNone = PNone \<and>
   get_cm (PDict (default_config_cm example_runtime)) ''visualization.colormaps.temperature'' PNone =
     PStr ''plasma'' \<and>
   (case init_cm example_runtime (Some ''config/kariba_config.yaml'')
      (example_world [''config/kariba_config.yaml'' \<mapsto>
         Some (PDict [(''visualization'',
                 PDict [(''colormaps'', PDict [(''wind_speed'', PStr ''jet'')])])])]) of
      (Inr (self, ps), w') \<Rightarrow>
        get_cm (config self) ''visualization.colormaps.temperature'' PNone = PNone
    | (Inl e, w') \<Rightarrow> False)"
proof -
  let ?items = "[(''visualization'', PDict [(''colormaps'', PDict [(''wind_speed'', PStr ''jet'')])])]"
  let ?w = "example_world [''config/kariba_config.yaml'' \<mapsto> Some (PDict ?items)]"
  let ?m = "merge_loop (default_config_cm example_runtime) ?items"
  let ?w1 = "emit (Log INFO ''Loaded configuration from config/kariba_config.yaml'') ?w"
  have 1: "get_01 default_config_01 ''analysis_period.end_year'' PNone = PInt 2020"
    by (simp add: get_01_def default_config_01_def)
  have pj: "path_str (Path_of ''config.json'') = ''config.json''"
    by (simp add: path_str_def Path_of_def posix_root_def)
  have 2: "get_01 (config (fst (init_01 example_runtime (Some ''config.json'')
      (example_world [''config.json'' \<mapsto>
         Some (PDict [(''analysis_period'', PDict [(''start_year'', PInt 2018)])])]))))
      ''analysis_period.end_year'' PNone = PNone"
    unfolding init_01_config pj
    by (simp add: get_01_def load_config_01_def path_exists_def open_read_def
        example_world_def example_runtime_simps)
  have ks: "split_sep CHR ''.'' ''visualization.colormaps.temperature'' =
      [''visualization'', ''colormaps'', ''temperature'']"
    by simp
  have 3: "get_cm (PDict (default_config_cm example_runtime))
      ''visualization.colormaps.temperature'' PNone = PStr ''plasma''"
    unfolding get_cm_def ks by (simp add: default_config_cm_def dict_get_def)
  have py: "path_str (Path_of ''config/kariba_config.yaml'') = ''config/kariba_config.yaml''"
    by (simp add: path_str_def Path_of_def posix_root_def)
  have ld: "load_config_cm example_runtime ''config/kariba_config.yaml'' ?w = (PDict ?m, ?w1)"
    by (simp add: load_config_cm_def path_exists_def open_read_def example_world_def
        example_runtime_simps del: merge_loop.simps)
  have mp: "map_of ?m ''paths'' = map_of (default_config_cm example_runtime) ''paths''"
    by (rule map_of_merge_loop_other) simp
  have mj: "map_of ?m ''project'' = map_of (default_config_cm example_runtime) ''project''"
    by (rule map_of_merge_loop_other) simp
  have sp: "setup_paths_cm (PDict ?m) = setup_paths_cm (PDict (default_config_cm example_runtime))"
    by (simp add: setup_paths_cm_def mp del: merge_loop.simps)
  obtain ps where ps: "setup_paths_cm (PDict (default_config_cm example_runtime)) = Inr ps"
    and dl: "map path_str [data_dir ps, era5_raw_dir ps, era5_processed_dir ps, output_dir ps,
                            maps_dir ps, timeseries_dir ps, statistics_dir ps, reports_dir ps,
                            clustering_dir ps, validation_dir ps, logs_dir ps] =
      [''/home/chawas/deployed/charara/data'',
       ''/home/chawas/deployed/charara/data/era5_raw'',
       ''/home/chawas/deployed/charara/data/era5_processed'',
       ''/home/chawas/deployed/charara/output'',
       ''/home/chawas/deployed/charara/output/maps'',
       ''/home/chawas/deployed/charara/output/timeseries'',
       ''/home/chawas/deployed/charara/output/statistics'',
       ''/home/chawas/deployed/charara/output/reports'',
       ''/home/chawas/deployed/charara/output/clustering'',
       ''/home/chawas/deployed/charara/output/validation'',
       ''/home/chawas/deployed/charara/logs'']"
    by (simp add: setup_paths_cm_def default_config_cm_def bind_err_def under_def truediv_def
        Path_of_def posix_root_def path_str_def)
  have "\<exists>w'. create_loop_cm
      (map path_str [data_dir ps, era5_raw_dir ps, era5_processed_dir ps, output_dir ps,
                     maps_dir ps, timeseries_dir ps, statistics_dir ps, reports_dir ps,
                     clustering_dir ps, validation_dir ps, logs_dir ps]) ?w1 = (Inr (), w') \<and>
      trace w' = trace ?w1"
    unfolding dl by (rule create_loop_cm_succeeds) (simp add: example_world_def emit_def)
  then obtain w2 where cd: "create_directories_cm ps ?w1 =
      (Inr (), emit (Log INFO ''Created all necessary directories'') w2)"
    by (auto simp: create_directories_cm_def)
  have nm: "bind_err (getitem (PDict ?m) ''project'') (\<lambda>p. getitem p ''name'') =
      Inr (PStr ''Lake Kariba Floating Solar Wind Analysis'')"
    by (simp add: bind_err_def mj del: merge_loop.simps) (simp add: default_config_cm_def)
  obtain w3 where i: "init_cm example_runtime (Some ''config/kariba_config.yaml'') ?w =
      (Inr (\<lparr>config_file = ''config/kariba_config.yaml'', config = PDict ?m\<rparr>, ps), w3)"
    by (simp add: init_cm_def py ld sp ps cd nm Let_def del: merge_loop.simps getitem.simps)
  have mv: "map_of ?m ''visualization'' =
      Some (PDict (dict_update
        [(''colormaps'', PDict [
           (''wind_speed'', PStr ''viridis''),
           (''temperature'', PStr ''plasma''),
           (''pressure'', PStr ''cividis''),
           (''direction'', PStr ''hsv'')]),
         (''figure_size'', PList [PInt 12, PInt 8]),
         (''dpi'', PInt 150),
         (''font_size'', PInt 12),
         (''style'', PStr ''seaborn-v0_8-darkgrid'')]
        [(''colormaps'', PDict [(''wind_speed'', PStr ''jet'')])]))"
    by (subst map_of_merge_loop) (simp_all add: default_config_cm_def)
  have 4: "(case init_cm example_runtime (Some ''config/kariba_config.yaml'') ?w of
      (Inr (self, ps), w') \<Rightarrow>
        get_cm (config self) ''visualization.colormaps.temperature'' PNone = PNone
    | (Inl e, w') \<Rightarrow> False)"
    unfolding i get_cm_def ks get_loop_cm_walk
    by (simp only: walk.simps mv option.case prod.case sum.case manager.simps) simp
  show ?thesis using 1 2 3 4 by (intro conjI)
qed

section \<open>Path resolution\<close>

lemma split_sep_no_sep: "c \<notin> set a \<Longrightarrow> split_sep c a = [a]"
  by (induction a) auto

lemma split_sep_append: "c \<notin> set a \<Longrightarrow> split_sep c (a @ c # b) = a # split_sep c b"
  by (induction a) auto

lemma split_sep_at_sep: "split_sep c (a @ c # b) = split_sep c a @ split_sep c b"
proof (induction a)
  case Nil
  show ?case by simp
next
  case (Cons x a)
  obtain p ps where "split_sep c a = p # ps"
    using split_sep_not_Nil[of c a] by (cases "split_sep c a") auto
  with Cons show ?case by simp
qed

lemma split_sep_join:
  "ps \<noteq> [] \<Longrightarrow> \<forall>p\<in>set ps. c \<notin> set p \<Longrightarrow> split_sep c (join_sep [c] ps) = ps"
proof (induction "[c]" ps rule: join_sep.induct)
  case 1
  then show ?case by simp
next
  case (2 p)
  then show ?case by (simp add: split_sep_no_sep)
next
  case (3 p q ps)
  then show ?case by (simp add: split_sep_append)
qed

lemma join_sep_append:
  "ps \<noteq> [] \<Longrightarrow> qs \<noteq> [] \<Longrightarrow> join_sep sep (ps @ qs) = join_sep sep ps @ sep @ join_sep sep qs"
proof (induction sep ps rule: join_sep.induct)
  case (1 sep)
  then show ?case by simp
next
  case (2 sep p)
  then show ?case by (cases qs) simp_all
next
  case (3 sep p q ps)
  then show ?case by simp
qed

text \<open>The parts of a path string: what \<open>Path_of\<close> keeps of the pieces between slashes.\<close>

lemma parts_Path_of_at_sep:
  "parts (Path_of (a @ CHR ''/'' # b)) = parts (Path_of a) @ parts (Path_of b)"
  by (simp add: Path_of_def split_sep_at_sep)

lemma parts_Path_of_trailing: "parts (Path_of (a @ ''/'')) = parts (Path_of a)"
  using parts_Path_of_at_sep[of a "[]"] by (simp add: Path_of_def)

lemma posix_root_append:
  assumes "B \<noteq> []" "take 1 X \<noteq> ''/''" "X \<noteq> []"
  shows "last B \<noteq> CHR ''/'' \<Longrightarrow> posix_root (B @ ''/'' @ X) = posix_root B"
    and "last B = CHR ''/'' \<Longrightarrow> posix_root (B @ X) = posix_root B"
proof -
  obtain x X' where X: "X = x # X'" and x: "x \<noteq> CHR ''/''"
    using assms(2,3) by (cases X) auto
  show "posix_root (B @ ''/'' @ X) = posix_root B" if "last B \<noteq> CHR ''/''"
  proof (cases B)
    case Nil
    with assms(1) show ?thesis by simp
  next
    case (Cons a B1)
    show ?thesis
    proof (cases B1)
      case Nil
      with Cons X x that show ?thesis by (simp add: posix_root_def)
    next
      case (Cons b B2)
      with \<open>B = a # B1\<close> X x that show ?thesis by (cases B2) (auto simp: posix_root_def)
    qed
  qed
  show "posix_root (B @ X) = posix_root B" if "last B = CHR ''/''"
  proof (cases B)
    case Nil
    with assms(1) show ?thesis by simp
  next
    case (Cons a B1)
    show ?thesis
    proof (cases B1)
      case Nil
      with Cons X x that show ?thesis by (simp add: posix_root_def)
    next
      case (Cons b B2)
      with \<open>B = a # B1\<close> X x that show ?thesis by (cases B2) (auto simp: posix_root_def)
    qed
  qed
qed


lemma Path_of_os_path_join:
  assumes "P \<noteq> []" "take 1 P \<noteq> ''/''" "B \<noteq> []"
  shows "Path_of (os_path_join B P) = truediv (Path_of B) (Path_of P)"
proof -
  have rP: "root (Path_of P) = []"
    using assms(1,2) by (cases P) (auto simp: Path_of_def posix_root_def)
  have t: "truediv (Path_of B) (Path_of P) =
      PurePath (posix_root B) (parts (Path_of B) @ parts (Path_of P))"
    using rP by (simp add: truediv_def) (simp add: Path_of_def)
  show ?thesis
  proof (cases "last B = CHR ''/''")
    case True
    then have j: "os_path_join B P = B @ P" using assms(2) by (simp add: os_path_join_def)
    from True assms(3) have B: "B = butlast B @ ''/''"
      using append_butlast_last_id[of B] by simp
    have "parts (Path_of (B @ P)) = parts (Path_of (butlast B)) @ parts (Path_of P)"
      using parts_Path_of_at_sep[of "butlast B" P] B by (metis append.assoc append_Cons append_Nil)
    moreover have "parts (Path_of B) = parts (Path_of (butlast B))"
      using parts_Path_of_trailing[of "butlast B"] B by simp
    moreover have "root (Path_of (B @ P)) = posix_root B"
      using posix_root_append(2)[OF assms(3,2,1) True] by (simp add: Path_of_def)
    ultimately show ?thesis
      unfolding j t by (cases "Path_of (B @ P)") simp
  next
    case False
    then have j: "os_path_join B P = B @ ''/'' @ P"
      using assms(2,3) by (simp add: os_path_join_def)
    have "parts (Path_of (B @ ''/'' @ P)) = parts (Path_of B) @ parts (Path_of P)"
      using parts_Path_of_at_sep[of B P] by simp
    moreover have "root (Path_of (B @ ''/'' @ P)) = posix_root B"
      using posix_root_append(1)[OF assms(3,2,1) False] by (simp add: Path_of_def)
    ultimately show ?thesis
      unfolding j t by (cases "Path_of (B @ ''/'' @ P)") simp
  qed
qed

lemma join_sep_last_not_Nil:
  "ps \<noteq> [] \<Longrightarrow> last ps \<noteq> [] \<Longrightarrow> join_sep sep ps \<noteq> []"
  by (induction sep ps rule: join_sep.induct) auto

lemma last_join_sep:
  "ps \<noteq> [] \<Longrightarrow> last ps \<noteq> [] \<Longrightarrow> last (join_sep sep ps) = last (last ps)"
proof (induction sep ps rule: join_sep.induct)
  case (3 sep p q ps)
  have ne: "join_sep sep (q # ps) \<noteq> []"
    using join_sep_last_not_Nil[of "q # ps" sep] 3(3) by simp
  have "last (join_sep sep (q # ps)) = last (last (q # ps))"
    using 3 by simp
  then show ?case using ne by simp
qed simp_all

lemma join_sep_Nil_iff:
  "\<forall>p\<in>set ps. p \<noteq> [] \<Longrightarrow> (join_sep sep ps = []) = (ps = [])"
  by (induction sep ps rule: join_sep.induct) auto

text \<open>A string in the normal form of \<^verbatim>\<open>pathlib\<close>, a slash or nothing followed by parts that
  are joined by single slashes and are neither empty nor \<^verbatim>\<open>'.'\<close>, is what \<^verbatim>\<open>str(Path(s))\<close>
  returns for it.\<close>

lemma path_str_normal_form:
  assumes "\<forall>p\<in>set ps. p \<noteq> [] \<and> p \<noteq> ''.'' \<and> CHR ''/'' \<notin> set p"
    and "r = ''/'' \<or> (r = [] \<and> ps \<noteq> [])"
  shows "path_str (Path_of (r @ join_sep ''/'' ps)) = r @ join_sep ''/'' ps"
proof (cases ps)
  case Nil
  with assms(2) show ?thesis by (auto simp: path_str_def Path_of_def posix_root_def)
next
  case (Cons p qs)
  with assms have ne: "ps \<noteq> []" and ns: "\<forall>p\<in>set ps. CHR ''/'' \<notin> set p" by auto
  from Cons assms obtain x xs where p: "p = x # xs" and x: "x \<noteq> CHR ''/''"
    by (cases p) auto
  have j: "join_sep ''/'' ps = x # drop 1 (join_sep ''/'' ps)"
    using Cons p by (cases qs) simp_all
  have r: "posix_root (r @ join_sep ''/'' ps) = r"
    using x assms(2) by (subst j) (auto simp: posix_root_def)
  have f: "filter (\<lambda>x. x \<noteq> [] \<and> x \<noteq> ''.'') ps = ps"
    using assms by (simp add: filter_id_conv)
  have s: "filter (\<lambda>x. x \<noteq> [] \<and> x \<noteq> ''.'') (split_sep CHR ''/'' (r @ join_sep ''/'' ps)) = ps"
    using split_sep_join[OF ne ns] assms(2) f by auto
  show ?thesis
    unfolding path_str_def Path_of_def r s using ne by simp
qed

lemma os_path_join_normal_form:
  assumes "\<forall>p\<in>set ps. p \<noteq> [] \<and> p \<noteq> ''.'' \<and> CHR ''/'' \<notin> set p" "ps \<noteq> []"
    and "\<forall>b\<in>set bs. b \<noteq> [] \<and> b \<noteq> ''.'' \<and> CHR ''/'' \<notin> set b"
    and "r = ''/'' \<or> (r = [] \<and> bs \<noteq> [])"
  shows "os_path_join (r @ join_sep ''/'' bs) (join_sep ''/'' ps) = r @ join_sep ''/'' (bs @ ps)"
    and "os_path_join (r @ join_sep ''/'' bs) (join_sep ''/'' ps) =
           (if bs = [] then ''/'' @ join_sep ''/'' ps
            else (r @ join_sep ''/'' bs) @ ''/'' @ join_sep ''/'' ps)"
    and "take 1 (join_sep ''/'' ps) \<noteq> ''/''" and "join_sep ''/'' ps \<noteq> []"
proof -
  let ?P = "join_sep ''/'' ps" and ?B = "r @ join_sep ''/'' bs"
  from assms(1,2) obtain p qs x xs where ps: "ps = p # qs" and p: "p = x # xs" and x: "x \<noteq> CHR ''/''"
    by (cases ps; cases "hd ps") auto
  have j: "?P = x # drop 1 ?P" using ps p by (cases qs) simp_all
  show rel: "take 1 ?P \<noteq> ''/''" using x by (subst j) simp
  show neP: "?P \<noteq> []" by (subst j) simp
  have a: "os_path_join ?B ?P = r @ join_sep ''/'' (bs @ ps) \<and>
        os_path_join ?B ?P = (if bs = [] then ''/'' @ ?P else ?B @ ''/'' @ ?P)"
  proof (cases "bs = []")
    case True
    with assms(4) have "r = ''/''" by auto
    with True rel show ?thesis by (simp add: os_path_join_def)
  next
    case False
    from False assms(3) have lb: "last bs \<noteq> []" and nl: "CHR ''/'' \<notin> set (last bs)"
      using last_in_set[OF False] by auto
    have jn: "join_sep ''/'' bs \<noteq> []"
      using assms(3) False by (simp add: join_sep_Nil_iff)
    have "last ?B = last (last bs)"
      using jn last_join_sep[OF False lb] by simp
    moreover have "last (last bs) \<in> set (last bs)" using lb by simp
    ultimately have "last ?B \<noteq> CHR ''/''" using nl by auto
    moreover have "?B \<noteq> []" using jn by simp
    ultimately have "os_path_join ?B ?P = ?B @ ''/'' @ ?P"
      using rel by (simp add: os_path_join_def)
    then show ?thesis using False assms(2) by (simp add: join_sep_append)
  qed
  from a show "os_path_join ?B ?P = r @ join_sep ''/'' (bs @ ps)" by blast
  from a show "os_path_join ?B ?P = (if bs = [] then ''/'' @ ?P else ?B @ ''/'' @ ?P)" by blast
qed

lemma get_loop_found: "walk cfg ks = Some v \<Longrightarrow> get_loop cfg ks d = v"
  by (simp add: get_loop_walk)


text \<open>
  C3. Let \<open>P\<close> be a non-empty string stored under the key. For an absolute \<open>P\<close>, \<^verbatim>\<open>get_path\<close>
  of both files returns \<^verbatim>\<open>str(Path(P))\<close>, whatever the base directory is, and that is \<open>P\<close>
  itself when \<open>P\<close> is in the normal form of \<^verbatim>\<open>pathlib\<close>: a slash followed by parts that are
  joined by single slashes and are neither empty nor \<^verbatim>\<open>'.'\<close>. For a relative \<open>P\<close> and a
  non-empty string \<open>B\<close> under \<^verbatim>\<open>paths.base_directory\<close>, it returns the normal form of
  \<^verbatim>\<open>os.path.join(B, P)\<close>; when \<open>B\<close> and \<open>P\<close> are in normal form that is
  \<^verbatim>\<open>os.path.join(B, P)\<close> itself: \<open>B\<close>, a slash and \<open>P\<close> (without the slash when \<open>B\<close> is the
  root).
\<close>

theorem get_path_resolves:
  assumes "walk cfg (split_sep CHR ''.'' key) = Some (PStr P)"
    and "P \<noteq> []"
  shows "(take 1 P = ''/'' \<longrightarrow>
            get_path_cfg cfg key = Inr (Some (path_str (Path_of P))) \<and>
            get_path_01 R cfg key w = (Some (path_str (Path_of P)), w)) \<and>
         (P = ''/'' @ join_sep ''/'' ps \<and>
          (\<forall>p\<in>set ps. p \<noteq> [] \<and> p \<noteq> ''.'' \<and> CHR ''/'' \<notin> set p) \<longrightarrow>
            get_path_cfg cfg key = Inr (Some P) \<and> get_path_01 R cfg key w = (Some P, w)) \<and>
         (take 1 P \<noteq> ''/'' \<and> walk cfg [''paths'', ''base_directory''] = Some (PStr B) \<and> B \<noteq> [] \<longrightarrow>
            get_path_cfg cfg key = Inr (Some (path_str (Path_of (os_path_join B P)))) \<and>
            get_path_01 R cfg key w = (Some (path_str (Path_of (os_path_join B P))), w)) \<and>
         (P = join_sep ''/'' ps \<and>
          (\<forall>p\<in>set ps. p \<noteq> [] \<and> p \<noteq> ''.'' \<and> CHR ''/'' \<notin> set p) \<and>
          walk cfg [''paths'', ''base_directory''] = Some (PStr B) \<and>
          B = r @ join_sep ''/'' bs \<and>
          (\<forall>b\<in>set bs. b \<noteq> [] \<and> b \<noteq> ''.'' \<and> CHR ''/'' \<notin> set b) \<and>
          (r = ''/'' \<or> (r = [] \<and> bs \<noteq> [])) \<longrightarrow>
            get_path_cfg cfg key = Inr (Some (os_path_join B P)) \<and>
            get_path_01 R cfg key w = (Some (os_path_join B P), w) \<and>
            os_path_join B P = (if bs = [] then ''/'' @ P else B @ ''/'' @ P))"
proof -
  have kb: "split_sep CHR ''.'' ''paths.base_directory'' = [''paths'', ''base_directory'']"
    by simp
  have vP: "get_cfg cfg key PNone = PStr P" "get_01 cfg key PNone = PStr P"
    using assms(1) by (simp_all add: get_cfg_def get_01_def get_loop_found)
  have ab: "is_absolute (Path_of P) = (take 1 P = ''/'')"
    using assms(2) by (cases P) (auto simp: is_absolute_def Path_of_def posix_root_def)
  have a: "take 1 P = ''/'' \<longrightarrow>
            get_path_cfg cfg key = Inr (Some (path_str (Path_of P))) \<and>
            get_path_01 R cfg key w = (Some (path_str (Path_of P)), w)"
    using assms(2) by (simp add: get_path_cfg_def get_path_01_def vP ab)
  have n: "P = ''/'' @ join_sep ''/'' ps \<and>
          (\<forall>p\<in>set ps. p \<noteq> [] \<and> p \<noteq> ''.'' \<and> CHR ''/'' \<notin> set p) \<longrightarrow>
            get_path_cfg cfg key = Inr (Some P) \<and> get_path_01 R cfg key w = (Some P, w)"
  proof
    assume h: "P = ''/'' @ join_sep ''/'' ps \<and>
          (\<forall>p\<in>set ps. p \<noteq> [] \<and> p \<noteq> ''.'' \<and> CHR ''/'' \<notin> set p)"
    then have "path_str (Path_of P) = P" using path_str_normal_form[of ps "''/''"] by simp
    moreover from h have "take 1 P = ''/''" by simp
    ultimately show "get_path_cfg cfg key = Inr (Some P) \<and> get_path_01 R cfg key w = (Some P, w)"
      using a by simp
  qed
  have rel: "get_path_cfg cfg key = Inr (Some (path_str (Path_of (os_path_join B' P)))) \<and>
            get_path_01 R cfg key w = (Some (path_str (Path_of (os_path_join B' P))), w)"
    if t: "take 1 P \<noteq> ''/''" and b: "walk cfg [''paths'', ''base_directory''] = Some (PStr B')"
      and ne: "B' \<noteq> []" for B'
  proof -
    have "get_loop cfg [''paths'', ''base_directory''] d = PStr B'" for d
      using b by (rule get_loop_found)
    then have vB: "get_cfg cfg ''paths.base_directory'' (PStr ''.'') = PStr B'"
      "get_01 cfg ''paths.base_directory'' PNone = PStr B'"
      unfolding get_cfg_def get_01_def kb by blast+
    have j: "truediv (Path_of B') (Path_of P) = Path_of (os_path_join B' P)"
      using Path_of_os_path_join[OF assms(2) t ne] by simp
    show ?thesis
      using assms(2) ne t by (simp add: get_path_cfg_def get_path_01_def vP vB ab j)
  qed
  have r: "take 1 P \<noteq> ''/'' \<and> walk cfg [''paths'', ''base_directory''] = Some (PStr B) \<and> B \<noteq> [] \<longrightarrow>
            get_path_cfg cfg key = Inr (Some (path_str (Path_of (os_path_join B P)))) \<and>
            get_path_01 R cfg key w = (Some (path_str (Path_of (os_path_join B P))), w)"
    using rel by blast
  have m: "P = join_sep ''/'' ps \<and>
          (\<forall>p\<in>set ps. p \<noteq> [] \<and> p \<noteq> ''.'' \<and> CHR ''/'' \<notin> set p) \<and>
          walk cfg [''paths'', ''base_directory''] = Some (PStr B) \<and>
          B = r @ join_sep ''/'' bs \<and>
          (\<forall>b\<in>set bs. b \<noteq> [] \<and> b \<noteq> ''.'' \<and> CHR ''/'' \<notin> set b) \<and>
          (r = ''/'' \<or> (r = [] \<and> bs \<noteq> [])) \<longrightarrow>
            get_path_cfg cfg key = Inr (Some (os_path_join B P)) \<and>
            get_path_01 R cfg key w = (Some (os_path_join B P), w) \<and>
            os_path_join B P = (if bs = [] then ''/'' @ P else B @ ''/'' @ P)"
  proof
    assume h: "P = join_sep ''/'' ps \<and>
          (\<forall>p\<in>set ps. p \<noteq> [] \<and> p \<noteq> ''.'' \<and> CHR ''/'' \<notin> set p) \<and>
          walk cfg [''paths'', ''base_directory''] = Some (PStr B) \<and>
          B = r @ join_sep ''/'' bs \<and>
          (\<forall>b\<in>set bs. b \<noteq> [] \<and> b \<noteq> ''.'' \<and> CHR ''/'' \<notin> set b) \<and>
          (r = ''/'' \<or> (r = [] \<and> bs \<noteq> []))"
    then have P: "P = join_sep ''/'' ps" and B: "B = r @ join_sep ''/'' bs"
      and okp: "\<forall>p\<in>set ps. p \<noteq> [] \<and> p \<noteq> ''.'' \<and> CHR ''/'' \<notin> set p"
      and okb: "\<forall>b\<in>set bs. b \<noteq> [] \<and> b \<noteq> ''.'' \<and> CHR ''/'' \<notin> set b"
      and rr: "r = ''/'' \<or> (r = [] \<and> bs \<noteq> [])"
      and wb: "walk cfg [''paths'', ''base_directory''] = Some (PStr B)"
      by blast+
    from P assms(2) have nps: "ps \<noteq> []" by auto
    note nf = os_path_join_normal_form[OF okp nps okb rr]
    have neB: "B \<noteq> []"
    proof (cases "bs = []")
      case True
      with rr B show ?thesis by auto
    next
      case False
      with okb have "join_sep ''/'' bs \<noteq> []" by (simp add: join_sep_Nil_iff)
      with B show ?thesis by simp
    qed
    have okbp: "\<forall>p\<in>set (bs @ ps). p \<noteq> [] \<and> p \<noteq> ''.'' \<and> CHR ''/'' \<notin> set p"
      using okp okb by auto
    have rr': "r = ''/'' \<or> (r = [] \<and> bs @ ps \<noteq> [])" using rr by auto
    have "path_str (Path_of (os_path_join B P)) = os_path_join B P"
      unfolding P B nf(1) by (rule path_str_normal_form[OF okbp rr'])
    moreover have "take 1 P \<noteq> ''/''" unfolding P by (rule nf(3))
    moreover have "os_path_join B P = (if bs = [] then ''/'' @ P else B @ ''/'' @ P)"
      unfolding P B by (rule nf(2))
    ultimately show "get_path_cfg cfg key = Inr (Some (os_path_join B P)) \<and>
            get_path_01 R cfg key w = (Some (os_path_join B P), w) \<and>
            os_path_join B P = (if bs = [] then ''/'' @ P else B @ ''/'' @ P)"
      using rel[OF _ wb neB] by simp
  qed
  show ?thesis
    by (intro conjI) (rule a, rule n, rule r, rule m)
qed

theorem get_path_resolves_witness:
  "get_path_cfg (PDict [(''paths'', PDict [(''base_directory'', PStr ''/tmp/proj'')]),
                        (''logs'', PStr ''logs/run''), (''scripts'', PStr ''/opt/scripts'')])
      ''logs'' = Inr (Some ''/tmp/proj/logs/run'') \<and>
   get_path_01 example_runtime
      (PDict [(''paths'', PDict [(''base_directory'', PStr ''/tmp/proj'')]),
              (''logs'', PStr ''logs/run''), (''scripts'', PStr ''/opt/scripts'')])
      ''logs'' (example_world Map.empty) = (Some ''/tmp/proj/logs/run'', example_world Map.empty) \<and>
   get_path_cfg (PDict [(''scripts'', PStr ''/opt/scripts'')]) ''scripts'' = Inr (Some ''/opt/scripts'') \<and>
   get_path_01 example_runtime (PDict [(''scripts'', PStr ''/opt/scripts'')])
      ''scripts'' (example_world Map.empty) = (Some ''/opt/scripts'', example_world Map.empty) \<and>
   get_path_cfg (PDict [(''paths'', PDict [(''base_directory'', PStr ''data//'')]),
                        (''logs'', PStr ''./logs/'')]) ''logs'' = Inr (Some ''data/logs'')"
proof -
  let ?cfg = "PDict [(''paths'', PDict [(''base_directory'', PStr ''/tmp/proj'')]),
                     (''logs'', PStr ''logs/run''), (''scripts'', PStr ''/opt/scripts'')]"
  let ?c2 = "PDict [(''scripts'', PStr ''/opt/scripts'')]"
  let ?c3 = "PDict [(''paths'', PDict [(''base_directory'', PStr ''data//'')]),
                    (''logs'', PStr ''./logs/'')]"
  let ?w = "example_world Map.empty"
  have l: "walk ?cfg (split_sep CHR ''.'' ''logs'') = Some (PStr ''logs/run'')" by simp
  have s: "walk ?c2 (split_sep CHR ''.'' ''scripts'') = Some (PStr ''/opt/scripts'')" by simp
  have d: "walk ?c3 (split_sep CHR ''.'' ''logs'') = Some (PStr ''./logs/'')" by simp
  have 1: "get_path_cfg ?cfg ''logs'' = Inr (Some ''/tmp/proj/logs/run'') \<and>
           get_path_01 example_runtime ?cfg ''logs'' ?w = (Some ''/tmp/proj/logs/run'', ?w)"
    using get_path_resolves[OF l, where R = example_runtime and w = ?w
        and ps = "[''logs'', ''run'']" and B = "''/tmp/proj''" and r = "''/''"
        and bs = "[''tmp'', ''proj'']", THEN conjunct2, THEN conjunct2, THEN conjunct2]
    by (simp add: os_path_join_def)
  have 2: "get_path_cfg ?c2 ''scripts'' = Inr (Some ''/opt/scripts'') \<and>
           get_path_01 example_runtime ?c2 ''scripts'' ?w = (Some ''/opt/scripts'', ?w)"
    using get_path_resolves[OF s, where R = example_runtime and w = ?w
        and ps = "[''opt'', ''scripts'']" and B = "[]" and r = "[]" and bs = "[]",
        THEN conjunct2, THEN conjunct1]
    by simp
  have 3: "get_path_cfg ?c3 ''logs'' = Inr (Some ''data/logs'')"
    using get_path_resolves[OF d, where R = example_runtime and w = ?w
        and ps = "[]" and B = "''data//''" and r = "[]" and bs = "[]",
        THEN conjunct2, THEN conjunct2, THEN conjunct1]
    by (simp add: os_path_join_def path_str_def Path_of_def posix_root_def)
  from 1 2 3 show ?thesis by simp
qed

text \<open>A path is not returned as it is written, nor as \<^verbatim>\<open>os.path.join\<close> writes it: the
  trailing slash of the absolute \<^verbatim>\<open>'/var/log/wind/'\<close> is dropped, and for the relative
  \<^verbatim>\<open>'./logs/'\<close> under the base directory \<^verbatim>\<open>'/tmp/proj'\<close>, where \<^verbatim>\<open>os.path.join\<close> gives
  \<^verbatim>\<open>'/tmp/proj/./logs/'\<close>, the result is \<^verbatim>\<open>'/tmp/proj/logs'\<close>.\<close>

theorem get_path_trailing_slash_counterexample:
  "get_cfg (PDict [(''logs'', PStr ''/var/log/wind/'')]) ''logs'' PNone = PStr ''/var/log/wind/'' \<and>
   get_path_cfg (PDict [(''logs'', PStr ''/var/log/wind/'')]) ''logs'' = Inr (Some ''/var/log/wind'') \<and>
   fst (get_path_01 example_runtime (PDict [(''logs'', PStr ''/var/log/wind/'')]) ''logs''
          (example_world Map.empty)) = Some ''/var/log/wind'' \<and>
   os_path_join ''/tmp/proj'' ''./logs/'' = ''/tmp/proj/./logs/'' \<and>
   get_path_cfg (PDict [(''paths'', PDict [(''base_directory'', PStr ''/tmp/proj'')]),
                        (''logs'', PStr ''./logs/'')]) ''logs'' = Inr (Some ''/tmp/proj/logs'') \<and>
   fst (get_path_01 example_runtime
          (PDict [(''paths'', PDict [(''base_directory'', PStr ''/tmp/proj'')]),
                  (''logs'', PStr ''./logs/'')]) ''logs'' (example_world Map.empty))
     = Some ''/tmp/proj/logs''"
  by (simp add: get_cfg_def get_01_def get_path_cfg_def get_path_01_def is_absolute_def
      path_str_def Path_of_def posix_root_def truediv_def os_path_join_def)

section \<open>Malformed configuration files\<close>

lemma write_file_trace: "trace (snd (write_file p d w)) = trace w"
  by (simp add: write_file_def split: written.splits)

lemma create_default_config_01_result:
  "fst (create_default_config_01 R file w) = default_config_01 \<and>
   set (trace w) \<subseteq> set (trace (snd (create_default_config_01 R file w)))"
proof -
  obtain r w' where s: "write_file file (json_dump R default_config_01) w = (r, w')"
    by (cases "write_file file (json_dump R default_config_01) w")
  then have "trace w' = trace w" using write_file_trace[where p = "file" and d = "json_dump R default_config_01" and w = w] by simp
  then show ?thesis
    by (cases r) (auto simp: create_default_config_01_def s emit_simps)
qed

lemma save_default_config_cm_trace:
  "set (trace w) \<subseteq> set (trace (save_default_config_cm R file cfg w))"
proof (cases "makedirs (path_str (path_parent (Path_of file))) w")
  case (Inl e)
  then show ?thesis by (auto simp: save_default_config_cm_def emit_simps)
next
  case (Inr w1)
  then have t1: "trace w1 = trace w" by (auto simp: makedirs_def split: if_splits)
  obtain r w2 where s: "write_file file (yaml_dump R cfg) w1 = (r, w2)"
    by (cases "write_file file (yaml_dump R cfg) w1")
  then have "trace w2 = trace w1" using write_file_trace[where p = "file" and d = "yaml_dump R cfg" and w = w1] by simp
  with t1 show ?thesis
    by (cases r) (auto simp: save_default_config_cm_def Inr s emit_simps)
qed

text \<open>
  C5. A configuration file that exists and does not parse. \<^verbatim>\<open>load_config\<close> of
  \<^verbatim>\<open>config_manager_01.py\<close> catches the parse error of \<^verbatim>\<open>json.load\<close>, logs it and returns the
  default tree, and the constructor completes with that tree. \<^verbatim>\<open>_load_config\<close> of
  \<^verbatim>\<open>config_manager.py\<close> catches the parse error of \<^verbatim>\<open>yaml.safe_load\<close>, logs it and returns
  its default tree. \<^verbatim>\<open>load_config\<close> of \<^verbatim>\<open>configuration_manager.py\<close> prints the error and ends
  the process with \<^verbatim>\<open>sys.exit(1)\<close>, and so does its constructor.
\<close>

theorem malformed_config_falls_back:
  assumes "open_read w file = Inr c"
    and "file = path_str (Path_of f)"
  shows "(json_load R c = None \<longrightarrow>
            fst (load_config_01 R file w) = default_config_01 \<and>
            Log ERROR ''Error parsing JSON'' \<in> set (trace (snd (load_config_01 R file w))) \<and>
            config (fst (init_01 R (Some f) w)) = default_config_01 \<and>
            load_config_cfg R file w = (Inl (SystemExit 1), emit (Print ''Error parsing JSON'') w) \<and>
            init_cfg R (Some f) w = (Inl (SystemExit 1), emit (Print ''Error parsing JSON'') w)) \<and>
         (yaml_safe_load R c = None \<longrightarrow>
            fst (load_config_cm R file w) = PDict (default_config_cm R) \<and>
            Log ERROR ''Error loading config file'' \<in> set (trace (snd (load_config_cm R file w))))"
proof (intro conjI impI)
  assume j: "json_load R c = None"
  have l: "load_config_01 R file w =
      create_default_config_01 R file (emit (Log ERROR ''Error parsing JSON'') w)"
    using assms(1) j by (simp add: load_config_01_def open_read_exists)
  show 1: "fst (load_config_01 R file w) = default_config_01"
    unfolding l by (simp add: create_default_config_01_result)
  show "Log ERROR ''Error parsing JSON'' \<in> set (trace (snd (load_config_01 R file w)))"
    unfolding l
    using create_default_config_01_result[where w = "emit (Log ERROR ''Error parsing JSON'') w"]
    by (auto simp: emit_simps)
  show "config (fst (init_01 R (Some f) w)) = default_config_01"
    using 1 assms(2) by (simp add: init_01_def split_beta Let_def)
  show 4: "load_config_cfg R file w = (Inl (SystemExit 1), emit (Print ''Error parsing JSON'') w)"
    using assms(1) j by (simp add: load_config_cfg_def)
  show "init_cfg R (Some f) w = (Inl (SystemExit 1), emit (Print ''Error parsing JSON'') w)"
    using 4 assms(2) by (simp add: init_cfg_def Let_def)
next
  assume y: "yaml_safe_load R c = None"
  have l: "load_config_cm R file w =
      (PDict (default_config_cm R),
       save_default_config_cm R file (PDict (default_config_cm R))
         (emit (Log ERROR ''Error loading config file'') w))"
    using assms(1) y by (simp add: load_config_cm_def open_read_exists)
  show "fst (load_config_cm R file w) = PDict (default_config_cm R)"
    unfolding l by simp
  show "Log ERROR ''Error loading config file'' \<in> set (trace (snd (load_config_cm R file w)))"
    unfolding l
    using save_default_config_cm_trace[where w = "emit (Log ERROR ''Error loading config file'') w"]
    by (auto simp: emit_simps)
qed

theorem malformed_config_falls_back_witness:
  "fst (load_config_01 example_runtime ''config.json'' (example_world [''config.json'' \<mapsto> None]))
     = default_config_01 \<and>
   Log ERROR ''Error parsing JSON'' \<in> set (trace (snd
     (load_config_01 example_runtime ''config.json'' (example_world [''config.json'' \<mapsto> None])))) \<and>
   fst (load_config_cm example_runtime ''config.json'' (example_world [''config.json'' \<mapsto> None]))
     = PDict (default_config_cm example_runtime) \<and>
   Log ERROR ''Error loading config file'' \<in> set (trace (snd
     (load_config_cm example_runtime ''config.json'' (example_world [''config.json'' \<mapsto> None]))))"
proof -
  let ?w = "example_world [''config.json'' \<mapsto> None]"
  have r: "open_read ?w ''config.json'' = Inr None"
    by (simp add: open_read_def example_world_def)
  have j: "json_load example_runtime None = None" "yaml_safe_load example_runtime None = None"
    by (simp_all add: example_runtime_simps)
  have p: "''config.json'' = path_str (Path_of ''config.json'')"
    by (simp add: path_str_def Path_of_def posix_root_def)
  from malformed_config_falls_back[OF r p, of example_runtime] j show ?thesis by blast
qed

text \<open>The claim as written fails for \<^verbatim>\<open>configuration_manager.py\<close>: on a file that does not
  parse, loading ends the process.\<close>

theorem load_config_cfg_exits_counterexample:
  "fst (load_config_cfg example_runtime ''config.json'' (example_world [''config.json'' \<mapsto> None]))
     = Inl (SystemExit 1) \<and>
   fst (init_cfg example_runtime (Some ''config.json'') (example_world [''config.json'' \<mapsto> None]))
     = Inl (SystemExit 1)"
  by (simp add: init_cfg_def load_config_cfg_def open_read_def example_world_def example_runtime_simps
      path_str_def Path_of_def posix_root_def)

section \<open>Creating the directories\<close>

lemma makedirs_Inr:
  "makedirs s w = Inr w' \<Longrightarrow> w' = w\<lparr>dirs := insert s (dirs w)\<rparr>"
  by (auto simp: makedirs_def insert_absorb split: if_splits)

lemma makedirs_succeeds_iff:
  "(\<exists>w'. makedirs s w = Inr w') = (s \<in> dirs w \<or> (s \<notin> unwritable w \<and> files w s = None))"
  by (auto simp: makedirs_def)

lemma create_loop_01_world:
  "create_loop_01 ds w =
     w\<lparr>dirs := dirs w \<union> {s. PStr s \<in> set ds \<and> s \<noteq> [] \<and> (\<exists>w'. makedirs s w = Inr w')},
       trace := trace w @ concat (map (\<lambda>d.
         case d of
           PStr s \<Rightarrow>
             (if s \<noteq> [] then
                (case makedirs s w of
                   Inr w' \<Rightarrow> []
                 | Inl e \<Rightarrow> [Log ERROR (''Error creating directory '' @ s)])
              else [Log WARNING ''Skipping invalid directory path''])
         | _ \<Rightarrow> [Log WARNING ''Skipping invalid directory path'']) ds)\<rparr>"
proof (induction ds arbitrary: w)
  case Nil
  show ?case by simp
next
  case (Cons d ds)
  let ?ev = "\<lambda>w d.
         case d of
           PStr s \<Rightarrow>
             (if s \<noteq> [] then
                (case makedirs s w of
                   Inr w' \<Rightarrow> []
                 | Inl e \<Rightarrow> [Log ERROR (''Error creating directory '' @ s)])
              else [Log WARNING ''Skipping invalid directory path''])
         | _ \<Rightarrow> [Log WARNING ''Skipping invalid directory path'']"
  let ?step = "(case d of
          PStr s \<Rightarrow>
            (if s \<noteq> [] then
               (case makedirs s w of
                  Inr w' \<Rightarrow> w'
                | Inl e \<Rightarrow> emit (Log ERROR (''Error creating directory '' @ s)) w)
             else emit (Log WARNING ''Skipping invalid directory path'') w)
        | _ \<Rightarrow> emit (Log WARNING ''Skipping invalid directory path'') w)"
  define new where "new = {s. d = PStr s \<and> s \<noteq> [] \<and> (\<exists>w'. makedirs s w = Inr w')}"
  have step: "?step = w\<lparr>dirs := dirs w \<union> new, trace := trace w @ ?ev w d\<rparr>"
  proof (cases "\<exists>s. d = PStr s \<and> s \<noteq> []")
    case True
    then obtain s where d: "d = PStr s" and s: "s \<noteq> []" by blast
    show ?thesis
    proof (cases "makedirs s w")
      case (Inl e)
      then have "new = {}" using d by (auto simp: new_def)
      then show ?thesis using d s Inl by (simp add: emit_def)
    next
      case (Inr w')
      then have "new = {s}" using d s by (auto simp: new_def)
      moreover have "w' = w\<lparr>dirs := insert s (dirs w)\<rparr>" using Inr by (rule makedirs_Inr)
      ultimately show ?thesis using d s Inr by simp
    qed
  next
    case False
    then have "new = {}" by (auto simp: new_def)
    then show ?thesis using False by (cases d) (simp_all add: emit_def)
  qed
  have stable: "(\<exists>w'. makedirs s ?step = Inr w') = (\<exists>w'. makedirs s w = Inr w')" for s
    unfolding step makedirs_succeeds_iff by (auto simp: new_def makedirs_succeeds_iff)
  have isl: "(case makedirs s ?step of Inr w' \<Rightarrow> a | Inl e \<Rightarrow> b) =
        (case makedirs s w of Inr w' \<Rightarrow> a | Inl e \<Rightarrow> b)" for s and a b :: "event list"
    using stable[of s] by (auto split: sum.splits)
  have ev: "?ev ?step x = ?ev w x" for x
    by (cases x) (simp_all add: isl)
  have "create_loop_01 (d # ds) w = create_loop_01 ds ?step" by simp
  also have "\<dots> = ?step\<lparr>dirs := dirs ?step \<union> {s. PStr s \<in> set ds \<and> s \<noteq> [] \<and> (\<exists>w'. makedirs s ?step = Inr w')},
       trace := trace ?step @ concat (map (?ev ?step) ds)\<rparr>"
    by (rule Cons.IH)
  also have "\<dots> = ?step\<lparr>dirs := dirs ?step \<union> {s. PStr s \<in> set ds \<and> s \<noteq> [] \<and> (\<exists>w'. makedirs s w = Inr w')},
       trace := trace ?step @ concat (map (?ev w) ds)\<rparr>"
    by (simp only: stable ev)
  also have "\<dots> = w\<lparr>dirs := dirs w \<union> {s. PStr s \<in> set (d # ds) \<and> s \<noteq> [] \<and> (\<exists>w'. makedirs s w = Inr w')},
       trace := trace w @ concat (map (?ev w) (d # ds))\<rparr>"
  proof -
    have "dirs w \<union> new \<union> {s. PStr s \<in> set ds \<and> s \<noteq> [] \<and> (\<exists>w'. makedirs s w = Inr w')}
        = dirs w \<union> {s. PStr s \<in> set (d # ds) \<and> s \<noteq> [] \<and> (\<exists>w'. makedirs s w = Inr w')}"
      by (auto simp: new_def)
    then show ?thesis unfolding step by simp
  qed
  finally show ?case .
qed

text \<open>
  C6. In \<^verbatim>\<open>setup_directories\<close> of \<^verbatim>\<open>config_manager_01.py\<close> a directory that cannot be created
  costs one logged error for that directory and nothing else: after the loop the directories
  are those of before and every non-empty string of the list that \<^verbatim>\<open>os.makedirs\<close> accepts,
  whatever stands before it in the list; the messages added are, in the order of the list,
  one error for each string that \<^verbatim>\<open>os.makedirs\<close> refuses and one warning for each value that
  is not a non-empty string; no file is touched; and the method always reaches its last line,
  which logs that the setup is complete.
\<close>

theorem setup_directories_01_continues:
  "dirs (create_loop_01 ds w) =
     dirs w \<union> {s. PStr s \<in> set ds \<and> s \<noteq> [] \<and> (\<exists>w'. makedirs s w = Inr w')} \<and>
   trace (create_loop_01 ds w) =
     trace w @ concat (map (\<lambda>d.
         case d of
           PStr s \<Rightarrow>
             (if s \<noteq> [] then
                (case makedirs s w of
                   Inr w' \<Rightarrow> []
                 | Inl e \<Rightarrow> [Log ERROR (''Error creating directory '' @ s)])
              else [Log WARNING ''Skipping invalid directory path''])
         | _ \<Rightarrow> [Log WARNING ''Skipping invalid directory path'']) ds) \<and>
   files (create_loop_01 ds w) = files w \<and>
   last (trace (setup_directories_01 R cfg w)) = Log INFO ''Directories setup complete''"
proof -
  have "last (trace (setup_directories_01 R cfg w)) = Log INFO ''Directories setup complete''"
    by (simp add: setup_directories_01_def split_beta Let_def emit_simps)
  then show ?thesis
    by (simp add: create_loop_01_world[of ds w])
qed

theorem setup_directories_01_continues_witness:
  "dirs (create_loop_01 [PStr ''/ro/scripts'', PStr ''/tmp/logs'']
           ((example_world Map.empty)\<lparr>unwritable := {''/ro/scripts''}\<rparr>)) = {''/tmp/logs''} \<and>
   trace (create_loop_01 [PStr ''/ro/scripts'', PStr ''/tmp/logs'']
           ((example_world Map.empty)\<lparr>unwritable := {''/ro/scripts''}\<rparr>)) =
     [Log ERROR ''Error creating directory /ro/scripts'']"
proof -
  let ?w = "(example_world Map.empty)\<lparr>unwritable := {''/ro/scripts''}\<rparr>"
  have a: "makedirs ''/ro/scripts'' ?w = Inl OSError"
    by (simp add: makedirs_def example_world_def)
  have b: "makedirs ''/tmp/logs'' ?w = Inr (?w\<lparr>dirs := {''/tmp/logs''}\<rparr>)"
    by (simp add: makedirs_def example_world_def)
  have c: "{s. (s = ''/ro/scripts'' \<or> s = ''/tmp/logs'') \<and> s \<noteq> [] \<and> (\<exists>w'. makedirs s ?w = Inr w')}
      = {''/tmp/logs''}"
    using a b by auto
  show ?thesis
    using setup_directories_01_continues
      [of "[PStr ''/ro/scripts'', PStr ''/tmp/logs'']" ?w example_runtime PNone]
    by (simp add: a b c) (simp add: example_world_def)
qed

text \<open>The claim as written fails for \<^verbatim>\<open>configuration_manager.py\<close> and \<^verbatim>\<open>config_manager.py\<close>:
  the first directory cannot be created, the exception leaves the method, and the second
  directory is never attempted.\<close>

theorem create_directories_abort_counterexample:
  "setup_directories_cfg (PDict [(''scripts'', PStr ''/ro/scripts''), (''logs'', PStr ''/tmp/logs'')])
      ((example_world Map.empty)\<lparr>unwritable := {''/ro/scripts''}\<rparr>) =
     (Inl OSError, (example_world Map.empty)\<lparr>unwritable := {''/ro/scripts''}\<rparr>) \<and>
   create_loop_cm [''/ro/scripts'', ''/tmp/logs'']
      ((example_world Map.empty)\<lparr>unwritable := {''/ro/scripts''}\<rparr>) =
     (Inl OSError, (example_world Map.empty)\<lparr>unwritable := {''/ro/scripts''}\<rparr>) \<and>
   ''/tmp/logs'' \<notin> dirs ((example_world Map.empty)\<lparr>unwritable := {''/ro/scripts''}\<rparr>)"
  by (simp add: setup_directories_cfg_def get_path_cfg_def get_cfg_def makedirs_def
      is_absolute_def path_str_def Path_of_def posix_root_def example_world_def)

section \<open>Saving and loading again\<close>

lemma save_config_01_cases:
  "save_config_01 R self w =
     (if config_file self \<in> unwritable w \<or> config_file self \<in> dirs w
      then (False, emit (Log ERROR ''Error saving config'') w)
      else (case json_dump R (config self) of
              Complete c \<Rightarrow>
                (True, emit (Log INFO (''Configuration saved to: '' @ config_file self))
                         (w\<lparr>files := (files w)(config_file self \<mapsto> c)\<rparr>))
            | Partial c \<Rightarrow>
                (False, emit (Log ERROR ''Error saving config'')
                          (w\<lparr>files := (files w)(config_file self \<mapsto> c)\<rparr>))))"
  by (simp add: save_config_01_def write_file_def split: written.splits)

lemma load_config_01_emit:
  "fst (load_config_01 R p (emit ev w)) = fst (load_config_01 R p w)"
  by (simp add: load_config_01_def path_exists_def open_read_def emit_simps
      create_default_config_01_result split: option.splits)

lemma init_01_emit:
  "fst (init_01 R arg (emit ev w)) = fst (init_01 R arg w)"
  using load_config_01_emit[of R _ ev w] by (simp add: init_01_def split_beta Let_def)

lemma init_01_reads:
  assumes "files w p = Some c" and "p \<notin> unreadable w" and "p = path_str (Path_of f)"
  shows "fst (init_01 R (Some f) w) =
           \<lparr>config_file = p,
            config = (case json_load R c of None \<Rightarrow> default_config_01 | Some t \<Rightarrow> t)\<rparr>"
  using assms
  by (simp add: init_01_def split_beta Let_def load_config_01_def path_exists_def open_read_def
      create_default_config_01_result split: option.splits)

text \<open>
  C7. In \<^verbatim>\<open>config_manager_01.py\<close>, let \<^verbatim>\<open>save_config\<close> return \<open>ok\<close>. It returns \<^verbatim>\<open>True\<close> exactly
  when the file could be opened for writing and \<^verbatim>\<open>json.dump\<close> completed. After \<^verbatim>\<open>True\<close>, a fresh
  \<^verbatim>\<open>ConfigManager\<close> constructed with the same file path holds the saved tree, provided the
  file can be read back; nothing is regenerated at load time in this file. When the file
  could not be opened for writing, a fresh \<^verbatim>\<open>ConfigManager\<close> holds what it would have held
  before the save. When \<^verbatim>\<open>json.dump\<close> raised, the file holds the part \<open>c\<close> of the text that was
  written, and a fresh \<^verbatim>\<open>ConfigManager\<close> holds the default tree if that part does not parse.
\<close>

theorem save_then_load_round_trip:
  assumes "config_file self = path_str (Path_of f)"
    and "save_config_01 R self w = (ok, w')"
  shows "(ok \<and> config_file self \<notin> unreadable w \<longrightarrow> fst (init_01 R (Some f) w') = self) \<and>
         (ok = (config_file self \<notin> unwritable w \<and> config_file self \<notin> dirs w \<and>
                (\<exists>c. json_dump R (config self) = Complete c))) \<and>
         (config_file self \<in> unwritable w \<or> config_file self \<in> dirs w \<longrightarrow>
            fst (init_01 R (Some f) w') = fst (init_01 R (Some f) w)) \<and>
         (config_file self \<notin> unwritable w \<and> config_file self \<notin> dirs w \<and>
          config_file self \<notin> unreadable w \<and>
          json_dump R (config self) = Partial c \<and> json_load R c = None \<longrightarrow>
            files w' (config_file self) = Some c \<and>
            config (fst (init_01 R (Some f) w')) = default_config_01)"
proof -
  note s = assms(2)[unfolded save_config_01_cases]
  have 1: "ok \<and> config_file self \<notin> unreadable w \<longrightarrow> fst (init_01 R (Some f) w') = self"
  proof
    assume a: "ok \<and> config_file self \<notin> unreadable w"
    with s obtain c where c: "json_dump R (config self) = Complete c"
      and w': "w' = emit (Log INFO (''Configuration saved to: '' @ config_file self))
                      (w\<lparr>files := (files w)(config_file self \<mapsto> c)\<rparr>)"
      by (auto split: if_splits written.splits)
    have l: "json_load R c = Some (config self)" using c by (rule json_round_trip)
    have "fst (init_01 R (Some f) (w\<lparr>files := (files w)(config_file self \<mapsto> c)\<rparr>)) =
            \<lparr>config_file = config_file self,
             config = (case json_load R c of None \<Rightarrow> default_config_01 | Some t \<Rightarrow> t)\<rparr>"
      using a assms(1) by (intro init_01_reads) simp_all
    then show "fst (init_01 R (Some f) w') = self"
      unfolding w' init_01_emit using l by simp
  qed
  have 2: "ok = (config_file self \<notin> unwritable w \<and> config_file self \<notin> dirs w \<and>
                (\<exists>c. json_dump R (config self) = Complete c))"
    using s by (auto split: if_splits written.splits)
  have 3: "config_file self \<in> unwritable w \<or> config_file self \<in> dirs w \<longrightarrow>
            fst (init_01 R (Some f) w') = fst (init_01 R (Some f) w)"
  proof
    assume "config_file self \<in> unwritable w \<or> config_file self \<in> dirs w"
    with s have "w' = emit (Log ERROR ''Error saving config'') w" by (auto split: if_splits)
    then show "fst (init_01 R (Some f) w') = fst (init_01 R (Some f) w)"
      by (simp add: init_01_emit)
  qed
  have 4: "config_file self \<notin> unwritable w \<and> config_file self \<notin> dirs w \<and>
          config_file self \<notin> unreadable w \<and>
          json_dump R (config self) = Partial c \<and> json_load R c = None \<longrightarrow>
            files w' (config_file self) = Some c \<and>
            config (fst (init_01 R (Some f) w')) = default_config_01"
  proof
    assume a: "config_file self \<notin> unwritable w \<and> config_file self \<notin> dirs w \<and>
          config_file self \<notin> unreadable w \<and>
          json_dump R (config self) = Partial c \<and> json_load R c = None"
    with s have w': "w' = emit (Log ERROR ''Error saving config'')
                            (w\<lparr>files := (files w)(config_file self \<mapsto> c)\<rparr>)"
      by (auto split: if_splits)
    have "fst (init_01 R (Some f) (w\<lparr>files := (files w)(config_file self \<mapsto> c)\<rparr>)) =
            \<lparr>config_file = config_file self,
             config = (case json_load R c of None \<Rightarrow> default_config_01 | Some t \<Rightarrow> t)\<rparr>"
      using a assms(1) by (intro init_01_reads) simp_all
    then show "files w' (config_file self) = Some c \<and>
            config (fst (init_01 R (Some f) w')) = default_config_01"
      unfolding w' init_01_emit using a by (simp add: emit_simps)
  qed
  show ?thesis by (intro conjI) (rule 1, rule 2, rule 3, rule 4)
qed

theorem save_then_load_round_trip_witness:
  "fst (init_01 example_runtime (Some ''config.json'')
     (snd (save_config_01 example_runtime
        \<lparr>config_file = ''config.json'',
         config = PDict [(''analysis_period'', PDict [(''start_year'', PInt 2018)])]\<rparr>
        (example_world Map.empty)))) =
   \<lparr>config_file = ''config.json'',
    config = PDict [(''analysis_period'', PDict [(''start_year'', PInt 2018)])]\<rparr>"
proof -
  let ?self = "\<lparr>config_file = ''config.json'',
         config = PDict [(''analysis_period'', PDict [(''start_year'', PInt 2018)])]\<rparr>"
  let ?w' = "snd (save_config_01 example_runtime ?self (example_world Map.empty))"
  have p: "config_file ?self = path_str (Path_of ''config.json'')"
    by (simp add: path_str_def Path_of_def posix_root_def)
  have s: "save_config_01 example_runtime ?self (example_world Map.empty) = (True, ?w')"
    by (simp add: save_config_01_cases example_runtime_simps example_world_def)
  have u: "config_file ?self \<notin> unreadable (example_world Map.empty)"
    by (simp add: example_world_def)
  from save_then_load_round_trip[OF p s, THEN conjunct1] u show ?thesis by simp
qed

text \<open>
  Saving does not always reach the file. On a file that cannot be opened for writing,
  \<^verbatim>\<open>save_config\<close> returns \<^verbatim>\<open>False\<close> and a fresh \<^verbatim>\<open>ConfigManager\<close> holds the tree that was in
  the file, not the one in memory. On a tree that holds an integer too long to be printed,
  \<^verbatim>\<open>json.dump\<close> raises after the file has been truncated: \<^verbatim>\<open>save_config\<close> returns \<^verbatim>\<open>False\<close>
  and a fresh \<^verbatim>\<open>ConfigManager\<close> holds the default tree.
\<close>

theorem save_config_01_fails_counterexample:
  "fst (save_config_01 example_runtime
          \<lparr>config_file = ''config.json'',
           config = PDict [(''analysis_period'', PDict [(''start_year'', PInt 2018)])]\<rparr>
          ((example_world [''config.json'' \<mapsto>
              Some (PDict [(''analysis_period'', PDict [(''start_year'', PInt 1990)])])])
             \<lparr>unwritable := {''config.json''}\<rparr>)) = False \<and>
   config (fst (init_01 example_runtime (Some ''config.json'')
     (snd (save_config_01 example_runtime
        \<lparr>config_file = ''config.json'',
         config = PDict [(''analysis_period'', PDict [(''start_year'', PInt 2018)])]\<rparr>
        ((example_world [''config.json'' \<mapsto>
            Some (PDict [(''analysis_period'', PDict [(''start_year'', PInt 1990)])])])
           \<lparr>unwritable := {''config.json''}\<rparr>))))) =
     PDict [(''analysis_period'', PDict [(''start_year'', PInt 1990)])] \<and>
   fst (save_config_01 bounded_runtime
          \<lparr>config_file = ''config.json'',
           config = PDict [(''analysis_period'', PDict [(''start_year'', PInt huge)])]\<rparr>
          (example_world [''config.json'' \<mapsto>
              Some (PDict [(''analysis_period'', PDict [(''start_year'', PInt 1990)])])])) = False \<and>
   config (fst (init_01 bounded_runtime (Some ''config.json'')
     (snd (save_config_01 bounded_runtime
        \<lparr>config_file = ''config.json'',
         config = PDict [(''analysis_period'', PDict [(''start_year'', PInt huge)])]\<rparr>
        (example_world [''config.json'' \<mapsto>
            Some (PDict [(''analysis_period'', PDict [(''start_year'', PInt 1990)])])]))))) =
     default_config_01"
proof -
  let ?old = "PDict [(''analysis_period'', PDict [(''start_year'', PInt 1990)])]"
  let ?self = "\<lparr>config_file = ''config.json'',
         config = PDict [(''analysis_period'', PDict [(''start_year'', PInt 2018)])]\<rparr>"
  let ?big = "\<lparr>config_file = ''config.json'',
         config = PDict [(''analysis_period'', PDict [(''start_year'', PInt huge)])]\<rparr>"
  let ?w = "example_world [''config.json'' \<mapsto> Some ?old]"
  let ?u = "?w\<lparr>unwritable := {''config.json''}\<rparr>"
  have p: "''config.json'' = path_str (Path_of ''config.json'')"
    by (simp add: path_str_def Path_of_def posix_root_def)
  have s1: "save_config_01 example_runtime ?self ?u = (False, emit (Log ERROR ''Error saving config'') ?u)"
    by (simp add: save_config_01_cases example_world_def)
  have r1: "fst (init_01 example_runtime (Some ''config.json'') ?u) =
      \<lparr>config_file = ''config.json'',
       config = (case json_load example_runtime (Some ?old) of
                   None \<Rightarrow> default_config_01 | Some t \<Rightarrow> t)\<rparr>"
    by (rule init_01_reads[OF _ _ p]) (simp_all add: example_world_def)
  have 1: "config (fst (init_01 example_runtime (Some ''config.json'')
              (snd (save_config_01 example_runtime ?self ?u)))) = ?old"
    unfolding s1 snd_conv init_01_emit r1 by (simp add: example_runtime_simps)
  have np: "\<not> printable (config ?big)"
    using huge_not_printable by simp
  have s2: "save_config_01 bounded_runtime ?big ?w =
      (False, emit (Log ERROR ''Error saving config'') (?w\<lparr>files := (files ?w)(''config.json'' \<mapsto> None)\<rparr>))"
    using np by (simp add: save_config_01_cases bounded_runtime_simps example_world_def
        del: printable.simps)
  have r2: "fst (init_01 bounded_runtime (Some ''config.json'')
               (?w\<lparr>files := (files ?w)(''config.json'' \<mapsto> None)\<rparr>)) =
      \<lparr>config_file = ''config.json'',
       config = (case json_load bounded_runtime None of
                   None \<Rightarrow> default_config_01 | Some t \<Rightarrow> t)\<rparr>"
    by (rule init_01_reads[OF _ _ p]) (simp_all add: example_world_def)
  have 2: "config (fst (init_01 bounded_runtime (Some ''config.json'')
              (snd (save_config_01 bounded_runtime ?big ?w)))) = default_config_01"
    unfolding s2 snd_conv init_01_emit r2 by (simp add: bounded_runtime_simps)
  from s1 1 s2 2 show ?thesis by simp
qed

section \<open>The module-level accessor\<close>

text \<open>
  C10. \<^verbatim>\<open>get_config\<close> of \<^verbatim>\<open>configuration_manager.py\<close> is a process-wide singleton: once a
  call has constructed an instance, the global holds it, and every later call returns it
  and leaves the global and the world as they are, whatever file its argument names.
\<close>

theorem get_config_singleton:
  assumes "get_config_cfg R arg (None, w) = (Inr m, g, w')"
  shows "g = Some m \<and> get_config_cfg R arg' (g, w'') = (Inr m, g, w'')"
proof -
  from assms have "g = Some m"
    by (auto simp: get_config_cfg_def split: prod.splits sum.splits)
  then show ?thesis by (simp add: get_config_cfg_def)
qed

theorem get_config_singleton_witness:
  "get_config_cfg example_runtime (Some ''other.json'')
     (fst (snd (get_config_cfg example_runtime (Some ''config.json'')
        (None, example_world [''config.json'' \<mapsto> Some (PDict [(''logs'', PStr ''/tmp/logs'')])]))),
      example_world Map.empty) =
   (Inr \<lparr>config_file = ''config.json'', config = PDict [(''logs'', PStr ''/tmp/logs'')]\<rparr>,
    Some \<lparr>config_file = ''config.json'', config = PDict [(''logs'', PStr ''/tmp/logs'')]\<rparr>,
    example_world Map.empty)"
proof -
  let ?cfg = "PDict [(''logs'', PStr ''/tmp/logs'')]"
  let ?w = "example_world [''config.json'' \<mapsto> Some ?cfg]"
  let ?m = "\<lparr>config_file = ''config.json'', config = ?cfg\<rparr>"
  have gp: "get_path_cfg ?cfg ''logs'' = Inr (Some ''/tmp/logs'')"
    by (simp add: get_path_cfg_def get_cfg_def is_absolute_def path_str_def Path_of_def posix_root_def)
  have gn: "get_path_cfg ?cfg ''scripts'' = Inr None" "get_path_cfg ?cfg ''output.base'' = Inr None"
    "get_path_cfg ?cfg ''output.maps'' = Inr None" "get_path_cfg ?cfg ''output.timeseries'' = Inr None"
    "get_path_cfg ?cfg ''output.statistics'' = Inr None" "get_path_cfg ?cfg ''output.reports'' = Inr None"
    "get_path_cfg ?cfg ''templates'' = Inr None"
    by (simp_all add: get_path_cfg_def get_cfg_def)
  have ld: "load_config_cfg example_runtime ''config.json'' ?w =
      (Inr ?cfg, emit (Print ''Configuration loaded from: config.json'') ?w)"
    by (simp add: load_config_cfg_def open_read_def example_world_def example_runtime_simps)
  obtain w1 where sd: "setup_directories_cfg ?cfg (emit (Print ''Configuration loaded from: config.json'') ?w)
      = (Inr (), w1)" and w1: "unwritable w1 = {}" "dirs w1 = {''/tmp/logs''}" "\<not> root_handlers w1"
    by (simp add: setup_directories_cfg_def gp gn makedirs_def emit_def example_world_def)
  have lv: "get_cfg ?cfg ''debug.log_level'' (PStr ''INFO'') = PStr ''INFO''"
    by (simp add: get_cfg_def)
  obtain w2 where sl: "setup_logging_cfg example_runtime ?cfg w1 = (Inr (), w2)"
    using w1 by (simp add: setup_logging_cfg_def gp lv example_runtime_def path_str_def truediv_def
        Path_of_def posix_root_def Let_def)
  have ps: "path_str (Path_of ''config.json'') = ''config.json''"
    by (simp add: path_str_def Path_of_def posix_root_def)
  have "init_cfg example_runtime (Some ''config.json'') ?w = (Inr ?m, w2)"
    by (simp add: init_cfg_def ps ld sd sl)
  then have "get_config_cfg example_runtime (Some ''config.json'') (None, ?w) = (Inr ?m, Some ?m, w2)"
    by (simp add: get_config_cfg_def)
  from get_config_singleton[OF this, of "Some ''other.json''" "example_world Map.empty"]
  show ?thesis
    using \<open>get_config_cfg example_runtime (Some ''config.json'') (None, ?w) = (Inr ?m, Some ?m, w2)\<close>
    by simp
qed

section \<open>Updating the analysis period\<close>

lemma save_config_cfg_cases:
  "save_config_cfg R self w =
     (if config_file self \<in> unwritable w \<or> config_file self \<in> dirs w then (Inl OSError, w)
      else (case json_dump R (config self) of
              Complete c \<Rightarrow>
                (Inr (), emit (Print (''Configuration saved to: '' @ config_file self))
                           (w\<lparr>files := (files w)(config_file self \<mapsto> c)\<rparr>))
            | Partial c \<Rightarrow>
                (Inl ValueError, w\<lparr>files := (files w)(config_file self \<mapsto> c)\<rparr>)))"
  by (simp add: save_config_cfg_def write_file_def split: written.splits)

text \<open>What \<^verbatim>\<open>save_config\<close> of \<^verbatim>\<open>config_manager_01.py\<close> leaves: the files, the directories and
  the one record it logs.\<close>

lemma save_config_01_world:
  "files (snd (save_config_01 R self w)) =
     (if config_file self \<in> unwritable w \<or> config_file self \<in> dirs w then files w
      else (files w)(config_file self \<mapsto> written_text (json_dump R (config self))))"
  "dirs (snd (save_config_01 R self w)) = dirs w"
  "trace (snd (save_config_01 R self w)) =
     trace w @
     [if config_file self \<notin> unwritable w \<and> config_file self \<notin> dirs w \<and>
         (\<exists>c. json_dump R (config self) = Complete c)
      then Log INFO (''Configuration saved to: '' @ config_file self)
      else Log ERROR ''Error saving config'']"
  by (simp_all add: save_config_01_cases emit_simps split: written.splits)

lemma save_config_cfg_world:
  "files (snd (save_config_cfg R self w)) = files (snd (save_config_01 R self w))"
  "(fst (save_config_cfg R self w) = Inr ()) =
     (config_file self \<notin> unwritable w \<and> config_file self \<notin> dirs w \<and>
      (\<exists>c. json_dump R (config self) = Complete c))"
  "trace (snd (save_config_cfg R self w)) =
     (if config_file self \<notin> unwritable w \<and> config_file self \<notin> dirs w \<and>
         (\<exists>c. json_dump R (config self) = Complete c)
      then trace w @ [Print (''Configuration saved to: '' @ config_file self)]
      else trace w)"
  by (simp_all add: save_config_cfg_cases save_config_01_cases emit_simps split: written.splits)

text \<open>No method but \<^verbatim>\<open>update_analysis_period\<close> assigns to \<^verbatim>\<open>self.config\<close>, to an entry of it,
  or to \<^verbatim>\<open>self.config_file\<close>.\<close>

lemma call_01_instance:
  "\<forall>s e. m \<noteq> UpdateAnalysisPeriod s e \<Longrightarrow> fst (snd (call_01 R self m w)) = self"
  by (cases m) (auto simp: call_01_def split: prod.splits sum.splits)

lemma call_cfg_instance:
  "\<forall>s e. m \<noteq> UpdateAnalysisPeriod s e \<Longrightarrow> fst (snd (call_cfg R self m w)) = self"
  by (cases m) (auto simp: call_cfg_def split: prod.splits sum.splits)

text \<open>The tree after the two assignments, for the entries \<open>ap\<close> of \<^verbatim>\<open>analysis_period\<close> before
  them (none when the key was missing).\<close>

lemma walk_updated_period:
  fixes kvs kvs1 ap :: "(string \<times> pyval) list" and s e :: pyval
  assumes "map_of kvs1 ''analysis_period'' = Some (PDict ap)"
    and "\<And>k. k \<noteq> ''analysis_period'' \<Longrightarrow> map_of kvs1 k = map_of kvs k"
    and "walk (PDict kvs) [''analysis_period''] = None \<and> ap = [] \<or>
         walk (PDict kvs) [''analysis_period''] = Some (PDict ap)"
  defines "t \<equiv> PDict (AList.update ''analysis_period''
              (PDict (AList.update ''end_year'' e (AList.update ''start_year'' s ap))) kvs1)"
  shows "walk t [''analysis_period'', ''start_year''] = Some s"
    and "walk t [''analysis_period'', ''end_year''] = Some e"
    and "k \<noteq> ''analysis_period'' \<Longrightarrow> walk t (k # ks) = walk (PDict kvs) (k # ks)"
    and "j \<noteq> ''start_year'' \<Longrightarrow> j \<noteq> ''end_year'' \<Longrightarrow>
         walk t (''analysis_period'' # j # ks) = walk (PDict kvs) (''analysis_period'' # j # ks)"
proof -
  show "walk t [''analysis_period'', ''start_year''] = Some s"
    by (simp add: t_def update_conv')
  show "walk t [''analysis_period'', ''end_year''] = Some e"
    by (simp add: t_def update_conv')
  show "k \<noteq> ''analysis_period'' \<Longrightarrow> walk t (k # ks) = walk (PDict kvs) (k # ks)"
    using assms(2)[of k] by (simp add: t_def update_conv')
  show "j \<noteq> ''start_year'' \<Longrightarrow> j \<noteq> ''end_year'' \<Longrightarrow>
         walk t (''analysis_period'' # j # ks) = walk (PDict kvs) (''analysis_period'' # j # ks)"
    using assms(3) by (auto simp: t_def update_conv' split: option.splits)
qed

text \<open>
  C8. \<^verbatim>\<open>update_analysis_period(s, e)\<close> on a configuration that is a mapping whose
  \<^verbatim>\<open>analysis_period\<close> is missing or a mapping. In \<^verbatim>\<open>config_manager_01.py\<close> it does not raise;
  afterwards \<^verbatim>\<open>analysis_period.start_year\<close> is \<open>s\<close> and \<^verbatim>\<open>analysis_period.end_year\<close> is \<open>e\<close>, and
  every other entry of the tree and the file path are as before. The backing file is as
  before when it cannot be opened for writing; otherwise it holds what \<^verbatim>\<open>json.dump\<close> wrote of
  the updated tree, and when \<^verbatim>\<open>json.dump\<close> completed, \<^verbatim>\<open>json.load\<close> reads the updated tree from
  it. One record is logged: that the configuration was saved when the file was opened and
  \<^verbatim>\<open>json.dump\<close> completed, the error when not. \<^verbatim>\<open>configuration_manager.py\<close> computes the same
  instance and the same files when \<^verbatim>\<open>analysis_period\<close> is present, and raises exactly when the
  save fails. In both files no other method changes the instance: its tree and its file
  path are after the call what they were before.
\<close>

theorem update_analysis_period_frame:
  "(config self = PDict kvs \<and>
    (map_of kvs ''analysis_period'' = None \<or>
     (\<exists>ap. map_of kvs ''analysis_period'' = Some (PDict ap))) \<longrightarrow>
      fst (update_analysis_period_01 R self s e w) = Inr () \<and>
      config_file (fst (snd (update_analysis_period_01 R self s e w))) = config_file self \<and>
      walk (config (fst (snd (update_analysis_period_01 R self s e w))))
        [''analysis_period'', ''start_year''] = Some s \<and>
      walk (config (fst (snd (update_analysis_period_01 R self s e w))))
        [''analysis_period'', ''end_year''] = Some e \<and>
      (\<forall>k ks. k \<noteq> ''analysis_period'' \<longrightarrow>
         walk (config (fst (snd (update_analysis_period_01 R self s e w)))) (k # ks) =
         walk (config self) (k # ks)) \<and>
      (\<forall>j ks. j \<noteq> ''start_year'' \<and> j \<noteq> ''end_year'' \<longrightarrow>
         walk (config (fst (snd (update_analysis_period_01 R self s e w))))
           (''analysis_period'' # j # ks) =
         walk (config self) (''analysis_period'' # j # ks)) \<and>
      files (snd (snd (update_analysis_period_01 R self s e w))) =
        (if config_file self \<in> unwritable w \<or> config_file self \<in> dirs w then files w
         else (files w)(config_file self \<mapsto>
                written_text (json_dump R (config (fst (snd (update_analysis_period_01 R self s e w))))))) \<and>
      (\<forall>c. json_dump R (config (fst (snd (update_analysis_period_01 R self s e w)))) = Complete c \<longrightarrow>
         json_load R c = Some (config (fst (snd (update_analysis_period_01 R self s e w))))) \<and>
      dirs (snd (snd (update_analysis_period_01 R self s e w))) = dirs w \<and>
      trace (snd (snd (update_analysis_period_01 R self s e w))) =
        trace w @
        [if config_file self \<notin> unwritable w \<and> config_file self \<notin> dirs w \<and>
            (\<exists>c. json_dump R (config (fst (snd (update_analysis_period_01 R self s e w)))) = Complete c)
         then Log INFO (''Configuration saved to: '' @ config_file self)
         else Log ERROR ''Error saving config''] \<and>
      (map_of kvs ''analysis_period'' \<noteq> None \<longrightarrow>
         fst (snd (update_analysis_period_cfg R self s e w)) =
           fst (snd (update_analysis_period_01 R self s e w)) \<and>
         files (snd (snd (update_analysis_period_cfg R self s e w))) =
           files (snd (snd (update_analysis_period_01 R self s e w))) \<and>
         (fst (update_analysis_period_cfg R self s e w) = Inr ()) =
           (config_file self \<notin> unwritable w \<and> config_file self \<notin> dirs w \<and>
            (\<exists>c. json_dump R (config (fst (snd (update_analysis_period_01 R self s e w)))) = Complete c)))) \<and>
   ((\<forall>s e. m \<noteq> UpdateAnalysisPeriod s e) \<longrightarrow>
      fst (snd (call_01 R self m w)) = self \<and> fst (snd (call_cfg R self m w)) = self)"
proof (rule conjI, rule impI)
  show "(\<forall>s e. m \<noteq> UpdateAnalysisPeriod s e) \<longrightarrow>
      fst (snd (call_01 R self m w)) = self \<and> fst (snd (call_cfg R self m w)) = self"
    by (simp add: call_01_instance call_cfg_instance)
next
  assume a: "config self = PDict kvs \<and>
    (map_of kvs ''analysis_period'' = None \<or>
     (\<exists>ap. map_of kvs ''analysis_period'' = Some (PDict ap)))"
  then have cs: "config self = PDict kvs" by blast
  define kvs1 where "kvs1 =
    (if map_of kvs ''analysis_period'' = None
     then AList.update ''analysis_period'' (PDict []) kvs else kvs)"
  from a obtain ap where ap1: "map_of kvs1 ''analysis_period'' = Some (PDict ap)"
    and ap0: "walk (PDict kvs) [''analysis_period''] = None \<and> ap = [] \<or>
              walk (PDict kvs) [''analysis_period''] = Some (PDict ap)"
    by (auto simp: kvs1_def update_conv')
  have other: "\<And>k. k \<noteq> ''analysis_period'' \<Longrightarrow> map_of kvs1 k = map_of kvs k"
    by (simp add: kvs1_def update_conv')
  define self' where "self' = self\<lparr>config := PDict (AList.update ''analysis_period''
      (PDict (AList.update ''end_year'' e (AList.update ''start_year'' s ap))) kvs1)\<rparr>"
  define w' where "w' = snd (save_config_01 R self' w)"
  have cf: "config_file self' = config_file self" by (simp add: self'_def)
  have c': "config self' = PDict (AList.update ''analysis_period''
      (PDict (AList.update ''end_year'' e (AList.update ''start_year'' s ap))) kvs1)"
    by (simp add: self'_def)
  have u: "update_analysis_period_01 R self s e w = (Inr (), self', w')"
    using cs ap1
    by (simp add: update_analysis_period_01_def kvs1_def[symmetric] dict_get_def Let_def
        self'_def w'_def)
  have f: "files w' =
        (if config_file self \<in> unwritable w \<or> config_file self \<in> dirs w then files w
         else (files w)(config_file self \<mapsto> written_text (json_dump R (config self'))))"
    and d: "dirs w' = dirs w"
    and t: "trace w' = trace w @
        [if config_file self \<notin> unwritable w \<and> config_file self \<notin> dirs w \<and>
            (\<exists>c. json_dump R (config self') = Complete c)
         then Log INFO (''Configuration saved to: '' @ config_file self)
         else Log ERROR ''Error saving config'']"
    using save_config_01_world[of R self' w] by (simp_all add: w'_def cf)
  have rt: "\<forall>c. json_dump R (config self') = Complete c \<longrightarrow> json_load R c = Some (config self')"
    by (simp add: json_round_trip)
  have g: "map_of kvs ''analysis_period'' \<noteq> None \<longrightarrow>
         fst (snd (update_analysis_period_cfg R self s e w)) = self' \<and>
         files (snd (snd (update_analysis_period_cfg R self s e w))) = files w' \<and>
         (fst (update_analysis_period_cfg R self s e w) = Inr ()) =
           (config_file self \<notin> unwritable w \<and> config_file self \<notin> dirs w \<and>
            (\<exists>c. json_dump R (config self') = Complete c))"
  proof
    assume "map_of kvs ''analysis_period'' \<noteq> None"
    then have k: "kvs1 = kvs" by (auto simp: kvs1_def)
    with ap1 have "map_of kvs ''analysis_period'' = Some (PDict ap)" by simp
    then have "update_analysis_period_cfg R self s e w =
        (fst (save_config_cfg R self' w), self', snd (save_config_cfg R self' w))"
      using cs by (simp add: update_analysis_period_cfg_def Let_def self'_def k split_beta)
    then show "fst (snd (update_analysis_period_cfg R self s e w)) = self' \<and>
         files (snd (snd (update_analysis_period_cfg R self s e w))) = files w' \<and>
         (fst (update_analysis_period_cfg R self s e w) = Inr ()) =
           (config_file self \<notin> unwritable w \<and> config_file self \<notin> dirs w \<and>
            (\<exists>c. json_dump R (config self') = Complete c))"
      using save_config_cfg_world(1,2)[of R self' w] by (simp add: w'_def cf)
  qed
  have 1: "walk (config self') [''analysis_period'', ''start_year''] = Some s"
    unfolding c' using ap1 other ap0 by (rule walk_updated_period(1))
  have 2: "walk (config self') [''analysis_period'', ''end_year''] = Some e"
    unfolding c' using ap1 other ap0 by (rule walk_updated_period(2))
  have 3: "\<forall>k ks. k \<noteq> ''analysis_period'' \<longrightarrow>
         walk (config self') (k # ks) = walk (config self) (k # ks)"
    unfolding c' cs using walk_updated_period(3)[OF ap1 other ap0] by blast
  have 4: "\<forall>j ks. j \<noteq> ''start_year'' \<and> j \<noteq> ''end_year'' \<longrightarrow>
         walk (config self') (''analysis_period'' # j # ks) =
         walk (config self) (''analysis_period'' # j # ks)"
    unfolding c' cs using walk_updated_period(4)[OF ap1 other ap0] by blast
  show "fst (update_analysis_period_01 R self s e w) = Inr () \<and>
      config_file (fst (snd (update_analysis_period_01 R self s e w))) = config_file self \<and>
      walk (config (fst (snd (update_analysis_period_01 R self s e w))))
        [''analysis_period'', ''start_year''] = Some s \<and>
      walk (config (fst (snd (update_analysis_period_01 R self s e w))))
        [''analysis_period'', ''end_year''] = Some e \<and>
      (\<forall>k ks. k \<noteq> ''analysis_period'' \<longrightarrow>
         walk (config (fst (snd (update_analysis_period_01 R self s e w)))) (k # ks) =
         walk (config self) (k # ks)) \<and>
      (\<forall>j ks. j \<noteq> ''start_year'' \<and> j \<noteq> ''end_year'' \<longrightarrow>
         walk (config (fst (snd (update_analysis_period_01 R self s e w))))
           (''analysis_period'' # j # ks) =
         walk (config self) (''analysis_period'' # j # ks)) \<and>
      files (snd (snd (update_analysis_period_01 R self s e w))) =
        (if config_file self \<in> unwritable w \<or> config_file self \<in> dirs w then files w
         else (files w)(config_file self \<mapsto>
                written_text (json_dump R (config (fst (snd (update_analysis_period_01 R self s e w))))))) \<and>
      (\<forall>c. json_dump R (config (fst (snd (update_analysis_period_01 R self s e w)))) = Complete c \<longrightarrow>
         json_load R c = Some (config (fst (snd (update_analysis_period_01 R self s e w))))) \<and>
      dirs (snd (snd (update_analysis_period_01 R self s e w))) = dirs w \<and>
      trace (snd (snd (update_analysis_period_01 R self s e w))) =
        trace w @
        [if config_file self \<notin> unwritable w \<and> config_file self \<notin> dirs w \<and>
            (\<exists>c. json_dump R (config (fst (snd (update_analysis_period_01 R self s e w)))) = Complete c)
         then Log INFO (''Configuration saved to: '' @ config_file self)
         else Log ERROR ''Error saving config''] \<and>
      (map_of kvs ''analysis_period'' \<noteq> None \<longrightarrow>
         fst (snd (update_analysis_period_cfg R self s e w)) =
           fst (snd (update_analysis_period_01 R self s e w)) \<and>
         files (snd (snd (update_analysis_period_cfg R self s e w))) =
           files (snd (snd (update_analysis_period_01 R self s e w))) \<and>
         (fst (update_analysis_period_cfg R self s e w) = Inr ()) =
           (config_file self \<notin> unwritable w \<and> config_file self \<notin> dirs w \<and>
            (\<exists>c. json_dump R (config (fst (snd (update_analysis_period_01 R self s e w)))) = Complete c)))"
    unfolding u fst_conv snd_conv
    by (intro conjI) (rule refl, rule cf, rule 1, rule 2, rule 3, rule 4, rule f, rule rt, rule d,
        rule t, rule g)
qed

theorem update_analysis_period_frame_witness:
  "walk (config (fst (snd (update_analysis_period_01 example_runtime
      \<lparr>config_file = ''config.json'',
       config = PDict [(''project'', PStr ''Kariba''),
                       (''analysis_period'', PDict [(''start_year'', PInt 2015),
                                                   (''end_year'', PInt 2020)])]\<rparr>
      (PInt 2018) (PInt 2019) (example_world Map.empty)))))
     [''analysis_period'', ''start_year''] = Some (PInt 2018) \<and>
   walk (config (fst (snd (update_analysis_period_01 example_runtime
      \<lparr>config_file = ''config.json'',
       config = PDict [(''project'', PStr ''Kariba''),
                       (''analysis_period'', PDict [(''start_year'', PInt 2015),
                                                   (''end_year'', PInt 2020)])]\<rparr>
      (PInt 2018) (PInt 2019) (example_world Map.empty)))))
     [''analysis_period'', ''end_year''] = Some (PInt 2019) \<and>
   walk (config (fst (snd (update_analysis_period_01 example_runtime
      \<lparr>config_file = ''config.json'',
       config = PDict [(''project'', PStr ''Kariba''),
                       (''analysis_period'', PDict [(''start_year'', PInt 2015),
                                                   (''end_year'', PInt 2020)])]\<rparr>
      (PInt 2018) (PInt 2019) (example_world Map.empty)))))
     [''project''] = Some (PStr ''Kariba'') \<and>
   trace (snd (snd (update_analysis_period_01 example_runtime
      \<lparr>config_file = ''config.json'',
       config = PDict [(''project'', PStr ''Kariba''),
                       (''analysis_period'', PDict [(''start_year'', PInt 2015),
                                                   (''end_year'', PInt 2020)])]\<rparr>
      (PInt 2018) (PInt 2019) (example_world Map.empty)))) =
     [Log INFO ''Configuration saved to: config.json''] \<and>
   fst (snd (call_01 example_runtime
      \<lparr>config_file = ''config.json'',
       config = PDict [(''project'', PStr ''Kariba''),
                       (''analysis_period'', PDict [(''start_year'', PInt 2015),
                                                   (''end_year'', PInt 2020)])]\<rparr>
      SaveConfig (example_world Map.empty))) =
     \<lparr>config_file = ''config.json'',
      config = PDict [(''project'', PStr ''Kariba''),
                      (''analysis_period'', PDict [(''start_year'', PInt 2015),
                                                  (''end_year'', PInt 2020)])]\<rparr>"
proof -
  let ?kvs = "[(''project'', PStr ''Kariba''),
               (''analysis_period'', PDict [(''start_year'', PInt 2015), (''end_year'', PInt 2020)])]"
  let ?self = "\<lparr>config_file = ''config.json'', config = PDict ?kvs\<rparr>"
  let ?w = "example_world Map.empty"
  let ?r = "update_analysis_period_01 example_runtime ?self (PInt 2018) (PInt 2019) ?w"
  have a: "config ?self = PDict ?kvs \<and>
         (map_of ?kvs ''analysis_period'' = None \<or>
          (\<exists>ap. map_of ?kvs ''analysis_period'' = Some (PDict ap)))" by simp
  have m: "\<forall>s e. SaveConfig \<noteq> UpdateAnalysisPeriod s e" by simp
  note th = update_analysis_period_frame[where self = ?self and kvs = ?kvs and R = example_runtime
      and s = "PInt 2018" and e = "PInt 2019" and w = ?w and m = SaveConfig]
  note t = th[THEN conjunct1, rule_format, OF a]
  from t have 1: "walk (config (fst (snd ?r))) [''analysis_period'', ''start_year''] = Some (PInt 2018)"
    by (elim conjE)
  from t have 2: "walk (config (fst (snd ?r))) [''analysis_period'', ''end_year''] = Some (PInt 2019)"
    by (elim conjE)
  from t have "\<forall>k ks. k \<noteq> ''analysis_period'' \<longrightarrow>
         walk (config (fst (snd ?r))) (k # ks) = walk (config ?self) (k # ks)"
    by (elim conjE)
  then have "walk (config (fst (snd ?r))) [''project''] = walk (config ?self) [''project'']"
    by simp
  then have 3: "walk (config (fst (snd ?r))) [''project''] = Some (PStr ''Kariba'')"
    by simp
  from t have "trace (snd (snd ?r)) =
        trace ?w @
        [if config_file ?self \<notin> unwritable ?w \<and> config_file ?self \<notin> dirs ?w \<and>
            (\<exists>c. json_dump example_runtime (config (fst (snd ?r))) = Complete c)
         then Log INFO (''Configuration saved to: '' @ config_file ?self)
         else Log ERROR ''Error saving config'']"
    by (elim conjE)
  then have 4: "trace (snd (snd ?r)) = [Log INFO ''Configuration saved to: config.json'']"
    by (simp add: example_runtime_simps example_world_def)
  have 5: "fst (snd (call_01 example_runtime ?self SaveConfig ?w)) = ?self"
    using th[THEN conjunct2, THEN mp, OF m] by (elim conjE)
  show ?thesis using 1 2 3 4 5 by (intro conjI)
qed

text \<open>
  The claim as written fails in four ways. In \<^verbatim>\<open>configuration_manager.py\<close>, a configuration
  loaded from a file without \<^verbatim>\<open>analysis_period\<close> (here the file holds only \<^verbatim>\<open>logs\<close>, and the
  construction succeeds) makes the update raise KeyError. In \<^verbatim>\<open>config_manager_01.py\<close>, an
  \<^verbatim>\<open>analysis_period\<close> that is not a mapping makes it raise TypeError; a backing file that
  cannot be written is left as it was while the tree in memory is updated; and for a year
  too long to be printed, the backing file is left with a text that does not parse.
\<close>

theorem update_analysis_period_counterexample:
  "(case init_cfg example_runtime (Some ''config.json'')
           (example_world [''config.json'' \<mapsto> Some (PDict [(''logs'', PStr ''/tmp/logs'')])]) of
      (Inr m, w1) \<Rightarrow>
        fst (update_analysis_period_cfg example_runtime m (PInt 2018) (PInt 2019) w1) = Inl KeyError
    | (Inl e, w1) \<Rightarrow> False) \<and>
   fst (update_analysis_period_01 example_runtime
          \<lparr>config_file = ''config.json'', config = PDict [(''analysis_period'', PInt 5)]\<rparr>
          (PInt 2018) (PInt 2019) (example_world Map.empty)) = Inl TypeError \<and>
   files (snd (snd (update_analysis_period_01 example_runtime
          \<lparr>config_file = ''config.json'',
           config = PDict [(''analysis_period'', PDict [(''start_year'', PInt 2015)])]\<rparr>
          (PInt 2018) (PInt 2019)
          ((example_world
             [''config.json'' \<mapsto> Some (PDict [(''analysis_period'', PDict [(''start_year'', PInt 2015)])])])
           \<lparr>unwritable := {''config.json''}\<rparr>)))) ''config.json'' =
     Some (Some (PDict [(''analysis_period'', PDict [(''start_year'', PInt 2015)])])) \<and>
   files (snd (snd (update_analysis_period_01 bounded_runtime
          \<lparr>config_file = ''config.json'',
           config = PDict [(''analysis_period'', PDict [(''start_year'', PInt 2015)])]\<rparr>
          (PInt huge) (PInt 2019)
          (example_world
             [''config.json'' \<mapsto> Some (PDict [(''analysis_period'', PDict [(''start_year'', PInt 2015)])])]))))
      ''config.json'' = Some None"
proof -
  let ?cfg = "PDict [(''logs'', PStr ''/tmp/logs'')]"
  let ?w = "example_world [''config.json'' \<mapsto> Some ?cfg]"
  let ?m = "\<lparr>config_file = ''config.json'', config = ?cfg\<rparr>"
  have gp: "get_path_cfg ?cfg ''logs'' = Inr (Some ''/tmp/logs'')"
    by (simp add: get_path_cfg_def get_cfg_def is_absolute_def path_str_def Path_of_def posix_root_def)
  have gn: "get_path_cfg ?cfg ''scripts'' = Inr None" "get_path_cfg ?cfg ''output.base'' = Inr None"
    "get_path_cfg ?cfg ''output.maps'' = Inr None" "get_path_cfg ?cfg ''output.timeseries'' = Inr None"
    "get_path_cfg ?cfg ''output.statistics'' = Inr None" "get_path_cfg ?cfg ''output.reports'' = Inr None"
    "get_path_cfg ?cfg ''templates'' = Inr None"
    by (simp_all add: get_path_cfg_def get_cfg_def)
  have ld: "load_config_cfg example_runtime ''config.json'' ?w =
      (Inr ?cfg, emit (Print ''Configuration loaded from: config.json'') ?w)"
    by (simp add: load_config_cfg_def open_read_def example_world_def example_runtime_simps)
  obtain w1 where sd: "setup_directories_cfg ?cfg (emit (Print ''Configuration loaded from: config.json'') ?w)
      = (Inr (), w1)" and w1: "unwritable w1 = {}" "dirs w1 = {''/tmp/logs''}" "\<not> root_handlers w1"
    by (simp add: setup_directories_cfg_def gp gn makedirs_def emit_def example_world_def)
  have lv: "get_cfg ?cfg ''debug.log_level'' (PStr ''INFO'') = PStr ''INFO''"
    by (simp add: get_cfg_def)
  obtain w2 where sl: "setup_logging_cfg example_runtime ?cfg w1 = (Inr (), w2)"
    using w1 by (simp add: setup_logging_cfg_def gp lv example_runtime_def path_str_def truediv_def
        Path_of_def posix_root_def Let_def)
  have ps: "path_str (Path_of ''config.json'') = ''config.json''"
    by (simp add: path_str_def Path_of_def posix_root_def)
  have i: "init_cfg example_runtime (Some ''config.json'') ?w = (Inr ?m, w2)"
    by (simp add: init_cfg_def ps ld sd sl)
  have 1: "(case init_cfg example_runtime (Some ''config.json'') ?w of
      (Inr m, w1) \<Rightarrow>
        fst (update_analysis_period_cfg example_runtime m (PInt 2018) (PInt 2019) w1) = Inl KeyError
    | (Inl e, w1) \<Rightarrow> False)"
    unfolding i by (simp add: update_analysis_period_cfg_def)
  have 2: "fst (update_analysis_period_01 example_runtime
          \<lparr>config_file = ''config.json'', config = PDict [(''analysis_period'', PInt 5)]\<rparr>
          (PInt 2018) (PInt 2019) (example_world Map.empty)) = Inl TypeError"
    by (simp add: update_analysis_period_01_def dict_get_def)
  have 3: "files (snd (snd (update_analysis_period_01 example_runtime
          \<lparr>config_file = ''config.json'',
           config = PDict [(''analysis_period'', PDict [(''start_year'', PInt 2015)])]\<rparr>
          (PInt 2018) (PInt 2019)
          ((example_world
             [''config.json'' \<mapsto> Some (PDict [(''analysis_period'', PDict [(''start_year'', PInt 2015)])])])
           \<lparr>unwritable := {''config.json''}\<rparr>)))) ''config.json'' =
     Some (Some (PDict [(''analysis_period'', PDict [(''start_year'', PInt 2015)])]))"
    by (simp add: update_analysis_period_01_def dict_get_def save_config_01_cases
        example_world_def emit_def)
  have np: "\<not> printable (PDict [(''analysis_period'',
              PDict [(''start_year'', PInt huge), (''end_year'', PInt 2019)])])"
    using huge_not_printable by simp
  have 4: "files (snd (snd (update_analysis_period_01 bounded_runtime
          \<lparr>config_file = ''config.json'',
           config = PDict [(''analysis_period'', PDict [(''start_year'', PInt 2015)])]\<rparr>
          (PInt huge) (PInt 2019)
          (example_world
             [''config.json'' \<mapsto> Some (PDict [(''analysis_period'', PDict [(''start_year'', PInt 2015)])])]))))
      ''config.json'' = Some None"
    using np
    by (simp add: update_analysis_period_01_def dict_get_def save_config_01_cases
        bounded_runtime_simps example_world_def emit_def del: printable.simps)
  show ?thesis using 1 2 3 4 by (intro conjI)
qed

end
